theory Spec2Isabelle
  imports Complex_Main
begin

section \<open>CatLife: the life-course simulation engine\<close>

text \<open>
  A shallow embedding of the simulation core of the CatLife application: the breed
  health registry (\<^verbatim>\<open>lib/catlife/breed-health-data.ts\<close>), the simulation engine
  (\<^verbatim>\<open>runSimulation\<close> and its helpers) and the simulation enhancer
  (\<^verbatim>\<open>enhanceSimulationLocally\<close>, \<^verbatim>\<open>enhanceSimulationWithGPT\<close>).

  Conventions. A JavaScript \<^verbatim>\<open>number\<close> that counts whole months or whole years of a
  cat's age (\<^verbatim>\<open>ageMonths\<close>, \<^verbatim>\<open>ageYears\<close>, the loop counters) is an \<^typ>\<open>int\<close>; every
  other \<^verbatim>\<open>number\<close> (weights, amounts, rates, registry ages such as an onset at 0.5
  years) is a \<^typ>\<open>real\<close>, so arithmetic is exact: the rounding error of IEEE doubles,
  NaN and the infinities are outside the model. A value of type \<^verbatim>\<open>T | null\<close> and an
  optional field are a \<^typ>\<open>'a option\<close>. Strings are lists of 8-bit characters, the code
  units 0 to 255 (Latin-1), and the string operations are those of JavaScript on such
  text; code units above 255 are outside the model. Field and constructor names are
  the source's; where two interfaces share a field name, or two unions share a literal, the
  name carries a prefix.
\<close>

subsection \<open>JavaScript primitives\<close>

text \<open>\<^verbatim>\<open>String.prototype.toLowerCase\<close> on one character: the letters A to Z (65 to 90) and
  the capital letters of Latin-1 (192 to 222, but not the multiplication sign 215) move up
  by 32; every other character stays.\<close>

definition lower_char :: "char \<Rightarrow> char" where
  "lower_char c =
     (let n = (of_char c :: nat) in
      if (65 \<le> n \<and> n \<le> 90) \<or> (192 \<le> n \<and> n \<le> 222 \<and> n \<noteq> 215)
      then char_of (n + 32) else c)"

definition toLowerCase :: "string \<Rightarrow> string" where
  "toLowerCase s = map lower_char s"

text \<open>White space of \<^verbatim>\<open>String.prototype.trim\<close> and of the pattern \<^verbatim>\<open>\s\<close>: tab, line
  feed, vertical tab, form feed, carriage return, space and the no-break space (160).\<close>

definition is_space :: "char \<Rightarrow> bool" where
  "is_space c = ((of_char c :: nat) \<in> {9, 10, 11, 12, 13, 32, 160})"

definition trim :: "string \<Rightarrow> string" where
  "trim s = rev (dropWhile is_space (rev (dropWhile is_space s)))"

text \<open>\<^verbatim>\<open>s.includes(sub)\<close>: \<open>sub\<close> occurs in \<open>s\<close> as a contiguous substring.\<close>

fun str_includes :: "string \<Rightarrow> string \<Rightarrow> bool" where
  "str_includes [] sub = (sub = [])"
| "str_includes (c # cs) sub = (take (length sub) (c # cs) = sub \<or> str_includes cs sub)"

text \<open>\<^verbatim>\<open>xs.join(sep)\<close>.\<close>

fun join :: "string \<Rightarrow> string list \<Rightarrow> string" where
  "join sep [] = []"
| "join sep [x] = x"
| "join sep (x # y # ys) = x @ sep @ join sep (y # ys)"

text \<open>\<^verbatim>\<open>s.replace(/\s/g, '-')\<close>.\<close>

definition replace_spaces :: "string \<Rightarrow> string" where
  "replace_spaces s = map (\<lambda>c. if is_space c then CHR ''-'' else c) s"

text \<open>Decimal rendering of a number inside a template string.\<close>

definition digit_char :: "nat \<Rightarrow> char" where
  "digit_char d = char_of (48 + d)"

fun nat_to_string :: "nat \<Rightarrow> string" where
  "nat_to_string n =
     (if n < 10 then [digit_char n] else nat_to_string (n div 10) @ [digit_char (n mod 10)])"

definition int_to_string :: "int \<Rightarrow> string" where
  "int_to_string i =
     (if i < 0 then CHR ''-'' # nat_to_string (nat (- i)) else nat_to_string (nat i))"

text \<open>
  A \<^typ>\<open>real\<close> in a template string. The breed alerts render registry ages and the months
  computed from them, which are whole numbers or have one decimal place; the rendering is
  exact for every number with at most 17 decimal places and is cut there otherwise.
\<close>

fun frac_digits :: "nat \<Rightarrow> real \<Rightarrow> string" where
  "frac_digits 0 x = []"
| "frac_digits (Suc n) x =
     (if x = 0 then []
      else let d = \<lfloor>x * 10\<rfloor> in digit_char (nat d) # frac_digits n (x * 10 - of_int d))"

definition number_to_string :: "real \<Rightarrow> string" where
  "number_to_string x =
     (let a = \<bar>x\<bar>; whole = \<lfloor>a\<rfloor>; fr = a - of_int whole in
      (if x < 0 then ''-'' else []) @ nat_to_string (nat whole) @
      (if fr = 0 then [] else CHR ''.'' # frac_digits 17 fr))"

text \<open>\<^verbatim>\<open>Math.round\<close>: the nearest integer, a tie going up.\<close>

definition Math_round :: "real \<Rightarrow> int" where
  "Math_round x = \<lfloor>x + 1 / 2\<rfloor>"

text \<open>
  Reading a property of an object literal, \<^verbatim>\<open>obj[key]\<close>: the object's own property if it
  has one; otherwise the lookup continues on \<^verbatim>\<open>Object.prototype\<close>, whose properties
  (\<^verbatim>\<open>constructor\<close>, \<^verbatim>\<open>__proto__\<close>, \<^verbatim>\<open>toString\<close>, ...) are functions or objects, not
  strings; otherwise the result is \<^verbatim>\<open>undefined\<close>.
\<close>

datatype 'a js_property = Own 'a | Inherited | Undefined

definition Object_prototype_keys :: "string list" where
  "Object_prototype_keys =
     [''constructor'', ''__proto__'', ''hasOwnProperty'', ''isPrototypeOf'',
      ''propertyIsEnumerable'', ''toLocaleString'', ''toString'', ''valueOf'',
      ''__defineGetter__'', ''__defineSetter__'', ''__lookupGetter__'', ''__lookupSetter__'']"

definition js_get :: "(string \<times> 'a) list \<Rightarrow> string \<Rightarrow> 'a js_property" where
  "js_get obj key =
     (case map_of obj key of
        Some v \<Rightarrow> Own v
      | None \<Rightarrow> if key \<in> set Object_prototype_keys then Inherited else Undefined)"

datatype js_error = TypeError

subsection \<open>Types (\<^verbatim>\<open>types/catlife.ts\<close>)\<close>

datatype Sex = sex_male | sex_female | sex_unknown
datatype BodyCondition = underweight | ideal | overweight | body_unknown
datatype IndoorOutdoor = indoor | outdoor | lifestyle_mixed
datatype WeightSource = user_estimate | vet_recent | source_unknown
datatype FoodType = dry | wet | food_mixed | raw | other
datatype LitterCleaningFrequency = daily | every_2_days | weekly | litter_unknown

record CatProfile =
  cat_id :: "string option"
  cat_name :: "string option"
  cat_ageYears :: "int option"
  cat_ageMonths :: "int option"
  sex :: "Sex option"
  neutered :: "bool option"
  cat_breed :: "string option"
  indoorOutdoor :: "IndoorOutdoor option"
  weightKg :: "real option"
  weightSource :: "WeightSource option"
  bodyCondition :: "BodyCondition option"
  knownConditions :: "string list"
  photoUrl :: "string option"
  avatarUrl :: "string option"

record CareRoutine =
  foodType :: "FoodType option"
  foodAmountOzPerDay :: "real option"
  feedingFrequency :: "nat option"
  treatsPerDay :: "real option"
  playMinutesPerDay :: "real option"
  vetVisitsPerYear :: "real option"
  litterCleaningFrequency :: "LitterCleaningFrequency option"

datatype HealthStatus = thriving | ok | risky | unhealthy
datatype AlertSeverity = info | warning | critical

record SimulationConfig =
  catProfile :: CatProfile
  careRoutine :: CareRoutine
  startAgeMonths :: int
  endAgeMonths :: int

record SimulationPoint =
  ageMonths :: int
  weightKgEstimate :: real
  healthStatus :: HealthStatus
  point_notes :: string

text \<open>An alert of the breed registry fires at twelve times an onset age in years, which
  the registry gives with a fraction; the age of an alert is a \<^typ>\<open>real\<close>.\<close>

record SimulationAlert =
  alert_id :: string
  alert_ageMonths :: real
  severity :: AlertSeverity
  message :: string
  recommendation :: string

record SimulationResult =
  points :: "SimulationPoint list"
  alerts :: "SimulationAlert list"
  summary :: string
  recommendations :: "string list"

text \<open>The type \<^verbatim>\<open>{ min: number; max: number }\<close> of weight and life-expectancy ranges.\<close>

record num_range =
  range_min :: real
  range_max :: real

subsection \<open>Breed health registry (\<^verbatim>\<open>lib/catlife/breed-health-data.ts\<close>)\<close>

datatype SizeCategory = size_small | size_medium | size_large
datatype RiskLevel = risk_low | risk_moderate | risk_high

record HealthRisk =
  condition :: string
  riskLevel :: RiskLevel
  typicalOnsetYears :: real
  monitoringAdvice :: string
  symptoms :: "string list option"

record ScreeningSchedule =
  screening_ageYears :: real
  screenings :: "string list"
  screening_reason :: string

record AgeSpecificAdvice =
  ageRange :: "real \<times> real"
  advice :: "string list"
  focus :: string

record BreedHealthProfile =
  breed :: string
  aliases :: "string list"
  sizeCategory :: SizeCategory
  lifeExpectancy :: num_range
  idealWeight :: num_range
  healthRisks :: "HealthRisk list"
  screeningSchedule :: "ScreeningSchedule list"
  ageSpecificAdvice :: "AgeSpecificAdvice list"
  generalNotes :: string

definition maineCoon :: BreedHealthProfile where
  "maineCoon =
    \<lparr>breed = ''Maine Coon'',
     aliases = [''maine coon'', ''mainecoon'', ''maine-coon''],
     sizeCategory = size_large,
     lifeExpectancy = \<lparr>range_min = 12, range_max = 15\<rparr>,
     idealWeight = \<lparr>range_min = 5.5, range_max = 10\<rparr>,
     healthRisks =
       [\<lparr>condition = ''Hypertrophic Cardiomyopathy (HCM)'',
         riskLevel = risk_high,
         typicalOnsetYears = 4,
         monitoringAdvice = ''Annual echocardiograms starting at age 3-4. Watch for lethargy, rapid breathing.'',
         symptoms = Some [''Lethargy'',
                           ''Rapid breathing'',
                           ''Open-mouth breathing'',
                           ''Decreased appetite'']\<rparr>,
        \<lparr>condition = ''Hip Dysplasia'',
         riskLevel = risk_moderate,
         typicalOnsetYears = 2,
         monitoringAdvice = ''Watch for difficulty jumping or climbing. X-rays if limping develops.'',
         symptoms = Some [''Difficulty jumping'', ''Limping'', ''Reluctance to climb stairs'']\<rparr>,
        \<lparr>condition = ''Spinal Muscular Atrophy (SMA)'',
         riskLevel = risk_low,
         typicalOnsetYears = 0.5,
         monitoringAdvice = ''Genetic testing available. Usually apparent in kittens.'',
         symptoms = Some [''Muscle weakness'', ''Abnormal gait'', ''Tremors'']\<rparr>,
        \<lparr>condition = ''Polycystic Kidney Disease (PKD)'',
         riskLevel = risk_moderate,
         typicalOnsetYears = 7,
         monitoringAdvice = ''Ultrasound screening after age 5. Monitor water intake.'',
         symptoms = Some [''Increased thirst'', ''Weight loss'', ''Lethargy'']\<rparr>],
     screeningSchedule =
       [\<lparr>screening_ageYears = 1,
         screenings = [''Baseline bloodwork'', ''Dental exam''],
         screening_reason = ''Establish baseline health markers''\<rparr>,
        \<lparr>screening_ageYears = 3,
         screenings = [''Echocardiogram'', ''Heart murmur check''],
         screening_reason = ''Early HCM detection - critical for Maine Coons''\<rparr>,
        \<lparr>screening_ageYears = 5,
         screenings = [''Echocardiogram'', ''Kidney ultrasound'', ''Full bloodwork''],
         screening_reason = ''Monitor heart and early kidney screening''\<rparr>,
        \<lparr>screening_ageYears = 7,
         screenings = [''Echocardiogram'', ''Kidney function panel'', ''Thyroid check''],
         screening_reason = ''Senior screening begins''\<rparr>,
        \<lparr>screening_ageYears = 10,
         screenings = [''Bi-annual echocardiogram'',
                        ''Complete senior panel'',
                        ''Blood pressure''],
         screening_reason = ''Intensive monitoring for geriatric care''\<rparr>],
     ageSpecificAdvice =
       [\<lparr>ageRange = (0, 2),
         advice = [''Support healthy bone development with quality nutrition'',
                    ''Monitor growth rate - Maine Coons grow until age 4-5'',
                    ''Establish jumping-friendly furniture arrangements''],
         focus = ''Growth & Development''\<rparr>,
        \<lparr>ageRange = (2, 5),
         advice = [''Schedule first echocardiogram by age 3-4'',
                    ''Learn to monitor resting respiratory rate at home'',
                    ''Maintain healthy weight to reduce heart strain''],
         focus = ''Heart Health Baseline''\<rparr>,
        \<lparr>ageRange = (5, 8),
         advice = [''Annual echocardiograms are essential'',
                    ''Begin kidney function monitoring'',
                    ''Watch for mobility changes - hip issues may emerge''],
         focus = ''Preventive Monitoring''\<rparr>,
        \<lparr>ageRange = (8, 12),
         advice = [''Bi-annual vet visits recommended'',
                    ''Consider joint supplements'',
                    ''Monitor for signs of heart disease progression''],
         focus = ''Senior Care''\<rparr>,
        \<lparr>ageRange = (12, 20),
         advice = [''Focus on comfort and pain management'',
                    ''Easy access to food, water, and litter'',
                    ''Regular heart monitoring continues''],
         focus = ''Quality of Life''\<rparr>],
     generalNotes =
       ''Maine Coons are gentle giants prone to heart disease. Regular cardiac screening is essential. They continue growing until age 4-5.''\<rparr>"

definition ragdoll :: BreedHealthProfile where
  "ragdoll =
    \<lparr>breed = ''Ragdoll'',
     aliases = [''ragdoll'', ''rag doll'', ''rag-doll''],
     sizeCategory = size_large,
     lifeExpectancy = \<lparr>range_min = 12, range_max = 17\<rparr>,
     idealWeight = \<lparr>range_min = 4.5, range_max = 9\<rparr>,
     healthRisks =
       [\<lparr>condition = ''Hypertrophic Cardiomyopathy (HCM)'',
         riskLevel = risk_high,
         typicalOnsetYears = 3,
         monitoringAdvice = ''Annual echocardiograms starting at age 2-3. Genetic test available.'',
         symptoms = Some [''Lethargy'', ''Rapid breathing'', ''Fainting'']\<rparr>,
        \<lparr>condition = ''Bladder Stones'',
         riskLevel = risk_moderate,
         typicalOnsetYears = 4,
         monitoringAdvice = ''Ensure adequate water intake. Watch for urinary difficulties.'',
         symptoms = Some [''Straining to urinate'',
                           ''Blood in urine'',
                           ''Frequent urination attempts'']\<rparr>,
        \<lparr>condition = ''Feline Infectious Peritonitis (FIP)'',
         riskLevel = risk_moderate,
         typicalOnsetYears = 1,
         monitoringAdvice = ''More susceptible than average. Watch for fever, weight loss.'',
         symptoms = Some [''Fever'', ''Weight loss'', ''Abdominal swelling'']\<rparr>],
     screeningSchedule =
       [\<lparr>screening_ageYears = 1,
         screenings = [''Baseline bloodwork'', ''Urinalysis''],
         screening_reason = ''Establish baseline''\<rparr>,
        \<lparr>screening_ageYears = 2,
         screenings = [''Echocardiogram'', ''Genetic HCM test''],
         screening_reason = ''Early cardiac screening''\<rparr>,
        \<lparr>screening_ageYears = 5,
         screenings = [''Echocardiogram'', ''Urinalysis'', ''Kidney panel''],
         screening_reason = ''Regular monitoring''\<rparr>,
        \<lparr>screening_ageYears = 8,
         screenings = [''Full senior panel'', ''Echocardiogram'', ''Blood pressure''],
         screening_reason = ''Senior screening''\<rparr>],
     ageSpecificAdvice =
       [\<lparr>ageRange = (0, 2),
         advice = [''Complete vaccination schedule is crucial'',
                    ''Monitor for FIP symptoms'',
                    ''Support slow, healthy growth''],
         focus = ''Growth & Immunity''\<rparr>,
        \<lparr>ageRange = (2, 5),
         advice = [''First echocardiogram by age 2-3'',
                    ''Encourage water intake for bladder health'',
                    ''Consider wet food to increase hydration''],
         focus = ''Heart & Urinary Health''\<rparr>,
        \<lparr>ageRange = (5, 10),
         advice = [''Annual heart screening'',
                    ''Regular urinalysis for bladder health'',
                    ''Maintain healthy weight''],
         focus = ''Preventive Care''\<rparr>,
        \<lparr>ageRange = (10, 20),
         advice = [''Bi-annual checkups'',
                    ''Joint support as needed'',
                    ''Continue heart monitoring''],
         focus = ''Senior Support''\<rparr>],
     generalNotes =
       ''Ragdolls are docile and often don't show pain. Regular health checks are important as they may hide symptoms.''\<rparr>"

definition norwegianForest :: BreedHealthProfile where
  "norwegianForest =
    \<lparr>breed = ''Norwegian Forest Cat'',
     aliases = [''norwegian forest'', ''norwegian forest cat'', ''wegie'', ''norsk skogkatt''],
     sizeCategory = size_large,
     lifeExpectancy = \<lparr>range_min = 12, range_max = 16\<rparr>,
     idealWeight = \<lparr>range_min = 4.5, range_max = 9\<rparr>,
     healthRisks =
       [\<lparr>condition = ''Glycogen Storage Disease IV (GSD IV)'',
         riskLevel = risk_moderate,
         typicalOnsetYears = 0.5,
         monitoringAdvice = ''Genetic test available. Fatal if present - usually shows in kittens.'',
         symptoms = Some [''Muscle weakness'', ''Fever'', ''Tremors'']\<rparr>,
        \<lparr>condition = ''Hypertrophic Cardiomyopathy (HCM)'',
         riskLevel = risk_moderate,
         typicalOnsetYears = 5,
         monitoringAdvice = ''Annual heart checks after age 4.'',
         symptoms = Some [''Lethargy'', ''Breathing difficulties'']\<rparr>,
        \<lparr>condition = ''Hip Dysplasia'',
         riskLevel = risk_moderate,
         typicalOnsetYears = 3,
         monitoringAdvice = ''Monitor mobility, especially as they age.'',
         symptoms = Some [''Difficulty jumping'', ''Stiffness'']\<rparr>],
     screeningSchedule =
       [\<lparr>screening_ageYears = 1,
         screenings = [''GSD IV genetic test'', ''Baseline bloodwork''],
         screening_reason = ''Rule out genetic disease''\<rparr>,
        \<lparr>screening_ageYears = 4,
         screenings = [''Echocardiogram'', ''Hip evaluation''],
         screening_reason = ''Begin cardiac monitoring''\<rparr>,
        \<lparr>screening_ageYears = 7,
         screenings = [''Full panel'', ''Heart check'', ''Joint assessment''],
         screening_reason = ''Senior preparation''\<rparr>],
     ageSpecificAdvice =
       [\<lparr>ageRange = (0, 2),
         advice = [''GSD IV test if not done by breeder'',
                    ''Support healthy coat with omega fatty acids'',
                    ''Establish grooming routine for long coat''],
         focus = ''Genetic Screening''\<rparr>,
        \<lparr>ageRange = (2, 6),
         advice = [''Regular grooming to prevent mats'',
                    ''Monitor activity levels for joint health'',
                    ''Begin cardiac screening at 4''],
         focus = ''Coat & Joint Care''\<rparr>,
        \<lparr>ageRange = (6, 12),
         advice = [''Joint supplements may help'',
                    ''Continue regular heart checks'',
                    ''Watch weight as activity decreases''],
         focus = ''Senior Transition''\<rparr>,
        \<lparr>ageRange = (12, 20),
         advice = [''Easy access accommodations'',
                    ''Regular vet visits'',
                    ''Pain management if needed''],
         focus = ''Comfort Care''\<rparr>],
     generalNotes =
       ''Hardy breed adapted to cold climates. Requires regular grooming. GSD IV is a serious genetic concern.''\<rparr>"

definition britishShorthair :: BreedHealthProfile where
  "britishShorthair =
    \<lparr>breed = ''British Shorthair'',
     aliases = [''british shorthair'', ''british blue'', ''bsh''],
     sizeCategory = size_large,
     lifeExpectancy = \<lparr>range_min = 12, range_max = 17\<rparr>,
     idealWeight = \<lparr>range_min = 4, range_max = 8\<rparr>,
     healthRisks =
       [\<lparr>condition = ''Hypertrophic Cardiomyopathy (HCM)'',
         riskLevel = risk_high,
         typicalOnsetYears = 4,
         monitoringAdvice = ''Annual echocardiograms starting at age 3.'',
         symptoms = Some [''Lethargy'', ''Labored breathing'', ''Weakness in hind legs'']\<rparr>,
        \<lparr>condition = ''Obesity'',
         riskLevel = risk_high,
         typicalOnsetYears = 2,
         monitoringAdvice = ''Strict portion control essential. This breed gains weight easily.'',
         symptoms = Some [''Visible weight gain'',
                           ''Decreased activity'',
                           ''Difficulty grooming'']\<rparr>,
        \<lparr>condition = ''Polycystic Kidney Disease (PKD)'',
         riskLevel = risk_moderate,
         typicalOnsetYears = 7,
         monitoringAdvice = ''Ultrasound screening after age 5.'',
         symptoms = Some [''Increased thirst'', ''Weight loss'']\<rparr>],
     screeningSchedule =
       [\<lparr>screening_ageYears = 1,
         screenings = [''Weight assessment'', ''Baseline bloodwork''],
         screening_reason = ''Establish healthy baseline''\<rparr>,
        \<lparr>screening_ageYears = 3,
         screenings = [''Echocardiogram'', ''Body condition score''],
         screening_reason = ''Heart and weight monitoring''\<rparr>,
        \<lparr>screening_ageYears = 6,
         screenings = [''Kidney ultrasound'', ''Heart check'', ''Diabetes screening''],
         screening_reason = ''Preventive screening''\<rparr>,
        \<lparr>screening_ageYears = 9,
         screenings = [''Full senior panel'', ''Cardiac assessment''],
         screening_reason = ''Senior care''\<rparr>],
     ageSpecificAdvice =
       [\<lparr>ageRange = (0, 2),
         advice = [''Establish portion-controlled feeding early'',
                    ''Encourage active play despite calm nature'',
                    ''Avoid free-feeding''],
         focus = ''Weight Management Foundation''\<rparr>,
        \<lparr>ageRange = (2, 5),
         advice = [''First echocardiogram by age 3'',
                    ''Monitor weight monthly'',
                    ''Interactive play sessions daily''],
         focus = ''Heart & Weight''\<rparr>,
        \<lparr>ageRange = (5, 10),
         advice = [''Watch for diabetes signs'',
                    ''Annual heart screening'',
                    ''Kidney monitoring begins''],
         focus = ''Metabolic Health''\<rparr>,
        \<lparr>ageRange = (10, 20),
         advice = [''Careful calorie management'',
                    ''Regular cardiac checks'',
                    ''Joint support for heavier cats''],
         focus = ''Senior Weight & Heart''\<rparr>],
     generalNotes =
       ''Calm, easy-going breed prone to obesity. Requires strict diet management and regular exercise encouragement.''\<rparr>"

definition savannah :: BreedHealthProfile where
  "savannah =
    \<lparr>breed = ''Savannah'',
     aliases = [''savannah'', ''savannah cat''],
     sizeCategory = size_large,
     lifeExpectancy = \<lparr>range_min = 12, range_max = 20\<rparr>,
     idealWeight = \<lparr>range_min = 5.5, range_max = 11\<rparr>,
     healthRisks =
       [\<lparr>condition = ''Hypertrophic Cardiomyopathy (HCM)'',
         riskLevel = risk_moderate,
         typicalOnsetYears = 5,
         monitoringAdvice = ''Annual heart screening after age 4.'',
         symptoms = Some [''Lethargy'', ''Breathing issues'']\<rparr>,
        \<lparr>condition = ''Hybrid Male Sterility'',
         riskLevel = risk_low,
         typicalOnsetYears = 0,
         monitoringAdvice = ''Early generation males (F1-F4) are typically sterile.'',
         symptoms = Some []\<rparr>],
     screeningSchedule =
       [\<lparr>screening_ageYears = 2,
         screenings = [''Baseline bloodwork'', ''Heart check''],
         screening_reason = ''Establish baseline''\<rparr>,
        \<lparr>screening_ageYears = 5,
         screenings = [''Echocardiogram'', ''Full panel''],
         screening_reason = ''Cardiac monitoring''\<rparr>,
        \<lparr>screening_ageYears = 8,
         screenings = [''Senior screening'', ''Heart assessment''],
         screening_reason = ''Senior preparation''\<rparr>],
     ageSpecificAdvice =
       [\<lparr>ageRange = (0, 3),
         advice = [''Provide extensive enrichment and space'',
                    ''High-protein diet essential'',
                    ''Socialize well during this period''],
         focus = ''High Energy Management''\<rparr>,
        \<lparr>ageRange = (3, 8),
         advice = [''Maintain high activity levels'',
                    ''Regular heart monitoring'',
                    ''Mental stimulation crucial''],
         focus = ''Active Adult Care''\<rparr>,
        \<lparr>ageRange = (8, 15),
         advice = [''May still be very active'',
                    ''Regular health checks'',
                    ''Watch for any slowing down''],
         focus = ''Mature Care''\<rparr>,
        \<lparr>ageRange = (15, 20),
         advice = [''Adjust activity to comfort'',
                    ''Regular monitoring'',
                    ''Comfort-focused care''],
         focus = ''Senior Years''\<rparr>],
     generalNotes =
       ''Exotic hybrid breed requiring experienced owners. Very active and intelligent. Long lifespan if well cared for.''\<rparr>"

definition persian :: BreedHealthProfile where
  "persian =
    \<lparr>breed = ''Persian'',
     aliases = [''persian'', ''persian cat'', ''longhair''],
     sizeCategory = size_medium,
     lifeExpectancy = \<lparr>range_min = 12, range_max = 17\<rparr>,
     idealWeight = \<lparr>range_min = 3.5, range_max = 5.5\<rparr>,
     healthRisks =
       [\<lparr>condition = ''Polycystic Kidney Disease (PKD)'',
         riskLevel = risk_high,
         typicalOnsetYears = 7,
         monitoringAdvice = ''Genetic test available. Ultrasound screening by age 5.'',
         symptoms = Some [''Increased thirst'',
                           ''Increased urination'',
                           ''Weight loss'',
                           ''Lethargy'']\<rparr>,
        \<lparr>condition = ''Brachycephalic Airway Syndrome'',
         riskLevel = risk_high,
         typicalOnsetYears = 0,
         monitoringAdvice = ''Present from birth due to flat face. Avoid heat and stress.'',
         symptoms = Some [''Noisy breathing'', ''Snoring'', ''Exercise intolerance'']\<rparr>,
        \<lparr>condition = ''Progressive Retinal Atrophy (PRA)'',
         riskLevel = risk_moderate,
         typicalOnsetYears = 4,
         monitoringAdvice = ''Eye exams yearly. Watch for night blindness.'',
         symptoms = Some [''Night blindness'', ''Dilated pupils'', ''Bumping into objects'']\<rparr>,
        \<lparr>condition = ''Hypertrophic Cardiomyopathy (HCM)'',
         riskLevel = risk_moderate,
         typicalOnsetYears = 5,
         monitoringAdvice = ''Annual heart screening after age 4.'',
         symptoms = Some [''Lethargy'', ''Breathing difficulties'']\<rparr>],
     screeningSchedule =
       [\<lparr>screening_ageYears = 1,
         screenings = [''PKD genetic test'', ''Eye exam'', ''Baseline bloodwork''],
         screening_reason = ''Early genetic screening''\<rparr>,
        \<lparr>screening_ageYears = 3,
         screenings = [''Eye exam'', ''Heart check'', ''Kidney ultrasound''],
         screening_reason = ''Preventive monitoring''\<rparr>,
        \<lparr>screening_ageYears = 5,
         screenings = [''Kidney ultrasound'', ''Full bloodwork'', ''Echocardiogram''],
         screening_reason = ''PKD typically shows by now''\<rparr>,
        \<lparr>screening_ageYears = 8,
         screenings = [''Complete senior panel'', ''Kidney function'', ''Eye exam''],
         screening_reason = ''Senior monitoring''\<rparr>],
     ageSpecificAdvice =
       [\<lparr>ageRange = (0, 2),
         advice = [''Keep face clean and dry'',
                    ''Monitor breathing in warm weather'',
                    ''Daily eye cleaning routine'',
                    ''PKD genetic test if not done''],
         focus = ''Breathing & Eye Care''\<rparr>,
        \<lparr>ageRange = (2, 5),
         advice = [''Begin kidney screening by age 3'',
                    ''Annual eye exams essential'',
                    ''Maintain grooming routine for coat''],
         focus = ''Kidney & Vision Monitoring''\<rparr>,
        \<lparr>ageRange = (5, 10),
         advice = [''Regular kidney function tests'',
                    ''Consider renal-support diet if needed'',
                    ''Keep stress levels low'',
                    ''Monitor water intake''],
         focus = ''Kidney Health Focus''\<rparr>,
        \<lparr>ageRange = (10, 20),
         advice = [''Kidney management is key'',
                    ''Climate control important'',
                    ''Regular gentle grooming'',
                    ''Easy access to resources''],
         focus = ''Supportive Care''\<rparr>],
     generalNotes =
       ''Beautiful but high-maintenance breed. Flat face requires special care. PKD is a major concern - genetic testing highly recommended.''\<rparr>"

definition bengal :: BreedHealthProfile where
  "bengal =
    \<lparr>breed = ''Bengal'',
     aliases = [''bengal'', ''bengal cat''],
     sizeCategory = size_medium,
     lifeExpectancy = \<lparr>range_min = 12, range_max = 16\<rparr>,
     idealWeight = \<lparr>range_min = 4, range_max = 7\<rparr>,
     healthRisks =
       [\<lparr>condition = ''Pyruvate Kinase Deficiency (PK Deficiency)'',
         riskLevel = risk_moderate,
         typicalOnsetYears = 2,
         monitoringAdvice = ''Genetic test available. Causes anemia.'',
         symptoms = Some [''Lethargy'', ''Pale gums'', ''Weakness'']\<rparr>,
        \<lparr>condition = ''Hypertrophic Cardiomyopathy (HCM)'',
         riskLevel = risk_moderate,
         typicalOnsetYears = 4,
         monitoringAdvice = ''Annual echocardiograms after age 3.'',
         symptoms = Some [''Lethargy'', ''Rapid breathing'']\<rparr>,
        \<lparr>condition = ''Progressive Retinal Atrophy (PRA)'',
         riskLevel = risk_moderate,
         typicalOnsetYears = 3,
         monitoringAdvice = ''Genetic test available. Annual eye exams.'',
         symptoms = Some [''Night blindness'', ''Vision changes'']\<rparr>,
        \<lparr>condition = ''Flat Chested Kitten Syndrome'',
         riskLevel = risk_low,
         typicalOnsetYears = 0,
         monitoringAdvice = ''Apparent at birth. Reputable breeders screen for this.'',
         symptoms = Some [''Flattened chest'', ''Breathing difficulties in kittens'']\<rparr>],
     screeningSchedule =
       [\<lparr>screening_ageYears = 1,
         screenings = [''PK deficiency test'', ''PRA genetic test'', ''Baseline bloodwork''],
         screening_reason = ''Genetic screening''\<rparr>,
        \<lparr>screening_ageYears = 3,
         screenings = [''Echocardiogram'', ''Eye exam''],
         screening_reason = ''Begin cardiac monitoring''\<rparr>,
        \<lparr>screening_ageYears = 6,
         screenings = [''Heart check'', ''Full bloodwork'', ''Eye exam''],
         screening_reason = ''Ongoing monitoring''\<rparr>,
        \<lparr>screening_ageYears = 10,
         screenings = [''Senior panel'', ''Cardiac assessment''],
         screening_reason = ''Senior care''\<rparr>],
     ageSpecificAdvice =
       [\<lparr>ageRange = (0, 2),
         advice = [''Genetic testing for PK and PRA'',
                    ''Provide extensive exercise opportunities'',
                    ''Mental stimulation is crucial'',
                    ''High-protein diet supports activity level''],
         focus = ''Energy & Genetics''\<rparr>,
        \<lparr>ageRange = (2, 6),
         advice = [''First echocardiogram by age 3'',
                    ''Maintain high activity lifestyle'',
                    ''Regular eye exams'',
                    ''Monitor energy levels for anemia signs''],
         focus = ''Heart & Activity''\<rparr>,
        \<lparr>ageRange = (6, 12),
         advice = [''Continue active lifestyle'',
                    ''Annual heart screening'',
                    ''Watch for vision changes'',
                    ''Regular health checks''],
         focus = ''Maintaining Vitality''\<rparr>,
        \<lparr>ageRange = (12, 20),
         advice = [''Bengals often remain active into old age'',
                    ''Adjust play to comfort level'',
                    ''Regular monitoring'',
                    ''Joint support as needed''],
         focus = ''Active Senior''\<rparr>],
     generalNotes =
       ''Extremely active and intelligent breed. Requires lots of stimulation. Genetic testing recommended for PK deficiency and PRA.''\<rparr>"

definition siamese :: BreedHealthProfile where
  "siamese =
    \<lparr>breed = ''Siamese'',
     aliases = [''siamese'', ''siamese cat'', ''meezer''],
     sizeCategory = size_medium,
     lifeExpectancy = \<lparr>range_min = 12, range_max = 20\<rparr>,
     idealWeight = \<lparr>range_min = 3.5, range_max = 5.5\<rparr>,
     healthRisks =
       [\<lparr>condition = ''Amyloidosis'',
         riskLevel = risk_high,
         typicalOnsetYears = 7,
         monitoringAdvice = ''Liver form common in Siamese. Regular bloodwork to monitor liver function.'',
         symptoms = Some [''Lethargy'', ''Weight loss'', ''Jaundice'', ''Loss of appetite'']\<rparr>,
        \<lparr>condition = ''Dental Disease'',
         riskLevel = risk_high,
         typicalOnsetYears = 2,
         monitoringAdvice = ''Annual dental exams. Consider dental diet or regular brushing.'',
         symptoms = Some [''Bad breath'', ''Difficulty eating'', ''Drooling'', ''Red gums'']\<rparr>,
        \<lparr>condition = ''Respiratory Issues'',
         riskLevel = risk_moderate,
         typicalOnsetYears = 0,
         monitoringAdvice = ''More prone to asthma and bronchial disease.'',
         symptoms = Some [''Coughing'', ''Wheezing'', ''Labored breathing'']\<rparr>,
        \<lparr>condition = ''Progressive Retinal Atrophy (PRA)'',
         riskLevel = risk_moderate,
         typicalOnsetYears = 3,
         monitoringAdvice = ''Annual eye exams recommended.'',
         symptoms = Some [''Night blindness'', ''Dilated pupils'']\<rparr>],
     screeningSchedule =
       [\<lparr>screening_ageYears = 1,
         screenings = [''Dental exam'', ''Baseline bloodwork'', ''Eye exam''],
         screening_reason = ''Establish baseline''\<rparr>,
        \<lparr>screening_ageYears = 3,
         screenings = [''Dental cleaning if needed'', ''Liver panel'', ''Eye exam''],
         screening_reason = ''Early monitoring''\<rparr>,
        \<lparr>screening_ageYears = 6,
         screenings = [''Full bloodwork including liver'',
                        ''Dental assessment'',
                        ''Respiratory check''],
         screening_reason = ''Amyloidosis monitoring begins''\<rparr>,
        \<lparr>screening_ageYears = 9,
         screenings = [''Senior panel with liver focus'', ''Dental care'', ''Full exam''],
         screening_reason = ''Senior care''\<rparr>],
     ageSpecificAdvice =
       [\<lparr>ageRange = (0, 2),
         advice = [''Start dental care routine early'',
                    ''Consider dental-friendly diet'',
                    ''Socialize well - Siamese are very social'',
                    ''Monitor for respiratory issues''],
         focus = ''Dental Foundation''\<rparr>,
        \<lparr>ageRange = (2, 6),
         advice = [''Regular dental checkups essential'',
                    ''Watch for signs of liver issues'',
                    ''Keep stress low - they're sensitive'',
                    ''Mental stimulation crucial''],
         focus = ''Dental & Liver Health''\<rparr>,
        \<lparr>ageRange = (6, 12),
         advice = [''Liver function monitoring important'',
                    ''Continue dental care'',
                    ''Watch for appetite changes'',
                    ''Regular comprehensive bloodwork''],
         focus = ''Amyloidosis Watch''\<rparr>,
        \<lparr>ageRange = (12, 20),
         advice = [''Siamese often live into late teens'',
                    ''Monitor liver and kidney function'',
                    ''Dental health remains important'',
                    ''Lots of companionship needed''],
         focus = ''Long-Lived Senior''\<rparr>],
     generalNotes =
       ''Vocal, social breed that bonds deeply. Prone to dental issues and liver amyloidosis. Often lives 15-20 years with good care.''\<rparr>"

definition abyssinian :: BreedHealthProfile where
  "abyssinian =
    \<lparr>breed = ''Abyssinian'',
     aliases = [''abyssinian'', ''aby'', ''abyssinian cat''],
     sizeCategory = size_medium,
     lifeExpectancy = \<lparr>range_min = 12, range_max = 15\<rparr>,
     idealWeight = \<lparr>range_min = 3, range_max = 5\<rparr>,
     healthRisks =
       [\<lparr>condition = ''Renal Amyloidosis'',
         riskLevel = risk_high,
         typicalOnsetYears = 5,
         monitoringAdvice = ''Regular kidney function tests starting at age 4.'',
         symptoms = Some [''Increased thirst'', ''Weight loss'', ''Lethargy'']\<rparr>,
        \<lparr>condition = ''Pyruvate Kinase Deficiency (PK Deficiency)'',
         riskLevel = risk_moderate,
         typicalOnsetYears = 2,
         monitoringAdvice = ''Genetic test available.'',
         symptoms = Some [''Anemia'', ''Lethargy'', ''Pale gums'']\<rparr>,
        \<lparr>condition = ''Progressive Retinal Atrophy (PRA)'',
         riskLevel = risk_moderate,
         typicalOnsetYears = 3,
         monitoringAdvice = ''Genetic test available. Annual eye exams.'',
         symptoms = Some [''Night blindness'', ''Vision loss'']\<rparr>,
        \<lparr>condition = ''Patellar Luxation'',
         riskLevel = risk_moderate,
         typicalOnsetYears = 2,
         monitoringAdvice = ''Watch for limping or skipping gait.'',
         symptoms = Some [''Limping'', ''Holding leg up'', ''Skipping gait'']\<rparr>],
     screeningSchedule =
       [\<lparr>screening_ageYears = 1,
         screenings = [''PK deficiency test'', ''PRA test'', ''Baseline bloodwork''],
         screening_reason = ''Genetic screening''\<rparr>,
        \<lparr>screening_ageYears = 4,
         screenings = [''Kidney function panel'', ''Eye exam'', ''Joint assessment''],
         screening_reason = ''Begin amyloidosis monitoring''\<rparr>,
        \<lparr>screening_ageYears = 7,
         screenings = [''Full bloodwork'', ''Kidney ultrasound'', ''Heart check''],
         screening_reason = ''Senior preparation''\<rparr>,
        \<lparr>screening_ageYears = 10,
         screenings = [''Comprehensive senior panel'', ''Kidney monitoring''],
         screening_reason = ''Senior care''\<rparr>],
     ageSpecificAdvice =
       [\<lparr>ageRange = (0, 2),
         advice = [''Complete genetic testing'',
                    ''Provide lots of climbing and play'',
                    ''Monitor joints during growth'',
                    ''High-quality protein diet''],
         focus = ''Genetic Testing & Activity''\<rparr>,
        \<lparr>ageRange = (2, 5),
         advice = [''Establish kidney function baseline by age 4'',
                    ''Encourage hydration'',
                    ''Regular eye exams'',
                    ''Monitor activity levels for anemia''],
         focus = ''Kidney Baseline''\<rparr>,
        \<lparr>ageRange = (5, 10),
         advice = [''Regular kidney monitoring crucial'',
                    ''Consider kidney-supportive diet'',
                    ''Watch water intake closely'',
                    ''Continue active lifestyle''],
         focus = ''Kidney Health Priority''\<rparr>,
        \<lparr>ageRange = (10, 15),
         advice = [''Intensive kidney monitoring'',
                    ''Joint support if needed'',
                    ''Keep activity appropriate'',
                    ''Regular comprehensive checks''],
         focus = ''Senior Support''\<rparr>],
     generalNotes =
       ''Active, playful breed with a shorter coat. Renal amyloidosis is a major concern - early and regular kidney monitoring essential.''\<rparr>"

definition exoticShorthair :: BreedHealthProfile where
  "exoticShorthair =
    \<lparr>breed = ''Exotic Shorthair'',
     aliases = [''exotic shorthair'', ''exotic'', ''shorthaired persian''],
     sizeCategory = size_medium,
     lifeExpectancy = \<lparr>range_min = 12, range_max = 15\<rparr>,
     idealWeight = \<lparr>range_min = 3.5, range_max = 6\<rparr>,
     healthRisks =
       [\<lparr>condition = ''Polycystic Kidney Disease (PKD)'',
         riskLevel = risk_high,
         typicalOnsetYears = 7,
         monitoringAdvice = ''Same as Persian. Genetic test and ultrasound screening.'',
         symptoms = Some [''Increased thirst'', ''Weight loss'', ''Lethargy'']\<rparr>,
        \<lparr>condition = ''Brachycephalic Airway Syndrome'',
         riskLevel = risk_high,
         typicalOnsetYears = 0,
         monitoringAdvice = ''Flat face causes breathing issues. Avoid heat stress.'',
         symptoms = Some [''Noisy breathing'', ''Snoring'', ''Heat intolerance'']\<rparr>,
        \<lparr>condition = ''Dental Crowding'',
         riskLevel = risk_moderate,
         typicalOnsetYears = 1,
         monitoringAdvice = ''Flat face can cause dental issues. Regular dental exams.'',
         symptoms = Some [''Bad breath'', ''Difficulty eating'']\<rparr>],
     screeningSchedule =
       [\<lparr>screening_ageYears = 1,
         screenings = [''PKD genetic test'', ''Dental exam'', ''Baseline bloodwork''],
         screening_reason = ''Genetic screening''\<rparr>,
        \<lparr>screening_ageYears = 4,
         screenings = [''Kidney ultrasound'', ''Dental assessment''],
         screening_reason = ''PKD monitoring''\<rparr>,
        \<lparr>screening_ageYears = 7,
         screenings = [''Full panel'', ''Kidney function'', ''Respiratory assessment''],
         screening_reason = ''Senior preparation''\<rparr>],
     ageSpecificAdvice =
       [\<lparr>ageRange = (0, 3),
         advice = [''Keep environment cool'',
                    ''Monitor breathing especially in summer'',
                    ''Regular dental care'',
                    ''PKD genetic test''],
         focus = ''Breathing & Dental''\<rparr>,
        \<lparr>ageRange = (3, 7),
         advice = [''Begin kidney screening'',
                    ''Maintain dental health'',
                    ''Climate control important'',
                    ''Monitor weight''],
         focus = ''Kidney Monitoring''\<rparr>,
        \<lparr>ageRange = (7, 15),
         advice = [''Regular kidney monitoring'',
                    ''Dental care continues'',
                    ''Keep stress low'',
                    ''Easy breathing environment''],
         focus = ''Senior Care''\<rparr>],
     generalNotes =
       ''Persian temperament with short coat. Same flat-face issues as Persian. PKD testing essential.''\<rparr>"

definition burmese :: BreedHealthProfile where
  "burmese =
    \<lparr>breed = ''Burmese'',
     aliases = [''burmese'', ''burmese cat''],
     sizeCategory = size_medium,
     lifeExpectancy = \<lparr>range_min = 15, range_max = 18\<rparr>,
     idealWeight = \<lparr>range_min = 3.5, range_max = 5.5\<rparr>,
     healthRisks =
       [\<lparr>condition = ''Diabetes Mellitus'',
         riskLevel = risk_high,
         typicalOnsetYears = 8,
         monitoringAdvice = ''More prone than other breeds. Regular glucose monitoring after age 7.'',
         symptoms = Some [''Increased thirst'',
                           ''Increased urination'',
                           ''Weight loss despite eating'']\<rparr>,
        \<lparr>condition = ''Hypokalaemia'',
         riskLevel = risk_moderate,
         typicalOnsetYears = 3,
         monitoringAdvice = ''Genetic predisposition to low potassium. Bloodwork monitoring.'',
         symptoms = Some [''Muscle weakness'', ''Difficulty walking'', ''Head droop'']\<rparr>,
        \<lparr>condition = ''Cranial Deformities'',
         riskLevel = risk_low,
         typicalOnsetYears = 0,
         monitoringAdvice = ''Present at birth in affected kittens. Reputable breeders screen.'',
         symptoms = Some []\<rparr>],
     screeningSchedule =
       [\<lparr>screening_ageYears = 2,
         screenings = [''Baseline bloodwork including potassium'', ''General health check''],
         screening_reason = ''Establish baseline''\<rparr>,
        \<lparr>screening_ageYears = 6,
         screenings = [''Glucose screening'', ''Potassium levels'', ''Full panel''],
         screening_reason = ''Pre-diabetes monitoring''\<rparr>,
        \<lparr>screening_ageYears = 9,
         screenings = [''Glucose tolerance'', ''Full senior panel''],
         screening_reason = ''Diabetes monitoring''\<rparr>,
        \<lparr>screening_ageYears = 12,
         screenings = [''Comprehensive senior workup'', ''Glucose monitoring''],
         screening_reason = ''Senior care''\<rparr>],
     ageSpecificAdvice =
       [\<lparr>ageRange = (0, 3),
         advice = [''Monitor potassium levels'',
                    ''High-quality diet'',
                    ''Regular exercise to maintain weight'',
                    ''Socialize well''],
         focus = ''Establishing Health''\<rparr>,
        \<lparr>ageRange = (3, 7),
         advice = [''Watch weight carefully'',
                    ''Regular bloodwork'',
                    ''Maintain active lifestyle'',
                    ''Avoid overfeeding''],
         focus = ''Metabolic Health''\<rparr>,
        \<lparr>ageRange = (7, 12),
         advice = [''Regular glucose monitoring'',
                    ''Weight management critical'',
                    ''Consider low-carb diet'',
                    ''Watch for diabetes signs''],
         focus = ''Diabetes Prevention''\<rparr>,
        \<lparr>ageRange = (12, 20),
         advice = [''Burmese often live 15-18 years'',
                    ''Continue metabolic monitoring'',
                    ''Maintain healthy weight'',
                    ''Regular comprehensive exams''],
         focus = ''Long-Lived Senior''\<rparr>],
     generalNotes =
       ''Affectionate, people-oriented breed with long lifespan. Higher diabetes risk requires weight management and glucose monitoring.''\<rparr>"

definition orientalShorthair :: BreedHealthProfile where
  "orientalShorthair =
    \<lparr>breed = ''Oriental Shorthair'',
     aliases = [''oriental shorthair'', ''oriental'', ''osh''],
     sizeCategory = size_medium,
     lifeExpectancy = \<lparr>range_min = 12, range_max = 15\<rparr>,
     idealWeight = \<lparr>range_min = 3, range_max = 5\<rparr>,
     healthRisks =
       [\<lparr>condition = ''Amyloidosis (Liver)'',
         riskLevel = risk_high,
         typicalOnsetYears = 6,
         monitoringAdvice = ''Related to Siamese. Regular liver function tests.'',
         symptoms = Some [''Lethargy'', ''Weight loss'', ''Jaundice'']\<rparr>,
        \<lparr>condition = ''Dilated Cardiomyopathy (DCM)'',
         riskLevel = risk_moderate,
         typicalOnsetYears = 5,
         monitoringAdvice = ''Annual heart screening after age 4.'',
         symptoms = Some [''Lethargy'', ''Breathing difficulties'', ''Weakness'']\<rparr>,
        \<lparr>condition = ''Dental Disease'',
         riskLevel = risk_moderate,
         typicalOnsetYears = 2,
         monitoringAdvice = ''Similar to Siamese. Regular dental care essential.'',
         symptoms = Some [''Bad breath'', ''Red gums'', ''Difficulty eating'']\<rparr>],
     screeningSchedule =
       [\<lparr>screening_ageYears = 2,
         screenings = [''Dental exam'', ''Baseline bloodwork''],
         screening_reason = ''Establish baseline''\<rparr>,
        \<lparr>screening_ageYears = 4,
         screenings = [''Heart check'', ''Liver panel'', ''Dental assessment''],
         screening_reason = ''Begin cardiac monitoring''\<rparr>,
        \<lparr>screening_ageYears = 7,
         screenings = [''Full bloodwork'', ''Echocardiogram'', ''Dental care''],
         screening_reason = ''Senior preparation''\<rparr>],
     ageSpecificAdvice =
       [\<lparr>ageRange = (0, 3),
         advice = [''Begin dental routine early'',
                    ''High-protein diet'',
                    ''Lots of social interaction'',
                    ''Mental stimulation crucial''],
         focus = ''Dental Care Start''\<rparr>,
        \<lparr>ageRange = (3, 7),
         advice = [''Begin cardiac screening'',
                    ''Monitor liver function'',
                    ''Continue dental care'',
                    ''Keep active and engaged''],
         focus = ''Heart & Liver Watch''\<rparr>,
        \<lparr>ageRange = (7, 15),
         advice = [''Regular comprehensive exams'',
                    ''Watch for signs of amyloidosis'',
                    ''Dental health maintenance'',
                    ''Heart monitoring continues''],
         focus = ''Monitoring & Care''\<rparr>],
     generalNotes =
       ''Related to Siamese with similar health concerns. Very vocal and social. Requires lots of attention and mental stimulation.''\<rparr>"

definition russianBlue :: BreedHealthProfile where
  "russianBlue =
    \<lparr>breed = ''Russian Blue'',
     aliases = [''russian blue'', ''archangel blue''],
     sizeCategory = size_medium,
     lifeExpectancy = \<lparr>range_min = 15, range_max = 20\<rparr>,
     idealWeight = \<lparr>range_min = 3.5, range_max = 5.5\<rparr>,
     healthRisks =
       [\<lparr>condition = ''Bladder Stones'',
         riskLevel = risk_moderate,
         typicalOnsetYears = 5,
         monitoringAdvice = ''Encourage water intake. Regular urinalysis.'',
         symptoms = Some [''Straining to urinate'', ''Blood in urine'', ''Frequent urination'']\<rparr>,
        \<lparr>condition = ''Obesity'',
         riskLevel = risk_moderate,
         typicalOnsetYears = 3,
         monitoringAdvice = ''This breed loves food. Strict portion control needed.'',
         symptoms = Some [''Weight gain'', ''Decreased activity'']\<rparr>],
     screeningSchedule =
       [\<lparr>screening_ageYears = 2,
         screenings = [''Baseline bloodwork'', ''Weight assessment''],
         screening_reason = ''Establish baseline''\<rparr>,
        \<lparr>screening_ageYears = 5,
         screenings = [''Urinalysis'', ''Weight check'', ''Bloodwork''],
         screening_reason = ''Bladder health monitoring''\<rparr>,
        \<lparr>screening_ageYears = 8,
         screenings = [''Senior panel'', ''Urinalysis''],
         screening_reason = ''Senior preparation''\<rparr>],
     ageSpecificAdvice =
       [\<lparr>ageRange = (0, 3),
         advice = [''Establish portion control early'',
                    ''Encourage play despite shy nature'',
                    ''High-quality diet'',
                    ''Gradual socialization''],
         focus = ''Weight Foundation''\<rparr>,
        \<lparr>ageRange = (3, 8),
         advice = [''Monitor weight closely'',
                    ''Ensure adequate water intake'',
                    ''Consider wet food for hydration'',
                    ''Regular urinalysis''],
         focus = ''Weight & Urinary Health''\<rparr>,
        \<lparr>ageRange = (8, 15),
         advice = [''Continue weight management'',
                    ''Regular health checks'',
                    ''This breed ages gracefully'',
                    ''Maintain enrichment''],
         focus = ''Healthy Aging''\<rparr>,
        \<lparr>ageRange = (15, 20),
         advice = [''Russian Blues often live very long'',
                    ''Regular senior checks'',
                    ''Comfortable environment'',
                    ''Monitor for age-related changes''],
         focus = ''Long Life Care''\<rparr>],
     generalNotes =
       ''Generally healthy breed with long lifespan. Prone to weight gain and bladder issues. Shy but loyal temperament.''\<rparr>"

definition sphynx :: BreedHealthProfile where
  "sphynx =
    \<lparr>breed = ''Sphynx'',
     aliases = [''sphynx'', ''sphinx'', ''hairless cat''],
     sizeCategory = size_small,
     lifeExpectancy = \<lparr>range_min = 12, range_max = 15\<rparr>,
     idealWeight = \<lparr>range_min = 3, range_max = 5\<rparr>,
     healthRisks =
       [\<lparr>condition = ''Hypertrophic Cardiomyopathy (HCM)'',
         riskLevel = risk_high,
         typicalOnsetYears = 3,
         monitoringAdvice = ''Annual echocardiograms starting at age 2. High prevalence in breed.'',
         symptoms = Some [''Lethargy'', ''Rapid breathing'', ''Weakness'']\<rparr>,
        \<lparr>condition = ''Skin Issues'',
         riskLevel = risk_high,
         typicalOnsetYears = 0,
         monitoringAdvice = ''Regular bathing needed. Watch for oil buildup and infections.'',
         symptoms = Some [''Oily skin'', ''Skin infections'', ''Acne'']\<rparr>,
        \<lparr>condition = ''Temperature Sensitivity'',
         riskLevel = risk_moderate,
         typicalOnsetYears = 0,
         monitoringAdvice = ''No fur means they need warmth. Provide heated beds, sweaters.'',
         symptoms = Some [''Shivering'', ''Seeking warmth constantly'']\<rparr>,
        \<lparr>condition = ''Hereditary Myopathy'',
         riskLevel = risk_moderate,
         typicalOnsetYears = 1,
         monitoringAdvice = ''Genetic predisposition. Watch for muscle weakness.'',
         symptoms = Some [''Muscle weakness'', ''Difficulty swallowing'', ''Fatigue'']\<rparr>],
     screeningSchedule =
       [\<lparr>screening_ageYears = 1,
         screenings = [''Skin assessment'', ''Baseline bloodwork'', ''Heart check''],
         screening_reason = ''Establish baseline''\<rparr>,
        \<lparr>screening_ageYears = 2,
         screenings = [''Echocardiogram'', ''Skin check''],
         screening_reason = ''Critical - begin HCM monitoring early''\<rparr>,
        \<lparr>screening_ageYears = 4,
         screenings = [''Annual echocardiogram'', ''Full panel''],
         screening_reason = ''Ongoing cardiac monitoring''\<rparr>,
        \<lparr>screening_ageYears = 8,
         screenings = [''Senior panel'', ''Cardiac assessment'', ''Skin health''],
         screening_reason = ''Senior care''\<rparr>],
     ageSpecificAdvice =
       [\<lparr>ageRange = (0, 2),
         advice = [''Establish bathing routine (weekly)'',
                    ''First echocardiogram by age 2'',
                    ''Provide warmth - heated beds essential'',
                    ''Sun protection if exposed to windows''],
         focus = ''Skin & Heart Foundation''\<rparr>,
        \<lparr>ageRange = (2, 6),
         advice = [''Annual echocardiograms essential'',
                    ''Maintain skin care routine'',
                    ''Temperature regulation important'',
                    ''High-calorie diet for heat generation''],
         focus = ''Cardiac Priority''\<rparr>,
        \<lparr>ageRange = (6, 12),
         advice = [''Heart monitoring continues'',
                    ''Watch skin for changes'',
                    ''Dental care - no whiskers to detect food'',
                    ''Keep environment warm''],
         focus = ''Continuing Care''\<rparr>,
        \<lparr>ageRange = (12, 15),
         advice = [''Increased cardiac monitoring'',
                    ''Extra warmth needed'',
                    ''Skin may need more care'',
                    ''Comfortable, heated spaces''],
         focus = ''Senior Sphynx''\<rparr>],
     generalNotes =
       ''Hairless breed requiring special care. High HCM risk - cardiac screening essential. Needs weekly bathing and warmth.''\<rparr>"

definition devonRex :: BreedHealthProfile where
  "devonRex =
    \<lparr>breed = ''Devon Rex'',
     aliases = [''devon rex'', ''devon'', ''pixie cat''],
     sizeCategory = size_small,
     lifeExpectancy = \<lparr>range_min = 12, range_max = 15\<rparr>,
     idealWeight = \<lparr>range_min = 2.5, range_max = 4\<rparr>,
     healthRisks =
       [\<lparr>condition = ''Hereditary Myopathy'',
         riskLevel = risk_high,
         typicalOnsetYears = 0.5,
         monitoringAdvice = ''Genetic condition causing muscle weakness. Usually apparent in kittens.'',
         symptoms = Some [''Muscle weakness'',
                           ''Head bobbing'',
                           ''Difficulty swallowing'',
                           ''Fatigue'']\<rparr>,
        \<lparr>condition = ''Patellar Luxation'',
         riskLevel = risk_moderate,
         typicalOnsetYears = 2,
         monitoringAdvice = ''Watch for limping or abnormal gait.'',
         symptoms = Some [''Limping'', ''Leg held up'', ''Skipping gait'']\<rparr>,
        \<lparr>condition = ''Hip Dysplasia'',
         riskLevel = risk_moderate,
         typicalOnsetYears = 3,
         monitoringAdvice = ''Monitor mobility as they age.'',
         symptoms = Some [''Reluctance to jump'', ''Stiffness'']\<rparr>,
        \<lparr>condition = ''Skin Sensitivity'',
         riskLevel = risk_moderate,
         typicalOnsetYears = 0,
         monitoringAdvice = ''Curly coat can cause skin issues. Regular grooming needed.'',
         symptoms = Some [''Skin irritation'', ''Oily skin'']\<rparr>],
     screeningSchedule =
       [\<lparr>screening_ageYears = 1,
         screenings = [''Myopathy assessment'', ''Joint evaluation'', ''Baseline bloodwork''],
         screening_reason = ''Screen for hereditary issues''\<rparr>,
        \<lparr>screening_ageYears = 3,
         screenings = [''Joint assessment'', ''Heart check''],
         screening_reason = ''Monitor for developing issues''\<rparr>,
        \<lparr>screening_ageYears = 7,
         screenings = [''Full panel'', ''Joint evaluation''],
         screening_reason = ''Senior preparation''\<rparr>],
     ageSpecificAdvice =
       [\<lparr>ageRange = (0, 2),
         advice = [''Watch for myopathy signs'',
                    ''Monitor joint health'',
                    ''Gentle skin care for curly coat'',
                    ''High-calorie diet - high metabolism''],
         focus = ''Genetic Monitoring''\<rparr>,
        \<lparr>ageRange = (2, 6),
         advice = [''Monitor for patella issues'',
                    ''Keep weight healthy for joints'',
                    ''Regular exercise appropriate for build'',
                    ''Skin care routine''],
         focus = ''Joint Care''\<rparr>,
        \<lparr>ageRange = (6, 12),
         advice = [''Joint supplements may help'',
                    ''Regular health checks'',
                    ''Maintain healthy weight'',
                    ''Skin monitoring continues''],
         focus = ''Maintenance''\<rparr>,
        \<lparr>ageRange = (12, 15),
         advice = [''Joint care priority'',
                    ''Soft bedding'',
                    ''Warmth - thin coat provides less insulation'',
                    ''Regular vet visits''],
         focus = ''Senior Support''\<rparr>],
     generalNotes =
       ''Playful, mischievous breed with unique curly coat. Hereditary myopathy is a concern. Needs warmth and joint care.''\<rparr>"

definition cornishRex :: BreedHealthProfile where
  "cornishRex =
    \<lparr>breed = ''Cornish Rex'',
     aliases = [''cornish rex'', ''cornish''],
     sizeCategory = size_small,
     lifeExpectancy = \<lparr>range_min = 12, range_max = 15\<rparr>,
     idealWeight = \<lparr>range_min = 2.5, range_max = 4.5\<rparr>,
     healthRisks =
       [\<lparr>condition = ''Hypotrichosis'',
         riskLevel = risk_moderate,
         typicalOnsetYears = 0,
         monitoringAdvice = ''Some may develop bald patches. Usually cosmetic.'',
         symptoms = Some [''Hair loss'', ''Thin coat areas'']\<rparr>,
        \<lparr>condition = ''Patellar Luxation'',
         riskLevel = risk_moderate,
         typicalOnsetYears = 2,
         monitoringAdvice = ''Similar to Devon Rex. Monitor joint health.'',
         symptoms = Some [''Limping'', ''Abnormal gait'']\<rparr>,
        \<lparr>condition = ''Hypertrophic Cardiomyopathy (HCM)'',
         riskLevel = risk_moderate,
         typicalOnsetYears = 5,
         monitoringAdvice = ''Less common than in Sphynx but still monitor.'',
         symptoms = Some [''Lethargy'', ''Breathing changes'']\<rparr>],
     screeningSchedule =
       [\<lparr>screening_ageYears = 2,
         screenings = [''Joint evaluation'', ''Skin assessment'', ''Baseline bloodwork''],
         screening_reason = ''Establish baseline''\<rparr>,
        \<lparr>screening_ageYears = 5,
         screenings = [''Heart check'', ''Joint assessment''],
         screening_reason = ''Cardiac monitoring begins''\<rparr>,
        \<lparr>screening_ageYears = 8,
         screenings = [''Senior panel'', ''Full assessment''],
         screening_reason = ''Senior care''\<rparr>],
     ageSpecificAdvice =
       [\<lparr>ageRange = (0, 3),
         advice = [''Monitor joint development'',
                    ''High-calorie diet for high metabolism'',
                    ''Warmth needed - wavy coat provides less insulation'',
                    ''Gentle grooming''],
         focus = ''Growth & Joints''\<rparr>,
        \<lparr>ageRange = (3, 8),
         advice = [''Keep joints healthy with appropriate exercise'',
                    ''Maintain healthy weight'',
                    ''Begin heart monitoring'',
                    ''Skin care''],
         focus = ''Active Adult''\<rparr>,
        \<lparr>ageRange = (8, 15),
         advice = [''Joint support'',
                    ''Regular cardiac checks'',
                    ''Warmth important'',
                    ''Regular health monitoring''],
         focus = ''Senior Years''\<rparr>],
     generalNotes =
       ''Elegant, athletic breed with unique wavy coat. Similar to Devon Rex in care needs. Needs warmth and joint monitoring.''\<rparr>"

definition scottishFold :: BreedHealthProfile where
  "scottishFold =
    \<lparr>breed = ''Scottish Fold'',
     aliases = [''scottish fold'', ''scottish'', ''fold''],
     sizeCategory = size_medium,
     lifeExpectancy = \<lparr>range_min = 11, range_max = 14\<rparr>,
     idealWeight = \<lparr>range_min = 3, range_max = 6\<rparr>,
     healthRisks =
       [\<lparr>condition = ''Osteochondrodysplasia'',
         riskLevel = risk_high,
         typicalOnsetYears = 0,
         monitoringAdvice = ''Genetic condition affecting all Scottish Folds. Causes arthritis and cartilage issues.'',
         symptoms = Some [''Stiffness'',
                           ''Reluctance to move'',
                           ''Thick/stiff tail'',
                           ''Limping'']\<rparr>,
        \<lparr>condition = ''Arthritis'',
         riskLevel = risk_high,
         typicalOnsetYears = 2,
         monitoringAdvice = ''Develops early due to osteochondrodysplasia. Pain management essential.'',
         symptoms = Some [''Stiffness'', ''Reluctance to jump'', ''Difficulty grooming'']\<rparr>,
        \<lparr>condition = ''Cardiomyopathy'',
         riskLevel = risk_moderate,
         typicalOnsetYears = 5,
         monitoringAdvice = ''Regular heart monitoring recommended.'',
         symptoms = Some [''Lethargy'', ''Breathing difficulties'']\<rparr>],
     screeningSchedule =
       [\<lparr>screening_ageYears = 1,
         screenings = [''Joint assessment'', ''Baseline X-rays'', ''Bloodwork''],
         screening_reason = ''Assess bone/joint development''\<rparr>,
        \<lparr>screening_ageYears = 3,
         screenings = [''Joint X-rays'', ''Pain assessment'', ''Heart check''],
         screening_reason = ''Monitor progression''\<rparr>,
        \<lparr>screening_ageYears = 5,
         screenings = [''Full joint evaluation'',
                        ''Cardiac screening'',
                        ''Pain management review''],
         screening_reason = ''Ongoing care''\<rparr>,
        \<lparr>screening_ageYears = 8,
         screenings = [''Comprehensive assessment'', ''Pain management''],
         screening_reason = ''Senior care''\<rparr>],
     ageSpecificAdvice =
       [\<lparr>ageRange = (0, 2),
         advice = [''X-rays to assess bone development'',
                    ''Soft bedding essential'',
                    ''Low-impact play'',
                    ''Watch for early stiffness signs''],
         focus = ''Joint Baseline''\<rparr>,
        \<lparr>ageRange = (2, 5),
         advice = [''Joint supplements from early age'',
                    ''Maintain healthy weight - critical for joints'',
                    ''Pain medication if needed'',
                    ''Accessible litter boxes and food''],
         focus = ''Pain Prevention''\<rparr>,
        \<lparr>ageRange = (5, 10),
         advice = [''Pain management review regularly'',
                    ''Heated beds can help'',
                    ''Gentle handling'',
                    ''Monitor mobility closely''],
         focus = ''Comfort Priority''\<rparr>,
        \<lparr>ageRange = (10, 14),
         advice = [''Focus on comfort and pain control'',
                    ''Easy access to everything'',
                    ''Regular pain assessments'',
                    ''Consider mobility aids''],
         focus = ''Quality of Life''\<rparr>],
     generalNotes =
       ''Sweet, gentle breed but ALL Scottish Folds have a genetic condition affecting bones/cartilage. Early and ongoing joint care is essential. Pain management is a priority.''\<rparr>"

definition birman :: BreedHealthProfile where
  "birman =
    \<lparr>breed = ''Birman'',
     aliases = [''birman'', ''sacred cat of burma''],
     sizeCategory = size_medium,
     lifeExpectancy = \<lparr>range_min = 12, range_max = 16\<rparr>,
     idealWeight = \<lparr>range_min = 3.5, range_max = 6\<rparr>,
     healthRisks =
       [\<lparr>condition = ''Hypertrophic Cardiomyopathy (HCM)'',
         riskLevel = risk_moderate,
         typicalOnsetYears = 5,
         monitoringAdvice = ''Annual cardiac screening after age 4.'',
         symptoms = Some [''Lethargy'', ''Breathing difficulties'']\<rparr>,
        \<lparr>condition = ''Renal Disease'',
         riskLevel = risk_moderate,
         typicalOnsetYears = 8,
         monitoringAdvice = ''Monitor kidney function from middle age.'',
         symptoms = Some [''Increased thirst'', ''Weight loss'']\<rparr>,
        \<lparr>condition = ''Feline Hyperesthesia Syndrome'',
         riskLevel = risk_low,
         typicalOnsetYears = 1,
         monitoringAdvice = ''Watch for skin rippling and excessive grooming.'',
         symptoms = Some [''Skin rippling'', ''Tail chasing'', ''Excessive grooming'']\<rparr>],
     screeningSchedule =
       [\<lparr>screening_ageYears = 2,
         screenings = [''Baseline bloodwork'', ''General health check''],
         screening_reason = ''Establish baseline''\<rparr>,
        \<lparr>screening_ageYears = 5,
         screenings = [''Echocardiogram'', ''Kidney panel''],
         screening_reason = ''Begin cardiac/renal monitoring''\<rparr>,
        \<lparr>screening_ageYears = 8,
         screenings = [''Full senior panel'', ''Heart check'', ''Kidney function''],
         screening_reason = ''Senior preparation''\<rparr>],
     ageSpecificAdvice =
       [\<lparr>ageRange = (0, 3),
         advice = [''Regular grooming for silky coat'',
                    ''Gentle socialization'',
                    ''Establish health baseline'',
                    ''Watch for hyperesthesia signs''],
         focus = ''Socialization & Grooming''\<rparr>,
        \<lparr>ageRange = (3, 8),
         advice = [''Begin cardiac screening at 5'',
                    ''Monitor kidney function'',
                    ''Maintain grooming routine'',
                    ''Keep stress low''],
         focus = ''Preventive Care''\<rparr>,
        \<lparr>ageRange = (8, 16),
         advice = [''Regular cardiac and kidney checks'',
                    ''Comfortable environment'',
                    ''Continue gentle grooming'',
                    ''Monitor for age-related changes''],
         focus = ''Senior Care''\<rparr>],
     generalNotes =
       ''Gentle, quiet breed with beautiful coat. Generally healthy but monitor heart and kidneys as they age.''\<rparr>"

definition turkishAngora :: BreedHealthProfile where
  "turkishAngora =
    \<lparr>breed = ''Turkish Angora'',
     aliases = [''turkish angora'', ''angora''],
     sizeCategory = size_medium,
     lifeExpectancy = \<lparr>range_min = 12, range_max = 18\<rparr>,
     idealWeight = \<lparr>range_min = 3, range_max = 5\<rparr>,
     healthRisks =
       [\<lparr>condition = ''Deafness (White Cats)'',
         riskLevel = risk_high,
         typicalOnsetYears = 0,
         monitoringAdvice = ''White Turkish Angoras, especially with blue eyes, often deaf. BAER test available.'',
         symptoms = Some [''No response to sounds'', ''Startles easily when touched'']\<rparr>,
        \<lparr>condition = ''Ataxia'',
         riskLevel = risk_moderate,
         typicalOnsetYears = 0.5,
         monitoringAdvice = ''Hereditary condition affecting coordination. Usually apparent in kittens.'',
         symptoms = Some [''Uncoordinated movement'', ''Head bobbing'', ''Balance issues'']\<rparr>,
        \<lparr>condition = ''Hypertrophic Cardiomyopathy (HCM)'',
         riskLevel = risk_moderate,
         typicalOnsetYears = 5,
         monitoringAdvice = ''Annual heart screening from age 4.'',
         symptoms = Some [''Lethargy'', ''Breathing changes'']\<rparr>],
     screeningSchedule =
       [\<lparr>screening_ageYears = 0.5,
         screenings = [''BAER hearing test (white cats)'', ''Neurological assessment''],
         screening_reason = ''Screen for deafness and ataxia''\<rparr>,
        \<lparr>screening_ageYears = 4,
         screenings = [''Echocardiogram'', ''General health check''],
         screening_reason = ''Begin cardiac monitoring''\<rparr>,
        \<lparr>screening_ageYears = 8,
         screenings = [''Heart check'', ''Senior panel''],
         screening_reason = ''Senior care''\<rparr>],
     ageSpecificAdvice =
       [\<lparr>ageRange = (0, 2),
         advice = [''BAER test for white cats'',
                    ''Monitor for ataxia signs'',
                    ''Establish grooming routine for long coat'',
                    ''Indoor-only recommended for deaf cats''],
         focus = ''Genetic Screening''\<rparr>,
        \<lparr>ageRange = (2, 6),
         advice = [''Very active breed - provide lots of play'',
                    ''Begin cardiac monitoring at 4'',
                    ''Keep coat well-groomed'',
                    ''Mental stimulation important''],
         focus = ''Active Adult Care''\<rparr>,
        \<lparr>ageRange = (6, 12),
         advice = [''Regular heart checks'',
                    ''Maintain activity level'',
                    ''Grooming routine continues'',
                    ''Watch for any mobility changes''],
         focus = ''Healthy Aging''\<rparr>,
        \<lparr>ageRange = (12, 18),
         advice = [''Turkish Angoras can live very long'',
                    ''Regular monitoring'',
                    ''Comfort-focused care'',
                    ''Gentle grooming''],
         focus = ''Long-Lived Senior''\<rparr>],
     generalNotes =
       ''Elegant, ancient breed known for long silky coat. White cats often deaf. Active and intelligent, often lives into late teens.''\<rparr>"

definition himalayan :: BreedHealthProfile where
  "himalayan =
    \<lparr>breed = ''Himalayan'',
     aliases = [''himalayan'', ''himmie'', ''colorpoint persian''],
     sizeCategory = size_medium,
     lifeExpectancy = \<lparr>range_min = 12, range_max = 15\<rparr>,
     idealWeight = \<lparr>range_min = 3.5, range_max = 5.5\<rparr>,
     healthRisks =
       [\<lparr>condition = ''Polycystic Kidney Disease (PKD)'',
         riskLevel = risk_high,
         typicalOnsetYears = 7,
         monitoringAdvice = ''Same as Persian - genetic test and ultrasound essential.'',
         symptoms = Some [''Increased thirst'', ''Weight loss'', ''Lethargy'']\<rparr>,
        \<lparr>condition = ''Brachycephalic Airway Syndrome'',
         riskLevel = risk_high,
         typicalOnsetYears = 0,
         monitoringAdvice = ''Flat face causes breathing issues. Avoid heat and stress.'',
         symptoms = Some [''Noisy breathing'', ''Snoring'', ''Exercise intolerance'']\<rparr>,
        \<lparr>condition = ''Progressive Retinal Atrophy (PRA)'',
         riskLevel = risk_moderate,
         typicalOnsetYears = 4,
         monitoringAdvice = ''Annual eye exams recommended.'',
         symptoms = Some [''Night blindness'', ''Vision loss'']\<rparr>],
     screeningSchedule =
       [\<lparr>screening_ageYears = 1,
         screenings = [''PKD genetic test'', ''Eye exam'', ''Baseline bloodwork''],
         screening_reason = ''Genetic screening''\<rparr>,
        \<lparr>screening_ageYears = 4,
         screenings = [''Kidney ultrasound'', ''Eye exam''],
         screening_reason = ''PKD monitoring''\<rparr>,
        \<lparr>screening_ageYears = 7,
         screenings = [''Full panel'', ''Kidney function'', ''Eye exam''],
         screening_reason = ''Senior preparation''\<rparr>],
     ageSpecificAdvice =
       [\<lparr>ageRange = (0, 3),
         advice = [''Keep environment cool'',
                    ''Establish daily grooming routine'',
                    ''PKD genetic test'',
                    ''Monitor breathing''],
         focus = ''Breathing & Grooming''\<rparr>,
        \<lparr>ageRange = (3, 7),
         advice = [''Begin kidney screening'',
                    ''Annual eye exams'',
                    ''Maintain grooming'',
                    ''Climate control important''],
         focus = ''Kidney & Eye Health''\<rparr>,
        \<lparr>ageRange = (7, 15),
         advice = [''Regular kidney monitoring'',
                    ''Keep stress low'',
                    ''Comfortable environment'',
                    ''Gentle care routine''],
         focus = ''Senior Care''\<rparr>],
     generalNotes =
       ''Persian with Siamese coloring. Same health concerns as Persian including PKD and breathing issues. High-maintenance coat.''\<rparr>"

definition domesticShorthair :: BreedHealthProfile where
  "domesticShorthair =
    \<lparr>breed = ''Domestic Shorthair'',
     aliases = [''domestic shorthair'',
                ''dsh'',
                ''house cat'',
                ''moggy'',
                ''mixed breed'',
                ''tabby'',
                ''mixed''],
     sizeCategory = size_medium,
     lifeExpectancy = \<lparr>range_min = 12, range_max = 20\<rparr>,
     idealWeight = \<lparr>range_min = 3.5, range_max = 5.5\<rparr>,
     healthRisks =
       [\<lparr>condition = ''Obesity'',
         riskLevel = risk_moderate,
         typicalOnsetYears = 3,
         monitoringAdvice = ''Very common in pet cats. Portion control and regular exercise essential.'',
         symptoms = Some [''Visible weight gain'',
                           ''Decreased activity'',
                           ''Difficulty grooming'']\<rparr>,
        \<lparr>condition = ''Dental Disease'',
         riskLevel = risk_moderate,
         typicalOnsetYears = 3,
         monitoringAdvice = ''Common in all cats. Annual dental exams recommended.'',
         symptoms = Some [''Bad breath'', ''Difficulty eating'', ''Red gums'']\<rparr>,
        \<lparr>condition = ''Diabetes'',
         riskLevel = risk_moderate,
         typicalOnsetYears = 8,
         monitoringAdvice = ''Often linked to obesity. Weight management is key.'',
         symptoms = Some [''Increased thirst'', ''Increased urination'', ''Weight changes'']\<rparr>,
        \<lparr>condition = ''Kidney Disease'',
         riskLevel = risk_moderate,
         typicalOnsetYears = 10,
         monitoringAdvice = ''Common in senior cats. Regular bloodwork after age 7.'',
         symptoms = Some [''Increased thirst'', ''Weight loss'', ''Decreased appetite'']\<rparr>],
     screeningSchedule =
       [\<lparr>screening_ageYears = 1,
         screenings = [''Baseline bloodwork'', ''Dental exam'', ''Weight assessment''],
         screening_reason = ''Establish baseline''\<rparr>,
        \<lparr>screening_ageYears = 5,
         screenings = [''Full bloodwork'', ''Dental assessment'', ''Weight check''],
         screening_reason = ''Middle-age check''\<rparr>,
        \<lparr>screening_ageYears = 7,
         screenings = [''Senior bloodwork including kidney/thyroid'', ''Dental care''],
         screening_reason = ''Begin senior monitoring''\<rparr>,
        \<lparr>screening_ageYears = 10,
         screenings = [''Bi-annual senior panels'', ''Complete assessment''],
         screening_reason = ''Senior care intensifies''\<rparr>],
     ageSpecificAdvice =
       [\<lparr>ageRange = (0, 2),
         advice = [''Spay/neuter if not done'',
                    ''Establish feeding routine and portions'',
                    ''Complete vaccinations'',
                    ''Regular play for healthy development''],
         focus = ''Foundation Health''\<rparr>,
        \<lparr>ageRange = (2, 7),
         advice = [''Annual checkups'',
                    ''Maintain healthy weight'',
                    ''Dental care important'',
                    ''Keep mentally and physically active''],
         focus = ''Maintenance & Prevention''\<rparr>,
        \<lparr>ageRange = (7, 12),
         advice = [''Switch to bi-annual vet visits'',
                    ''Monitor for diabetes and kidney disease'',
                    ''Adjust diet as needed'',
                    ''Watch for arthritis signs''],
         focus = ''Senior Transition''\<rparr>,
        \<lparr>ageRange = (12, 20),
         advice = [''Regular bloodwork monitoring'',
                    ''Comfort and quality of life focus'',
                    ''Easy access to resources'',
                    ''Watch for cognitive changes''],
         focus = ''Senior Care''\<rparr>],
     generalNotes =
       ''Mixed breed cats are generally hardy with genetic diversity. Still need regular care and preventive health measures. Can live very long with proper care.''\<rparr>"

definition domesticLonghair :: BreedHealthProfile where
  "domesticLonghair =
    \<lparr>breed = ''Domestic Longhair'',
     aliases = [''domestic longhair'', ''dlh'', ''long-haired cat'', ''longhair''],
     sizeCategory = size_medium,
     lifeExpectancy = \<lparr>range_min = 12, range_max = 18\<rparr>,
     idealWeight = \<lparr>range_min = 3.5, range_max = 6\<rparr>,
     healthRisks =
       [\<lparr>condition = ''Hairballs'',
         riskLevel = risk_moderate,
         typicalOnsetYears = 1,
         monitoringAdvice = ''Long coat leads to more hairballs. Regular grooming and hairball remedies help.'',
         symptoms = Some [''Frequent vomiting'', ''Constipation'', ''Dry heaving'']\<rparr>,
        \<lparr>condition = ''Matted Fur'',
         riskLevel = risk_moderate,
         typicalOnsetYears = 0,
         monitoringAdvice = ''Regular grooming essential. Mats can cause skin issues.'',
         symptoms = Some [''Tangled fur'', ''Skin irritation under mats'']\<rparr>,
        \<lparr>condition = ''Obesity'',
         riskLevel = risk_moderate,
         typicalOnsetYears = 3,
         monitoringAdvice = ''Same as DSH. Long fur can hide weight gain.'',
         symptoms = Some [''Weight gain'', ''Difficulty grooming'']\<rparr>,
        \<lparr>condition = ''Kidney Disease'',
         riskLevel = risk_moderate,
         typicalOnsetYears = 10,
         monitoringAdvice = ''Common in senior cats.'',
         symptoms = Some [''Increased thirst'', ''Weight loss'']\<rparr>],
     screeningSchedule =
       [\<lparr>screening_ageYears = 1,
         screenings = [''Baseline bloodwork'', ''Coat/skin assessment''],
         screening_reason = ''Establish baseline''\<rparr>,
        \<lparr>screening_ageYears = 5,
         screenings = [''Full bloodwork'', ''Weight check''],
         screening_reason = ''Middle-age check''\<rparr>,
        \<lparr>screening_ageYears = 7,
         screenings = [''Senior panel'', ''Thyroid check''],
         screening_reason = ''Senior monitoring begins''\<rparr>,
        \<lparr>screening_ageYears = 10,
         screenings = [''Bi-annual senior panels''],
         screening_reason = ''Senior care''\<rparr>],
     ageSpecificAdvice =
       [\<lparr>ageRange = (0, 2),
         advice = [''Establish daily grooming routine early'',
                    ''Train to accept brushing'',
                    ''Hairball prevention diet/treats'',
                    ''Regular play''],
         focus = ''Grooming Foundation''\<rparr>,
        \<lparr>ageRange = (2, 7),
         advice = [''Maintain grooming routine'',
                    ''Monitor weight under the fluff'',
                    ''Dental care'',
                    ''Annual checkups''],
         focus = ''Coat & Weight Care''\<rparr>,
        \<lparr>ageRange = (7, 12),
         advice = [''May need grooming help as they age'',
                    ''Regular senior bloodwork'',
                    ''Watch for mobility affecting self-grooming'',
                    ''Hairball management continues''],
         focus = ''Senior Prep''\<rparr>,
        \<lparr>ageRange = (12, 18),
         advice = [''Assist with grooming if needed'',
                    ''Regular health monitoring'',
                    ''Comfort-focused care'',
                    ''Watch for matting in hard-to-reach areas''],
         focus = ''Senior Support''\<rparr>],
     generalNotes =
       ''Mixed breed with long coat. Needs regular grooming to prevent mats and hairballs. Generally healthy with good genetic diversity.''\<rparr>"

definition tuxedo :: BreedHealthProfile where
  "tuxedo =
    \<lparr>breed = ''Tuxedo'',
     aliases = [''tuxedo'', ''tuxedo cat'', ''black and white''],
     sizeCategory = size_medium,
     lifeExpectancy = \<lparr>range_min = 12, range_max = 20\<rparr>,
     idealWeight = \<lparr>range_min = 3.5, range_max = 5.5\<rparr>,
     healthRisks =
       healthRisks domesticShorthair,
     screeningSchedule =
       screeningSchedule domesticShorthair,
     ageSpecificAdvice =
       ageSpecificAdvice domesticShorthair,
     generalNotes =
       ''Tuxedo is a color pattern, not a breed. Health considerations are same as Domestic Shorthair. Known for personality and intelligence!''\<rparr>"

definition calico :: BreedHealthProfile where
  "calico =
    \<lparr>breed = ''Calico'',
     aliases = [''calico'', ''calico cat'', ''tricolor''],
     sizeCategory = size_medium,
     lifeExpectancy = \<lparr>range_min = 12, range_max = 18\<rparr>,
     idealWeight = \<lparr>range_min = 3.5, range_max = 5.5\<rparr>,
     healthRisks =
       healthRisks domesticShorthair @
       [\<lparr>condition = ''Klinefelter Syndrome (Male Calicos)'',
         riskLevel = risk_high,
         typicalOnsetYears = 0,
         monitoringAdvice = ''Male calicos are extremely rare and have XXY chromosomes. Often have health issues.'',
         symptoms = Some [''Developmental issues'',
                           ''Cognitive problems'',
                           ''Behavioral differences'']\<rparr>],
     screeningSchedule =
       screeningSchedule domesticShorthair,
     ageSpecificAdvice =
       ageSpecificAdvice domesticShorthair,
     generalNotes =
       ''Calico is a color pattern (almost always female). Health considerations similar to Domestic Shorthair. Male calicos are rare and may have genetic issues.''\<rparr>"

definition tabby :: BreedHealthProfile where
  "tabby =
    \<lparr>breed = ''Tabby'',
     aliases = [''tabby'', ''tabby cat'', ''striped cat'', ''tiger cat''],
     sizeCategory = size_medium,
     lifeExpectancy = \<lparr>range_min = 12, range_max = 20\<rparr>,
     idealWeight = \<lparr>range_min = 3.5, range_max = 5.5\<rparr>,
     healthRisks =
       healthRisks domesticShorthair,
     screeningSchedule =
       screeningSchedule domesticShorthair,
     ageSpecificAdvice =
       ageSpecificAdvice domesticShorthair,
     generalNotes =
       ''Tabby is a coat pattern, not a breed. Health considerations same as Domestic Shorthair. Very common and hardy pattern.''\<rparr>"

definition americanShorthair :: BreedHealthProfile where
  "americanShorthair =
    \<lparr>breed = ''American Shorthair'',
     aliases = [''american shorthair'', ''ash''],
     sizeCategory = size_medium,
     lifeExpectancy = \<lparr>range_min = 15, range_max = 20\<rparr>,
     idealWeight = \<lparr>range_min = 4, range_max = 6\<rparr>,
     healthRisks =
       [\<lparr>condition = ''Hypertrophic Cardiomyopathy (HCM)'',
         riskLevel = risk_moderate,
         typicalOnsetYears = 5,
         monitoringAdvice = ''Annual heart screening from age 4.'',
         symptoms = Some [''Lethargy'', ''Breathing difficulties'']\<rparr>,
        \<lparr>condition = ''Obesity'',
         riskLevel = risk_moderate,
         typicalOnsetYears = 3,
         monitoringAdvice = ''Muscular breed that can become overweight. Portion control needed.'',
         symptoms = Some [''Weight gain'', ''Decreased activity'']\<rparr>],
     screeningSchedule =
       [\<lparr>screening_ageYears = 2,
         screenings = [''Baseline bloodwork'', ''Weight assessment''],
         screening_reason = ''Establish baseline''\<rparr>,
        \<lparr>screening_ageYears = 5,
         screenings = [''Echocardiogram'', ''Full panel''],
         screening_reason = ''Cardiac monitoring''\<rparr>,
        \<lparr>screening_ageYears = 8,
         screenings = [''Senior panel'', ''Heart check''],
         screening_reason = ''Senior care''\<rparr>],
     ageSpecificAdvice =
       [\<lparr>ageRange = (0, 3),
         advice = [''Establish portion control'',
                    ''Regular play sessions'',
                    ''Annual checkups''],
         focus = ''Foundation''\<rparr>,
        \<lparr>ageRange = (3, 8),
         advice = [''Monitor weight'', ''Begin cardiac screening'', ''Maintain activity''],
         focus = ''Weight & Heart''\<rparr>,
        \<lparr>ageRange = (8, 15),
         advice = [''Regular heart monitoring'',
                    ''Joint support if needed'',
                    ''Weight management continues''],
         focus = ''Senior Care''\<rparr>,
        \<lparr>ageRange = (15, 20),
         advice = [''Very long-lived breed'', ''Regular monitoring'', ''Comfort-focused care''],
         focus = ''Golden Years''\<rparr>],
     generalNotes =
       ''Hardy, athletic breed with long lifespan. Generally healthy but watch weight and heart. Can live 15-20 years.''\<rparr>"

definition manx :: BreedHealthProfile where
  "manx =
    \<lparr>breed = ''Manx'',
     aliases = [''manx'', ''manx cat'', ''tailless cat''],
     sizeCategory = size_medium,
     lifeExpectancy = \<lparr>range_min = 12, range_max = 14\<rparr>,
     idealWeight = \<lparr>range_min = 3.5, range_max = 5.5\<rparr>,
     healthRisks =
       [\<lparr>condition = ''Manx Syndrome'',
         riskLevel = risk_high,
         typicalOnsetYears = 0,
         monitoringAdvice = ''Spinal defects from the tailless gene. Can affect bowel/bladder control.'',
         symptoms = Some [''Incontinence'',
                           ''Difficulty walking'',
                           ''Constipation'',
                           ''Hind leg weakness'']\<rparr>,
        \<lparr>condition = ''Arthritis'',
         riskLevel = risk_moderate,
         typicalOnsetYears = 5,
         monitoringAdvice = ''Spine issues can lead to early arthritis.'',
         symptoms = Some [''Stiffness'', ''Reluctance to jump'']\<rparr>,
        \<lparr>condition = ''Corneal Dystrophy'',
         riskLevel = risk_moderate,
         typicalOnsetYears = 4,
         monitoringAdvice = ''Annual eye exams recommended.'',
         symptoms = Some [''Cloudy eyes'', ''Vision changes'']\<rparr>],
     screeningSchedule =
       [\<lparr>screening_ageYears = 0.5,
         screenings = [''Spinal assessment'', ''Neurological evaluation''],
         screening_reason = ''Screen for Manx syndrome''\<rparr>,
        \<lparr>screening_ageYears = 3,
         screenings = [''X-rays if needed'', ''Eye exam''],
         screening_reason = ''Ongoing monitoring''\<rparr>,
        \<lparr>screening_ageYears = 6,
         screenings = [''Full assessment'', ''Pain evaluation'', ''Eye exam''],
         screening_reason = ''Monitor for arthritis''\<rparr>],
     ageSpecificAdvice =
       [\<lparr>ageRange = (0, 2),
         advice = [''Thorough evaluation for Manx syndrome'',
                    ''Monitor bowel/bladder function'',
                    ''Gentle exercise appropriate'',
                    ''Watch for hind leg issues''],
         focus = ''Spinal Assessment''\<rparr>,
        \<lparr>ageRange = (2, 7),
         advice = [''Monitor for early arthritis'',
                    ''Keep weight healthy for spine'',
                    ''Regular eye exams'',
                    ''Appropriate exercise levels''],
         focus = ''Mobility Support''\<rparr>,
        \<lparr>ageRange = (7, 14),
         advice = [''Pain management as needed'',
                    ''Soft bedding important'',
                    ''Easy access to litter box'',
                    ''Regular monitoring''],
         focus = ''Comfort Care''\<rparr>],
     generalNotes =
       ''Unique tailless breed with genetic spinal concerns. Manx syndrome is a serious risk. Requires careful monitoring from kittenhood.''\<rparr>"

definition ragamuffin :: BreedHealthProfile where
  "ragamuffin =
    \<lparr>breed = ''Ragamuffin'',
     aliases = [''ragamuffin'', ''raga muffin''],
     sizeCategory = size_large,
     lifeExpectancy = \<lparr>range_min = 12, range_max = 16\<rparr>,
     idealWeight = \<lparr>range_min = 4.5, range_max = 9\<rparr>,
     healthRisks =
       [\<lparr>condition = ''Hypertrophic Cardiomyopathy (HCM)'',
         riskLevel = risk_moderate,
         typicalOnsetYears = 5,
         monitoringAdvice = ''Related to Ragdoll - similar cardiac risks.'',
         symptoms = Some [''Lethargy'', ''Breathing difficulties'']\<rparr>,
        \<lparr>condition = ''Polycystic Kidney Disease (PKD)'',
         riskLevel = risk_moderate,
         typicalOnsetYears = 7,
         monitoringAdvice = ''Some PKD present in breeding lines. Ultrasound screening recommended.'',
         symptoms = Some [''Increased thirst'', ''Weight loss'']\<rparr>],
     screeningSchedule =
       [\<lparr>screening_ageYears = 2,
         screenings = [''Baseline bloodwork'', ''Heart check''],
         screening_reason = ''Establish baseline''\<rparr>,
        \<lparr>screening_ageYears = 5,
         screenings = [''Echocardiogram'', ''Kidney ultrasound''],
         screening_reason = ''Begin monitoring''\<rparr>,
        \<lparr>screening_ageYears = 8,
         screenings = [''Full senior panel'', ''Cardiac/renal check''],
         screening_reason = ''Senior care''\<rparr>],
     ageSpecificAdvice =
       [\<lparr>ageRange = (0, 3),
         advice = [''Support healthy growth - large breed'',
                    ''Regular grooming'',
                    ''Socialize well'',
                    ''Establish vet relationship''],
         focus = ''Growth Period''\<rparr>,
        \<lparr>ageRange = (3, 8),
         advice = [''Begin cardiac screening'',
                    ''Monitor kidney health'',
                    ''Maintain coat with regular grooming'',
                    ''Keep active for weight management''],
         focus = ''Adult Care''\<rparr>,
        \<lparr>ageRange = (8, 16),
         advice = [''Regular heart and kidney monitoring'',
                    ''Joint support for large frame'',
                    ''Continue grooming assistance'',
                    ''Comfort-focused care''],
         focus = ''Senior Years''\<rparr>],
     generalNotes =
       ''Sweet, docile breed related to Ragdoll. Large size requires joint and heart attention. Generally healthy but monitor for HCM.''\<rparr>"

definition somali :: BreedHealthProfile where
  "somali =
    \<lparr>breed = ''Somali'',
     aliases = [''somali'', ''somali cat'', ''longhaired abyssinian''],
     sizeCategory = size_medium,
     lifeExpectancy = \<lparr>range_min = 12, range_max = 16\<rparr>,
     idealWeight = \<lparr>range_min = 3, range_max = 5\<rparr>,
     healthRisks =
       [\<lparr>condition = ''Renal Amyloidosis'',
         riskLevel = risk_high,
         typicalOnsetYears = 5,
         monitoringAdvice = ''Regular kidney function tests starting at age 4.'',
         symptoms = Some [''Increased thirst'', ''Weight loss'', ''Lethargy'']\<rparr>,
        \<lparr>condition = ''Pyruvate Kinase Deficiency (PK Deficiency)'',
         riskLevel = risk_moderate,
         typicalOnsetYears = 2,
         monitoringAdvice = ''Genetic test available.'',
         symptoms = Some [''Anemia'', ''Lethargy'', ''Pale gums'']\<rparr>,
        \<lparr>condition = ''Progressive Retinal Atrophy (PRA)'',
         riskLevel = risk_moderate,
         typicalOnsetYears = 3,
         monitoringAdvice = ''Genetic test available. Annual eye exams.'',
         symptoms = Some [''Night blindness'', ''Vision loss'']\<rparr>,
        \<lparr>condition = ''Patellar Luxation'',
         riskLevel = risk_moderate,
         typicalOnsetYears = 2,
         monitoringAdvice = ''Watch for limping or skipping gait.'',
         symptoms = Some [''Limping'', ''Holding leg up'', ''Skipping gait'']\<rparr>],
     screeningSchedule =
       [\<lparr>screening_ageYears = 1,
         screenings = [''PK deficiency test'', ''PRA test'', ''Baseline bloodwork''],
         screening_reason = ''Genetic screening''\<rparr>,
        \<lparr>screening_ageYears = 4,
         screenings = [''Kidney function panel'', ''Eye exam'', ''Joint assessment''],
         screening_reason = ''Begin amyloidosis monitoring''\<rparr>,
        \<lparr>screening_ageYears = 7,
         screenings = [''Full bloodwork'', ''Kidney ultrasound'', ''Heart check''],
         screening_reason = ''Senior preparation''\<rparr>,
        \<lparr>screening_ageYears = 10,
         screenings = [''Comprehensive senior panel'', ''Kidney monitoring''],
         screening_reason = ''Senior care''\<rparr>],
     ageSpecificAdvice =
       [\<lparr>ageRange = (0, 2),
         advice = [''Complete genetic testing (same as Aby)'',
                    ''Establish grooming routine for long coat'',
                    ''Provide lots of activity'',
                    ''High-quality protein diet''],
         focus = ''Genetic Testing & Coat Care''\<rparr>,
        \<lparr>ageRange = (2, 5),
         advice = [''Establish kidney function baseline'',
                    ''Regular grooming'',
                    ''Eye exams for PRA'',
                    ''Keep active and stimulated''],
         focus = ''Kidney Baseline''\<rparr>,
        \<lparr>ageRange = (5, 10),
         advice = [''Regular kidney monitoring crucial'',
                    ''Consider kidney-supportive diet'',
                    ''Maintain grooming'',
                    ''Continue active lifestyle''],
         focus = ''Kidney Health Priority''\<rparr>,
        \<lparr>ageRange = (10, 16),
         advice = [''Intensive kidney monitoring'',
                    ''May need grooming help'',
                    ''Joint support if needed'',
                    ''Regular comprehensive checks''],
         focus = ''Senior Support''\<rparr>],
     generalNotes =
       ''Long-haired version of Abyssinian with same health concerns. Active, intelligent breed. Renal amyloidosis is primary concern.''\<rparr>"

definition chartreux :: BreedHealthProfile where
  "chartreux =
    \<lparr>breed = ''Chartreux'',
     aliases = [''chartreux''],
     sizeCategory = size_medium,
     lifeExpectancy = \<lparr>range_min = 12, range_max = 15\<rparr>,
     idealWeight = \<lparr>range_min = 4, range_max = 7\<rparr>,
     healthRisks =
       [\<lparr>condition = ''Patellar Luxation'',
         riskLevel = risk_moderate,
         typicalOnsetYears = 2,
         monitoringAdvice = ''Watch for limping or unusual gait.'',
         symptoms = Some [''Limping'', ''Skipping gait'', ''Leg held up'']\<rparr>,
        \<lparr>condition = ''Polycystic Kidney Disease (PKD)'',
         riskLevel = risk_low,
         typicalOnsetYears = 7,
         monitoringAdvice = ''Less common but can occur. Monitor kidney function in seniors.'',
         symptoms = Some [''Increased thirst'', ''Weight loss'']\<rparr>],
     screeningSchedule =
       [\<lparr>screening_ageYears = 2,
         screenings = [''Joint assessment'', ''Baseline bloodwork''],
         screening_reason = ''Establish baseline''\<rparr>,
        \<lparr>screening_ageYears = 5,
         screenings = [''Full bloodwork'', ''Joint check''],
         screening_reason = ''Middle age monitoring''\<rparr>,
        \<lparr>screening_ageYears = 8,
         screenings = [''Senior panel'', ''Kidney function''],
         screening_reason = ''Senior care''\<rparr>],
     ageSpecificAdvice =
       [\<lparr>ageRange = (0, 3),
         advice = [''Monitor joint health'',
                    ''Maintain healthy weight'',
                    ''Regular play'',
                    ''Establish brushing routine for dense coat''],
         focus = ''Joint Development''\<rparr>,
        \<lparr>ageRange = (3, 8),
         advice = [''Regular checkups'',
                    ''Watch for patella issues'',
                    ''Keep active'',
                    ''Coat care''],
         focus = ''Maintenance''\<rparr>,
        \<lparr>ageRange = (8, 15),
         advice = [''Joint support if needed'',
                    ''Regular bloodwork'',
                    ''Continue coat care'',
                    ''Monitor kidney function''],
         focus = ''Senior Years''\<rparr>],
     generalNotes =
       ''Quiet, gentle French breed with distinctive blue-gray coat. Generally healthy. Watch joints and maintain dense coat.''\<rparr>"

definition BREED_HEALTH_DATABASE :: "BreedHealthProfile list" where
  "BREED_HEALTH_DATABASE =
     [maineCoon,
      ragdoll,
      norwegianForest,
      britishShorthair,
      savannah,
      ragamuffin,
      persian,
      bengal,
      siamese,
      abyssinian,
      exoticShorthair,
      burmese,
      orientalShorthair,
      russianBlue,
      scottishFold,
      birman,
      turkishAngora,
      himalayan,
      americanShorthair,
      manx,
      somali,
      chartreux,
      sphynx,
      devonRex,
      cornishRex,
      domesticShorthair,
      domesticLonghair,
      tuxedo,
      calico,
      tabby]"

text \<open>
  \<^verbatim>\<open>findBreedProfile\<close>: \<^verbatim>\<open>!breedName\<close> holds of \<^verbatim>\<open>null\<close> and of the empty string; a
  profile matches when its lower-cased name, or one of its lower-cased aliases, is the
  lower-cased and trimmed input; the first match in registry order is returned, and the
  Domestic Shorthair when there is none. The declared result type is
  \<^verbatim>\<open>BreedHealthProfile | null\<close>, but no path returns \<^verbatim>\<open>null\<close>.
\<close>

definition profile_matches :: "string \<Rightarrow> BreedHealthProfile \<Rightarrow> bool" where
  "profile_matches normalized profile =
     (toLowerCase (breed profile) = normalized \<or>
      list_ex (\<lambda>alias. toLowerCase alias = normalized) (aliases profile))"

definition findBreedProfile :: "string option \<Rightarrow> BreedHealthProfile" where
  "findBreedProfile breedName =
     (case breedName of
        None \<Rightarrow> domesticShorthair
      | Some name \<Rightarrow>
          if name = [] then domesticShorthair
          else let normalized = trim (toLowerCase name) in
            (case find (profile_matches normalized) BREED_HEALTH_DATABASE of
               Some profile \<Rightarrow> profile
             | None \<Rightarrow> domesticShorthair))"

definition getHealthRisksForAge :: "BreedHealthProfile \<Rightarrow> int \<Rightarrow> HealthRisk list" where
  "getHealthRisksForAge profile years =
     filter (\<lambda>risk. typicalOnsetYears risk \<le> of_int years + 2) (healthRisks profile)"

definition getAgeSpecificAdvice :: "BreedHealthProfile \<Rightarrow> int \<Rightarrow> AgeSpecificAdvice option" where
  "getAgeSpecificAdvice profile years =
     find (\<lambda>a. of_int years \<ge> fst (ageRange a) \<and> of_int years < snd (ageRange a))
       (ageSpecificAdvice profile)"


subsection \<open>Weight and status model (the simulation engine)\<close>

text \<open>The fallback tables are object literals, read with a computed key.\<close>

definition FALLBACK_WEIGHT_RANGES :: "(string \<times> num_range) list" where
  "FALLBACK_WEIGHT_RANGES =
     [(''small'', \<lparr>range_min = 2.5, range_max = 4.0\<rparr>),
      (''medium'', \<lparr>range_min = 4.0, range_max = 5.5\<rparr>),
      (''large'', \<lparr>range_min = 5.5, range_max = 8.0\<rparr>),
      (''default'', \<lparr>range_min = 3.5, range_max = 5.5\<rparr>)]"

definition FALLBACK_BREED_SIZES :: "(string \<times> string) list" where
  "FALLBACK_BREED_SIZES =
     [(''maine coon'', ''large''),
      (''ragdoll'', ''large''),
      (''norwegian forest'', ''large''),
      (''british shorthair'', ''large''),
      (''savannah'', ''large''),
      (''bengal'', ''medium''),
      (''persian'', ''medium''),
      (''siamese'', ''small''),
      (''abyssinian'', ''small''),
      (''devon rex'', ''small''),
      (''cornish rex'', ''small''),
      (''sphynx'', ''small''),
      (''domestic shorthair'', ''medium''),
      (''domestic longhair'', ''medium''),
      (''tabby'', ''medium''),
      (''tuxedo'', ''medium''),
      (''calico'', ''medium''),
      (''default'', ''medium'')]"

definition LIFE_STAGES_kitten_end :: int where "LIFE_STAGES_kitten_end = 12"
definition LIFE_STAGES_youngAdult_end :: int where "LIFE_STAGES_youngAdult_end = 36"
definition LIFE_STAGES_adult_end :: int where "LIFE_STAGES_adult_end = 120"
definition LIFE_STAGES_senior_end :: int where "LIFE_STAGES_senior_end = 180"
definition LIFE_STAGES_geriatric_end :: int where "LIFE_STAGES_geriatric_end = 240"

text \<open>
  \<^verbatim>\<open>getIdealWeightRange\<close>. The result is \<open>None\<close> where the source returns
  \<^verbatim>\<open>undefined\<close>: in \<^verbatim>\<open>FALLBACK_BREED_SIZES[normalizedBreed] || "default"\<close> a key that the
  table inherits from \<^verbatim>\<open>Object.prototype\<close> yields a function or an object, which is
  truthy, so \<^verbatim>\<open>"default"\<close> is not taken, and \<^verbatim>\<open>FALLBACK_WEIGHT_RANGES\<close> has no
  property under that value's string. A size that the table does hold is one of the four
  keys of \<^verbatim>\<open>FALLBACK_WEIGHT_RANGES\<close>.
\<close>

definition getIdealWeightRange :: "string option \<Rightarrow> num_range option" where
  "getIdealWeightRange breedName =
     (let breedProfile = findBreedProfile breedName in
      if breed breedProfile \<noteq> ''Domestic Shorthair'' then Some (idealWeight breedProfile)
      else
        (case breedName of
           None \<Rightarrow> map_of FALLBACK_WEIGHT_RANGES ''default''
         | Some name \<Rightarrow>
             if name = [] then map_of FALLBACK_WEIGHT_RANGES ''default''
             else let normalizedBreed = trim (toLowerCase name) in
               (case js_get FALLBACK_BREED_SIZES normalizedBreed of
                  Own sizeKey \<Rightarrow> map_of FALLBACK_WEIGHT_RANGES sizeKey
                | Undefined \<Rightarrow> map_of FALLBACK_WEIGHT_RANGES ''default''
                | Inherited \<Rightarrow> None)))"

definition calculateCalorieProxy ::
  "CareRoutine \<Rightarrow> IndoorOutdoor option \<Rightarrow> real \<Rightarrow> real \<Rightarrow> real" where
  "calculateCalorieProxy routine lifestyle currentWeight idealWeightKg =
     (let foodOz = (case foodAmountOzPerDay routine of None \<Rightarrow> 3.5 | Some x \<Rightarrow> x);
          idealFoodOz = (idealWeightKg * 2.2) * 0.5;
          proxy1 = 0 + (foodOz - idealFoodOz) * 0.1;
          treats = (case treatsPerDay routine of None \<Rightarrow> 2 | Some x \<Rightarrow> x);
          proxy2 = proxy1 + treats * 0.02;
          playMinutes = (case playMinutesPerDay routine of None \<Rightarrow> 15 | Some x \<Rightarrow> x);
          proxy3 = proxy2 - playMinutes * 0.01;
          proxy4 =
            (if lifestyle = Some indoor then proxy3 + 0.05
             else if lifestyle = Some outdoor \<or> lifestyle = Some lifestyle_mixed
               then proxy3 - 0.05
             else proxy3);
          proxy5 =
            (if foodType routine = Some wet \<or> foodType routine = Some raw then proxy4 - 0.02
             else if foodType routine = Some dry then proxy4 + 0.02
             else proxy4)
      in proxy5)"

text \<open>
  \<^verbatim>\<open>determineHealthStatus\<close>. The source divides by the midpoint of the ideal range; when
  that midpoint is 0 the quotient is \<^verbatim>\<open>Infinity\<close> or \<^verbatim>\<open>NaN\<close>, every comparison
  \<^verbatim>\<open>deviation < c\<close> is false and the last branch is taken. HOL's \<open>x / 0 = 0\<close> would take
  the first branch instead, so the case is written out.
\<close>

definition determineHealthStatus ::
  "real \<Rightarrow> num_range \<Rightarrow> real option \<Rightarrow> int \<Rightarrow> bool \<Rightarrow> HealthStatus" where
  "determineHealthStatus weight idealRange vetVisitsPerYear' months hasKnownConditions =
    (let midIdeal = (range_min idealRange + range_max idealRange) / 2;
         status0 =
           (if midIdeal = 0 then unhealthy
            else let deviation = \<bar>weight - midIdeal\<bar> / midIdeal in
              if deviation < 0.1 then thriving
              else if deviation < 0.2 then ok
              else if deviation < 0.35 then risky
              else unhealthy);
         vetVisits = (case vetVisitsPerYear' of None \<Rightarrow> 0 | Some v \<Rightarrow> v);
         status1 =
           (if vetVisits = 0 \<and> months > 24 then
              (if status0 = thriving then ok
               else if status0 = ok then risky
               else status0)
            else status0);
         status2 =
           (if months > LIFE_STAGES_senior_end then
              (if vetVisits < 1 \<and> status1 \<noteq> unhealthy then
                 (if status1 = thriving then ok else risky)
               else status1)
            else status1);
         status3 =
           (if hasKnownConditions then
              (if vetVisits < 2 then
                 (if status2 = thriving then ok else status2)
               else status2)
            else status2)
     in status3)"

definition getLifeStage :: "int \<Rightarrow> string" where
  "getLifeStage months =
     (if months < LIFE_STAGES_kitten_end then ''kitten''
      else if months < LIFE_STAGES_youngAdult_end then ''young adult''
      else if months < LIFE_STAGES_adult_end then ''adult''
      else if months < LIFE_STAGES_senior_end then ''senior''
      else ''geriatric'')"

text \<open>\<^verbatim>\<open>Math.floor(ageMonths / 12)\<close> is \<open>ageMonths div 12\<close>, which rounds down.\<close>

definition generateNotes ::
  "int \<Rightarrow> real \<Rightarrow> HealthStatus \<Rightarrow> num_range \<Rightarrow> string \<Rightarrow> string" where
  "generateNotes months weight status idealRange catName =
     (let years = months div 12;
          lifeStage = getLifeStage months;
          isOverweight = (weight > range_max idealRange);
          isUnderweight = (weight < range_min idealRange);
          note = ''At age '' @ int_to_string years @ '', '' @ catName @ '' is a '' @ lifeStage
                 @ ''. ''
      in
        if status = thriving then
          note @ ''Weight is in a healthy range and care routine looks great!''
        else if status = ok then
          (if isOverweight then
             note @ ''Weight is slightly above ideal. A bit more playtime could help.''
           else if isUnderweight then
             note @ ''Weight is slightly below ideal. Consider consulting your vet.''
           else note @ ''Overall health is stable, but there's room for improvement.'')
        else if status = risky then
          (if isOverweight then
             note @ ''Weight is becoming a concern. Consider reducing treats and increasing activity.''
           else if isUnderweight then
             note @ ''Weight is low. Please check with your vet to rule out health issues.''
           else note @ ''Some health indicators suggest closer attention is needed.'')
        else note @ ''Health needs attention. Please schedule a vet visit soon.'')"

text \<open>\<^verbatim>\<open>catProfile.name || "Your cat"\<close>: \<^verbatim>\<open>null\<close> and the empty string are falsy.\<close>

definition catName_of :: "CatProfile \<Rightarrow> string" where
  "catName_of profile =
     (case cat_name profile of
        None \<Rightarrow> ''Your cat''
      | Some n \<Rightarrow> if n = [] then ''Your cat'' else n)"

subsection \<open>Alert generation\<close>

definition getLifeStageRecommendation :: "int \<Rightarrow> CareRoutine \<Rightarrow> string" where
  "getLifeStageRecommendation months routine =
     (if months = 12 then
        ''Transition to adult food if you haven't already. Keep up the play sessions!''
      else if months = 84 then
        ''Consider more frequent vet checkups and monitor for any behavior changes.''
      else if months = 120 then
        ''Switch to senior cat food, increase vet visits to twice yearly, and watch for mobility issues.''
      else if months = 180 then
        ''Focus on comfort and quality of life. Consider joint supplements and easier-access litter boxes.''
      else ''Keep providing love, good food, and regular vet care!'')"

text \<open>The variables that the loop of \<^verbatim>\<open>generateAlerts\<close> updates.\<close>

record alert_state =
  st_alerts :: "SimulationAlert list"
  previousStatus :: HealthStatus
  hasWarnedAboutWeight :: bool
  hasWarnedAboutVet :: bool

definition risky_alert :: "string \<Rightarrow> SimulationPoint \<Rightarrow> SimulationAlert" where
  \<open>risky_alert catName point =
     \<lparr>alert_id = ''alert-risky-'' @ int_to_string (ageMonths point),
      alert_ageMonths = of_int (ageMonths point),
      severity = warning,
      message = ''At age '' @ int_to_string (ageMonths point div 12) @ '', '' @ catName
                @ '''s health moves to "risky" status.'',
      recommendation = ''Consider adjusting diet, increasing playtime by 10-15 minutes, and scheduling a vet checkup.''\<rparr>\<close>

definition unhealthy_alert :: "string \<Rightarrow> SimulationPoint \<Rightarrow> SimulationAlert" where
  \<open>unhealthy_alert catName point =
     \<lparr>alert_id = ''alert-unhealthy-'' @ int_to_string (ageMonths point),
      alert_ageMonths = of_int (ageMonths point),
      severity = critical,
      message = ''At age '' @ int_to_string (ageMonths point div 12) @ '', '' @ catName
                @ '' reaches "unhealthy" status.'',
      recommendation = ''Urgent: Schedule a vet visit, significantly reduce treats, and increase daily activity.''\<rparr>\<close>

definition weight_alert :: "string \<Rightarrow> SimulationPoint \<Rightarrow> SimulationAlert" where
  "weight_alert catName point =
     \<lparr>alert_id = ''alert-weight-'' @ int_to_string (ageMonths point),
      alert_ageMonths = of_int (ageMonths point),
      severity = warning,
      message = catName @ '''s weight is trending 15%+ above ideal.'',
      recommendation = ''Reduce treats to 1-2 per day, switch to measured portions, and add 10+ minutes of active play.''\<rparr>"

definition vet_alert :: "string \<Rightarrow> SimulationPoint \<Rightarrow> SimulationAlert" where
  "vet_alert catName point =
     \<lparr>alert_id = ''alert-vet-'' @ int_to_string (ageMonths point),
      alert_ageMonths = of_int (ageMonths point),
      severity = info,
      message = catName @ '' is entering their senior years. Regular vet visits become more important.'',
      recommendation = ''Consider scheduling annual or bi-annual vet checkups to catch age-related issues early.''\<rparr>"

text \<open>One iteration of \<^verbatim>\<open>for (const point of points)\<close>: the four checks in order, then
  \<^verbatim>\<open>previousStatus = point.healthStatus\<close>.\<close>

definition alert_step ::
  "string \<Rightarrow> CareRoutine \<Rightarrow> num_range \<Rightarrow> alert_state \<Rightarrow> SimulationPoint \<Rightarrow> alert_state" where
  "alert_step catName routine idealRange st point =
     (let a1 =
            (if healthStatus point = risky \<and> previousStatus st \<noteq> risky
                \<and> previousStatus st \<noteq> unhealthy
             then st_alerts st @ [risky_alert catName point] else st_alerts st);
          a2 =
            (if healthStatus point = unhealthy \<and> previousStatus st \<noteq> unhealthy
             then a1 @ [unhealthy_alert catName point] else a1);
          fireWeight =
            (\<not> hasWarnedAboutWeight st
             \<and> weightKgEstimate point > range_max idealRange * 1.15);
          a3 = (if fireWeight then a2 @ [weight_alert catName point] else a2);
          fireVet =
            (\<not> hasWarnedAboutVet st \<and> ageMonths point \<ge> LIFE_STAGES_adult_end
             \<and> (case vetVisitsPerYear routine of None \<Rightarrow> 0 | Some v \<Rightarrow> v) < 1);
          a4 = (if fireVet then a3 @ [vet_alert catName point] else a3)
      in \<lparr>st_alerts = a4,
          previousStatus = healthStatus point,
          hasWarnedAboutWeight = (hasWarnedAboutWeight st \<or> fireWeight),
          hasWarnedAboutVet = (hasWarnedAboutVet st \<or> fireVet)\<rparr>)"

definition milestoneMonths :: "(int \<times> string) list" where
  "milestoneMonths =
     [(12, ''reaches 1 year old - no longer a kitten!''),
      (84, ''turns 7 - now considered a mature adult.''),
      (120, ''turns 10 - entering senior years.''),
      (180, ''turns 15 - a wonderful achievement!'')]"

definition milestone_alerts ::
  "string \<Rightarrow> CareRoutine \<Rightarrow> SimulationPoint list \<Rightarrow> SimulationAlert list" where
  "milestone_alerts catName routine pts =
     concat (map (\<lambda>(month, msg).
       (case find (\<lambda>p. ageMonths p = month) pts of
          None \<Rightarrow> []
        | Some point \<Rightarrow>
            [\<lparr>alert_id = ''milestone-'' @ int_to_string month,
              alert_ageMonths = of_int month,
              severity = info,
              message = catName @ '' '' @ msg,
              recommendation = getLifeStageRecommendation month routine\<rparr>]))
       milestoneMonths)"

text \<open>
  \<^verbatim>\<open>generateAlerts\<close>. \<^verbatim>\<open>alerts.sort((a, b) => a.ageMonths - b.ageMonths)\<close> is a stable
  sort by age, as \<^const>\<open>sort_key\<close> is.
\<close>

definition generateAlerts ::
  "SimulationPoint list \<Rightarrow> CatProfile \<Rightarrow> CareRoutine \<Rightarrow> num_range \<Rightarrow> SimulationAlert list" where
  "generateAlerts pts profile routine idealRange =
     (let catName = catName_of profile;
          st = foldl (alert_step catName routine idealRange)
                 \<lparr>st_alerts = [], previousStatus = thriving,
                  hasWarnedAboutWeight = False, hasWarnedAboutVet = False\<rparr> pts
      in sort_key alert_ageMonths (st_alerts st @ milestone_alerts catName routine pts))"

subsection \<open>Summary and recommendations\<close>

text \<open>The score table \<^verbatim>\<open>{ thriving: 4, ok: 3, risky: 2, unhealthy: 1 }\<close> of
  \<^verbatim>\<open>generateSummary\<close> and of \<^verbatim>\<open>analyzeTrajectory\<close>.\<close>

fun statusScores :: "HealthStatus \<Rightarrow> nat" where
  "statusScores thriving = 4"
| "statusScores ok = 3"
| "statusScores risky = 2"
| "statusScores unhealthy = 1"

text \<open>
  The average score of \<^verbatim>\<open>points.slice(-24)\<close>. On an empty list the source divides 0 by 0:
  the average is \<^verbatim>\<open>NaN\<close>, here \<open>None\<close>.
\<close>

definition avgStatus :: "SimulationPoint list \<Rightarrow> real option" where
  "avgStatus pts =
     (let lastPoints = drop (length pts - 24) pts in
      if lastPoints = [] then None
      else Some (real (foldl (\<lambda>acc p. acc + statusScores (healthStatus p)) 0 lastPoints)
                 / real (length lastPoints)))"

text \<open>The trajectory label; every comparison with \<^verbatim>\<open>NaN\<close> is false.\<close>

definition trajectory_label :: "real option \<Rightarrow> string" where
  "trajectory_label avg =
     (case avg of
        None \<Rightarrow> ''needs attention''
      | Some a \<Rightarrow>
          if a > 3.5 then ''excellent''
          else if a > 2.5 then ''good''
          else if a > 1.5 then ''concerning''
          else ''needs attention'')"

text \<open>\<^verbatim>\<open>generateSummary\<close>. Its two filtered alert lists are computed and never read.\<close>

definition generateSummary ::
  "CatProfile \<Rightarrow> CareRoutine \<Rightarrow> SimulationPoint list \<Rightarrow> SimulationAlert list \<Rightarrow> num_range
   \<Rightarrow> string \<times> string list" where
  "generateSummary profile routine pts alertList idealRange =
     (let catName = catName_of profile;
          trajectory = trajectory_label (avgStatus pts);
          summaryText =
            (if trajectory = ''excellent'' \<or> trajectory = ''good'' then
               ''Based on '' @ catName @ '''s current care routine, the long-term outlook is ''
               @ trajectory @ ''! ''
               @ ''With consistent care, '' @ catName
               @ '' has a great chance at a healthy, happy life.''
             else
               catName @ '''s health trajectory shows some areas for improvement. ''
               @ ''With a few adjustments to diet and activity, you can help '' @ catName
               @ '' thrive.'');
          currentWeight =
            (case weightKg profile of
               None \<Rightarrow> (range_min idealRange + range_max idealRange) / 2
             | Some w \<Rightarrow> w);
          r1 =
            (if currentWeight > range_max idealRange then
               [''Reduce daily food portions by about 10% and limit treats to 2-3 per day.'',
                ''Add 10-15 minutes of active play with wand toys or laser pointers.'']
             else if currentWeight < range_min idealRange then
               [''Consider increasing food portions slightly and consult your vet about weight gain.'']
             else []);
          playMinutes = (case playMinutesPerDay routine of None \<Rightarrow> 0 | Some x \<Rightarrow> x);
          r2 =
            (if playMinutes < 15 then
               r1 @ [''Aim for at least 15-20 minutes of interactive play daily to keep ''
                     @ catName @ '' active and engaged.'']
             else r1);
          vetVisits = (case vetVisitsPerYear routine of None \<Rightarrow> 0 | Some x \<Rightarrow> x);
          r3 =
            (if vetVisits < 1 then
               r2 @ [''Schedule at least one annual vet checkup to catch any health issues early.'']
             else if (case cat_ageYears profile of None \<Rightarrow> 0 | Some y \<Rightarrow> y) \<ge> 10
                     \<and> vetVisits < 2 then
               r2 @ [''For senior cats, consider twice-yearly vet visits for optimal health monitoring.'']
             else r2);
          r4 =
            (if foodType routine = Some dry then
               r3 @ [''Consider adding some wet food to '' @ catName
                     @ '''s diet for better hydration.'']
             else r3);
          treats = (case treatsPerDay routine of None \<Rightarrow> 0 | Some x \<Rightarrow> x);
          r5 =
            (if treats > 5 then
               r4 @ [''Reduce treats to 2-3 per day, or switch to lower-calorie options.'']
             else r4);
          r6 =
            (if length r5 < 3 then
               r5 @ [''Continue providing fresh water and a clean litter box for '' @ catName
                     @ '''s comfort.'']
             else r5);
          r7 =
            (if length r6 < 3 then
               r6 @ [''Keep up the love and attention - it's the most important part of cat care!'']
             else r6)
      in (summaryText, take 5 r7))"

subsection \<open>The simulation\<close>

text \<open>
  The values that \<^verbatim>\<open>runSimulation\<close> fixes before its loop. \<^verbatim>\<open>Math.random\<close> is the
  function \<open>random\<close>: its \<open>n\<close>-th call returns \<open>random n\<close>.
\<close>

record sim_env =
  env_catName :: string
  env_idealRange :: num_range
  env_calorieProxy :: real
  env_vetVisitsPerYear :: "real option"
  env_hasKnownConditions :: bool
  env_startAgeMonths :: int
  env_random :: "nat \<Rightarrow> real"

text \<open>The body of the loop at \<open>month\<close>, with the weight of the month before and the
  number of the random draw: the weight of this month and the point pushed.\<close>

definition month_step :: "sim_env \<Rightarrow> int \<Rightarrow> real \<Rightarrow> nat \<Rightarrow> real \<times> SimulationPoint" where
  "month_step env month currentWeight n =
     (let idealRange = env_idealRange env;
          monthlyDrift = env_calorieProxy env * 0.02;
          noise = (env_random env n - 0.5) * 0.05;
          w1 = max 1.5 (currentWeight + monthlyDrift + noise);
          w2 =
            (if month < 12 then min (w1 * 1.05) (range_max idealRange)
             else if month > LIFE_STAGES_senior_end
               then max (w1 * 0.998) (range_min idealRange * 0.8)
             else w1);
          status = determineHealthStatus w2 idealRange (env_vetVisitsPerYear env) month
                     (env_hasKnownConditions env);
          isYearMilestone = (month mod 12 = 0 \<or> month = env_startAgeMonths env);
          noteText =
            (if isYearMilestone then generateNotes month w2 status idealRange (env_catName env)
             else [])
      in (w2, \<lparr>ageMonths = month,
               weightKgEstimate = of_int (Math_round (w2 * 100)) / 100,
               healthStatus = status,
               point_notes = noteText\<rparr>))"

text \<open>\<^verbatim>\<open>for (let month = startAgeMonths; month <= endAgeMonths; month++)\<close>.\<close>

function simulate_months ::
  "sim_env \<Rightarrow> int \<Rightarrow> int \<Rightarrow> real \<Rightarrow> nat \<Rightarrow> SimulationPoint list \<Rightarrow> SimulationPoint list" where
  "simulate_months env month endMonth currentWeight n acc =
     (if month \<le> endMonth then
        (case month_step env month currentWeight n of
           (w, point) \<Rightarrow> simulate_months env (month + 1) endMonth w (Suc n) (acc @ [point]))
      else acc)"
  by pat_completeness auto
termination
  by (relation "measure (\<lambda>(env, month, endMonth, w, n, acc). nat (endMonth + 1 - month))") auto

declare simulate_months.simps [simp del]

text \<open>The starting weight, \<^verbatim>\<open>catProfile.weightKg ?? midIdeal\<close>, and the values fixed before
  the loop.\<close>

definition startWeight_of :: "CatProfile \<Rightarrow> num_range \<Rightarrow> real" where
  "startWeight_of profile idealRange =
     (let midIdeal = (range_min idealRange + range_max idealRange) / 2 in
      case weightKg profile of None \<Rightarrow> midIdeal | Some w \<Rightarrow> w)"

definition sim_env_of :: "SimulationConfig \<Rightarrow> num_range \<Rightarrow> (nat \<Rightarrow> real) \<Rightarrow> sim_env" where
  "sim_env_of config idealRange random =
     (let profile = catProfile config; routine = careRoutine config;
          midIdeal = (range_min idealRange + range_max idealRange) / 2;
          calorieProxy =
            calculateCalorieProxy routine (indoorOutdoor profile)
              (startWeight_of profile idealRange) midIdeal
      in \<lparr>env_catName = catName_of profile,
          env_idealRange = idealRange,
          env_calorieProxy = calorieProxy,
          env_vetVisitsPerYear = vetVisitsPerYear routine,
          env_hasKnownConditions = (length (knownConditions profile) > 0),
          env_startAgeMonths = startAgeMonths config,
          env_random = random\<rparr>)"

text \<open>
  \<^verbatim>\<open>runSimulation\<close>. When \<^verbatim>\<open>getIdealWeightRange\<close> returns \<^verbatim>\<open>undefined\<close>, reading
  \<^verbatim>\<open>idealRange.min\<close> throws a \<^verbatim>\<open>TypeError\<close>.
\<close>

definition runSimulation :: "SimulationConfig \<Rightarrow> (nat \<Rightarrow> real) \<Rightarrow> js_error + SimulationResult" where
  "runSimulation config random =
     (let profile = catProfile config; routine = careRoutine config in
        case getIdealWeightRange (cat_breed profile) of
          None \<Rightarrow> Inl TypeError
        | Some idealRange \<Rightarrow>
            (let pts = simulate_months (sim_env_of config idealRange random)
                         (startAgeMonths config) (endAgeMonths config)
                         (startWeight_of profile idealRange) 0 [];
                 alertList = generateAlerts pts profile routine idealRange
             in case generateSummary profile routine pts alertList idealRange of
                  (summaryText, recs) \<Rightarrow>
                    Inr \<lparr>points = pts, alerts = alertList, summary = summaryText,
                         recommendations = recs\<rparr>))"

text \<open>
  The first simulated month, as \<^verbatim>\<open>runQuickSimulation\<close>, \<^verbatim>\<open>runEnhancedSimulation\<close> and
  \<^verbatim>\<open>runFullyEnhancedSimulation\<close> pass it to \<^verbatim>\<open>runSimulation\<close>:
  \<^verbatim>\<open>((catProfile.ageYears ?? 1) * 12) + (catProfile.ageMonths ?? 0)\<close>.
\<close>

definition simulation_start :: "CatProfile \<Rightarrow> int" where
  "simulation_start profile =
     (case cat_ageYears profile of None \<Rightarrow> 1 | Some y \<Rightarrow> y) * 12
     + (case cat_ageMonths profile of None \<Rightarrow> 0 | Some m \<Rightarrow> m)"


subsection \<open>Simulation enhancer: types\<close>

datatype HealthTrend = improving | stable | declining
datatype RecommendationCategory = screening | diet | activity | monitoring | comfort
datatype NotePriority = priority_high | priority_medium | priority_low

record HealthTrajectory =
  trend :: HealthTrend
  projectedStatusAtYear10 :: HealthStatus
  projectedStatusAtYear15 :: HealthStatus
  riskFactors :: "string list"
  positiveFactors :: "string list"
  averageHealthScore :: real

record EnhancedMilestoneNote =
  note_ageYears :: int
  personalizedNote :: string
  breedSpecificAlerts :: "string list"
  ageAppropriateAdvice :: "string list"
  upcomingMilestones :: "string list"
  trajectoryInsight :: string
  note_priority :: NotePriority

text \<open>\<^verbatim>\<open>interface EnhancedSimulationPoint extends SimulationPoint\<close>, with two optional
  fields.\<close>

record EnhancedSimulationPoint = SimulationPoint +
  enhancedNote :: "EnhancedMilestoneNote option"
  breedHealthRisks :: "HealthRisk list option"

record ProgressiveRecommendation =
  rec_ageYears :: int
  category :: RecommendationCategory
  rec_recommendation :: string
  rec_reason :: string
  rec_priority :: NotePriority

text \<open>\<^verbatim>\<open>interface EnhancedSimulationResult extends SimulationResult\<close>.\<close>

record EnhancedSimulationResult = SimulationResult +
  enhancedPoints :: "EnhancedSimulationPoint list"
  trajectory :: HealthTrajectory
  breedProfile :: "BreedHealthProfile option"
  progressiveTimeline :: "ProgressiveRecommendation list"
  isEnhanced :: bool

subsection \<open>Trajectory analysis\<close>

definition extrapolateStatus :: "real \<Rightarrow> HealthTrend \<Rightarrow> int \<Rightarrow> HealthStatus" where
  "extrapolateStatus avgScore tr targetYear =
     (let adjusted1 =
            (if tr = declining then avgScore - 0.5
             else if tr = improving then avgScore + 0.3
             else avgScore);
          adjustedScore = (if targetYear \<ge> 15 then adjusted1 - 0.3 else adjusted1)
      in if adjustedScore \<ge> 3.5 then thriving
         else if adjustedScore \<ge> 2.5 then ok
         else if adjustedScore \<ge> 1.5 then risky
         else unhealthy)"

text \<open>The sum of the status scores of a list of points, by \<^verbatim>\<open>reduce\<close> from 0.\<close>

definition score_sum :: "SimulationPoint list \<Rightarrow> nat" where
  "score_sum pts = foldl (\<lambda>acc p. acc + statusScores (healthStatus p)) 0 pts"

text \<open>
  \<^verbatim>\<open>analyzeTrajectory\<close>. \<^verbatim>\<open>p.ageMonths % 12 === 0\<close> holds exactly when 12 divides the
  age. Past the early return there are at least two yearly points, so both halves are
  non-empty and no average divides by 0. A status string is truthy, so
  \<^verbatim>\<open>year10Point?.healthStatus || ...\<close> extrapolates only when no point is found.
  \<^verbatim>\<open>if (breedProfile && catProfile.weightKg)\<close> fails for a weight of \<^verbatim>\<open>null\<close> and of 0.
\<close>

definition analyzeTrajectory ::
  "SimulationPoint list \<Rightarrow> CatProfile \<Rightarrow> CareRoutine \<Rightarrow> HealthTrajectory" where
  "analyzeTrajectory pts profile routine =
     (let yearlyPoints = filter (\<lambda>p. ageMonths p mod 12 = 0) pts in
      if length yearlyPoints < 2 then
        \<lparr>trend = stable,
         projectedStatusAtYear10 = ok,
         projectedStatusAtYear15 = ok,
         riskFactors = [],
         positiveFactors = [],
         averageHealthScore = 3\<rparr>
      else
        (let avgScore = real (score_sum yearlyPoints) / real (length yearlyPoints);
             midpoint = length yearlyPoints div 2;
             firstHalf = take midpoint yearlyPoints;
             secondHalf = drop midpoint yearlyPoints;
             firstHalfAvg = real (score_sum firstHalf) / real (length firstHalf);
             secondHalfAvg = real (score_sum secondHalf) / real (length secondHalf);
             tr =
               (if secondHalfAvg > firstHalfAvg + 0.3 then improving
                else if secondHalfAvg < firstHalfAvg - 0.3 then declining
                else stable);
             year10Point = find (\<lambda>p. ageMonths p = 120) yearlyPoints;
             year15Point = find (\<lambda>p. ageMonths p = 180) yearlyPoints;
             projected10 =
               (case year10Point of
                  Some p \<Rightarrow> healthStatus p
                | None \<Rightarrow> extrapolateStatus avgScore tr 10);
             projected15 =
               (case year15Point of
                  Some p \<Rightarrow> healthStatus p
                | None \<Rightarrow> extrapolateStatus avgScore tr 15);
             playMinutes = (case playMinutesPerDay routine of None \<Rightarrow> 0 | Some x \<Rightarrow> x);
             vetVisits = (case vetVisitsPerYear routine of None \<Rightarrow> 0 | Some x \<Rightarrow> x);
             treats = (case treatsPerDay routine of None \<Rightarrow> 0 | Some x \<Rightarrow> x);
             risk1 =
               (if playMinutes < 10 then [''Low activity level (less than 10 min/day)'']
                else []);
             pos1 =
               (if \<not> playMinutes < 10 \<and> playMinutes \<ge> 20 then [''Good daily activity level'']
                else []);
             risk2 = (if vetVisits < 1 then risk1 @ [''No regular vet visits''] else risk1);
             pos2 =
               (if \<not> vetVisits < 1 \<and> vetVisits \<ge> 2 then pos1 @ [''Regular vet checkups'']
                else pos1);
             risk3 = (if treats > 5 then risk2 @ [''High treat consumption''] else risk2);
             pos3 =
               (if \<not> treats > 5 \<and> treats \<le> 2 then pos2 @ [''Controlled treat intake'']
                else pos2);
             risk4 =
               (if foodType routine = Some dry
                then risk3 @ [''Dry food only (lower hydration)''] else risk3);
             pos4 =
               (if foodType routine = Some wet \<or> foodType routine = Some food_mixed
                then pos3 @ [''Good food variety for hydration''] else pos3);
             profileOfBreed = findBreedProfile (cat_breed profile);
             weightTruthy = (case weightKg profile of None \<Rightarrow> None
                             | Some w \<Rightarrow> if w = 0 then None else Some w);
             risk5 =
               (case weightTruthy of
                  None \<Rightarrow> risk4
                | Some w \<Rightarrow>
                    if w > range_max (idealWeight profileOfBreed)
                    then risk4 @ [''Current weight above ideal range''] else risk4);
             pos5 =
               (case weightTruthy of
                  None \<Rightarrow> pos4
                | Some w \<Rightarrow>
                    if \<not> w > range_max (idealWeight profileOfBreed)
                       \<and> w \<ge> range_min (idealWeight profileOfBreed)
                       \<and> w \<le> range_max (idealWeight profileOfBreed)
                    then pos4 @ [''Weight in healthy range''] else pos4);
             risk6 =
               (if length (knownConditions profile) > 0
                then risk5 @ [''Existing health conditions: ''
                              @ join '', '' (knownConditions profile)]
                else risk5);
             currentAge = (case cat_ageYears profile of None \<Rightarrow> 1 | Some y \<Rightarrow> y);
             risk7 =
               (if currentAge \<ge> 10 \<and> vetVisits < 2
                then risk6 @ [''Senior cat needs more frequent vet visits''] else risk6)
         in \<lparr>trend = tr,
             projectedStatusAtYear10 = projected10,
             projectedStatusAtYear15 = projected15,
             riskFactors = risk7,
             positiveFactors = pos5,
             averageHealthScore = avgScore\<rparr>))"

subsection \<open>Breed-aware alert generation\<close>

text \<open>The start of the simulated range as \<^verbatim>\<open>generateBreedSpecificAlerts\<close> takes it:
  \<^verbatim>\<open>(catProfile.ageYears ?? 1) * 12\<close>.\<close>

definition startAge_of :: "CatProfile \<Rightarrow> int" where
  "startAge_of profile = (case cat_ageYears profile of None \<Rightarrow> 1 | Some y \<Rightarrow> y)"

definition prewarning_alert ::
  "string \<Rightarrow> BreedHealthProfile \<Rightarrow> HealthRisk \<Rightarrow> real \<Rightarrow> SimulationAlert" where
  "prewarning_alert catName profile risk preWarningMonth =
     \<lparr>alert_id = ''breed-'' @ toLowerCase (replace_spaces (condition risk)) @ ''-prewarning-''
                 @ number_to_string preWarningMonth,
      alert_ageMonths = preWarningMonth,
      severity = (if riskLevel risk = risk_high then warning else info),
      message = catName @ '' is approaching the typical onset age for '' @ condition risk
                @ '' in '' @ breed profile @ ''s.'',
      recommendation = ''Start monitoring: '' @ monitoringAdvice risk\<rparr>"

definition onset_alert ::
  "BreedHealthProfile \<Rightarrow> HealthRisk \<Rightarrow> real \<Rightarrow> SimulationAlert" where
  "onset_alert profile risk onsetMonth =
     \<lparr>alert_id = ''breed-'' @ toLowerCase (replace_spaces (condition risk)) @ ''-onset-''
                 @ number_to_string onsetMonth,
      alert_ageMonths = onsetMonth,
      severity = (if riskLevel risk = risk_high then critical else warning),
      message = breed profile @ ''s typically begin showing '' @ condition risk
                @ '' around age '' @ number_to_string (typicalOnsetYears risk) @ ''.'',
      recommendation = monitoringAdvice risk\<rparr>"

text \<open>The alerts that the body of \<^verbatim>\<open>breedProfile.healthRisks.forEach\<close> pushes for one
  risk.\<close>

definition risk_alerts ::
  "string \<Rightarrow> BreedHealthProfile \<Rightarrow> int \<Rightarrow> HealthRisk \<Rightarrow> SimulationAlert list" where
  "risk_alerts catName profile startAge risk =
     (let onsetMonth = typicalOnsetYears risk * 12 in
      if onsetMonth \<ge> of_int startAge * 12 then
        (let preWarningMonth = max (onsetMonth - 12) (of_int startAge * 12) in
         (if preWarningMonth \<noteq> onsetMonth
          then [prewarning_alert catName profile risk preWarningMonth] else [])
         @ [onset_alert profile risk onsetMonth])
      else [])"

text \<open>The alert that the body of \<^verbatim>\<open>breedProfile.screeningSchedule.forEach\<close> pushes.\<close>

definition screening_alerts ::
  "string \<Rightarrow> int \<Rightarrow> ScreeningSchedule \<Rightarrow> SimulationAlert list" where
  "screening_alerts catName startAge schedule =
     (let scheduleMonth = screening_ageYears schedule * 12 in
      if scheduleMonth \<ge> of_int startAge * 12 then
        [\<lparr>alert_id = ''breed-screening-'' @ number_to_string (screening_ageYears schedule),
          alert_ageMonths = scheduleMonth,
          severity = info,
          message = ''Year '' @ number_to_string (screening_ageYears schedule)
                    @ '' screening recommended for '' @ catName @ ''.'',
          recommendation = ''Schedule: '' @ join '', '' (screenings schedule) @ ''. ''
                           @ screening_reason schedule\<rparr>]
      else [])"

text \<open>\<^verbatim>\<open>generateBreedSpecificAlerts\<close>; \<^verbatim>\<open>findBreedProfile\<close> never returns \<^verbatim>\<open>null\<close>, so
  the early return is dead. The list of points is not read.\<close>

definition generateBreedSpecificAlerts ::
  "CatProfile \<Rightarrow> CareRoutine \<Rightarrow> SimulationPoint list \<Rightarrow> SimulationAlert list" where
  "generateBreedSpecificAlerts profile routine pts =
     (let profileOfBreed = findBreedProfile (cat_breed profile);
          catName = catName_of profile;
          startAge = startAge_of profile
      in sort_key alert_ageMonths
           (concat (map (risk_alerts catName profileOfBreed startAge)
                      (healthRisks profileOfBreed))
            @ concat (map (screening_alerts catName startAge)
                        (screeningSchedule profileOfBreed))))"

subsection \<open>Progressive timeline\<close>

definition generateYearRecommendations ::
  "int \<Rightarrow> CatProfile \<Rightarrow> CareRoutine \<Rightarrow> HealthTrajectory \<Rightarrow> BreedHealthProfile option \<Rightarrow> string
   \<Rightarrow> ProgressiveRecommendation list" where
  "generateYearRecommendations year profile routine traj breedProfileOpt catName =
     (let recs1 =
            (case breedProfileOpt of
               None \<Rightarrow> []
             | Some bp \<Rightarrow>
                 (case find (\<lambda>s. screening_ageYears s = of_int year) (screeningSchedule bp) of
                    None \<Rightarrow> []
                  | Some s \<Rightarrow>
                      [\<lparr>rec_ageYears = year,
                        category = screening,
                        rec_recommendation = join '', '' (screenings s),
                        rec_reason = screening_reason s,
                        rec_priority = (if year \<ge> 7 then priority_high else priority_medium)\<rparr>])
                 @ concat (map (\<lambda>risk.
                     if typicalOnsetYears risk = of_int year then
                       [\<lparr>rec_ageYears = year,
                         category = monitoring,
                         rec_recommendation = ''Begin '' @ condition risk @ '' monitoring'',
                         rec_reason = monitoringAdvice risk,
                         rec_priority =
                           (if riskLevel risk = risk_high then priority_high
                            else priority_medium)\<rparr>]
                     else []) (healthRisks bp)));
          recs2 =
            (if year = 1 then
               recs1 @ [\<lparr>rec_ageYears = year,
                         category = screening,
                         rec_recommendation =
                           ''Complete first-year vaccinations and establish baseline bloodwork'',
                         rec_reason = ''Sets foundation for lifelong health monitoring'',
                         rec_priority = priority_high\<rparr>]
             else recs1);
          recs3 =
            (if year = 7 then
               recs2 @ [\<lparr>rec_ageYears = year,
                         category = screening,
                         rec_recommendation = ''Begin senior wellness screening'',
                         rec_reason = catName
                           @ '' enters mature adult years - early detection is key'',
                         rec_priority = priority_high\<rparr>]
               @ (if (case vetVisitsPerYear routine of None \<Rightarrow> 0 | Some v \<Rightarrow> v) < 2 then
                    [\<lparr>rec_ageYears = year,
                      category = monitoring,
                      rec_recommendation = ''Increase to twice-yearly vet visits'',
                      rec_reason = ''Senior cats benefit from more frequent health monitoring'',
                      rec_priority = priority_medium\<rparr>]
                  else [])
             else recs2);
          recs4 =
            (if year = 10 then
               recs3 @ [\<lparr>rec_ageYears = year,
                         category = diet,
                         rec_recommendation = ''Evaluate transition to senior cat food formula'',
                         rec_reason = ''Senior formulas support kidney function and joint health'',
                         rec_priority = priority_medium\<rparr>]
             else recs3);
          recs5 =
            (if year = 12 then
               recs4 @ [\<lparr>rec_ageYears = year,
                         category = comfort,
                         rec_recommendation =
                           ''Consider orthopedic bedding and easier litter box access'',
                         rec_reason = ''Supports mobility and comfort in senior years'',
                         rec_priority = priority_medium\<rparr>]
             else recs4);
          recs6 =
            (if trend traj = declining
                \<and> year \<ge> (case cat_ageYears profile of None \<Rightarrow> 1 | Some y \<Rightarrow> y) + 2 then
               recs5
               @ (if ''Low activity level (less than 10 min/day)'' \<in> set (riskFactors traj) then
                    [\<lparr>rec_ageYears = year,
                      category = activity,
                      rec_recommendation = ''Gradually increase daily play to 15-20 minutes'',
                      rec_reason = ''Improving activity can reverse declining health trajectory'',
                      rec_priority = priority_high\<rparr>]
                  else [])
               @ (if ''No regular vet visits'' \<in> set (riskFactors traj) then
                    [\<lparr>rec_ageYears = year,
                      category = monitoring,
                      rec_recommendation = ''Schedule a comprehensive health check'',
                      rec_reason = ''Regular monitoring essential for declining health trajectory'',
                      rec_priority = priority_high\<rparr>]
                  else [])
             else recs5)
      in recs6)"

text \<open>\<^verbatim>\<open>for (let year = Math.max(1, startAge); year <= 20; year++)\<close>, each year's
  recommendations appended in turn.\<close>

definition generateProgressiveTimeline ::
  "CatProfile \<Rightarrow> CareRoutine \<Rightarrow> HealthTrajectory \<Rightarrow> BreedHealthProfile option
   \<Rightarrow> ProgressiveRecommendation list" where
  "generateProgressiveTimeline profile routine traj breedProfileOpt =
     (let startAge = (case cat_ageYears profile of None \<Rightarrow> 1 | Some y \<Rightarrow> y);
          catName = catName_of profile
      in concat (map (\<lambda>year.
           generateYearRecommendations year profile routine traj breedProfileOpt catName)
           [max 1 startAge..20]))"

subsection \<open>Local enhancement\<close>

definition generateEnhancedSummary ::
  "string \<Rightarrow> HealthTrajectory \<Rightarrow> BreedHealthProfile option \<Rightarrow> CatProfile \<Rightarrow> string" where
  "generateEnhancedSummary originalSummary traj breedProfileOpt profile =
     (let catName = catName_of profile;
          s1 =
            (if trend traj = declining then
               originalSummary @ '' The health trajectory shows some decline over time - small changes now can make a big difference.''
             else if trend traj = improving then
               originalSummary @ '' Great news - the health trajectory is improving with current care!''
             else originalSummary)
      in case breedProfileOpt of
           None \<Rightarrow> s1
         | Some bp \<Rightarrow>
             if breed bp \<noteq> ''Domestic Shorthair'' then
               (let avgLifespan =
                      (range_min (lifeExpectancy bp) + range_max (lifeExpectancy bp)) / 2
                in s1 @ '' As a '' @ breed bp @ '', '' @ catName
                   @ '' has an average life expectancy of ''
                   @ int_to_string (Math_round avgLifespan) @ '' years with proper care.'')
             else s1)"

text \<open>One iteration of \<^verbatim>\<open>trajectory.riskFactors.forEach\<close> in
  \<^verbatim>\<open>generateEnhancedRecommendations\<close>: three checks, each on the list as the one before
  left it.\<close>

definition risk_factor_step :: "string \<Rightarrow> string list \<Rightarrow> string \<Rightarrow> string list" where
  "risk_factor_step catName recs risk =
     (let recs1 =
            (if str_includes risk ''Low activity''
                \<and> \<not> list_ex (\<lambda>r. str_includes r ''play'') recs
             then recs @ [''Increase '' @ catName
                          @ '''s daily play sessions to at least 15 minutes.'']
             else recs);
          recs2 =
            (if str_includes risk ''vet visits''
                \<and> \<not> list_ex (\<lambda>r. str_includes r ''vet'') recs1
             then recs1 @ [''Schedule regular vet checkups - at least annually, twice yearly for seniors.'']
             else recs1);
          recs3 =
            (if str_includes risk ''treat''
                \<and> \<not> list_ex (\<lambda>r. str_includes r ''treat'') recs2
             then recs2 @ [''Reduce daily treats to 2-3 to support healthy weight.'']
             else recs2)
      in recs3)"

text \<open>One iteration of \<^verbatim>\<open>upcomingRisks.forEach\<close>.\<close>

definition upcoming_risk_step :: "BreedHealthProfile \<Rightarrow> string list \<Rightarrow> HealthRisk \<Rightarrow> string list" where
  "upcoming_risk_step bp recs risk =
     (if riskLevel risk = risk_high \<and> \<not> list_ex (\<lambda>r. str_includes r (condition risk)) recs
      then recs @ [breed bp @ ''s are prone to '' @ condition risk @ ''. ''
                   @ monitoringAdvice risk]
      else recs)"

text \<open>\<^verbatim>\<open>generateEnhancedRecommendations\<close>. \<^verbatim>\<open>if (newAdvice)\<close> fails for the empty
  string.\<close>

definition generateEnhancedRecommendations ::
  "string list \<Rightarrow> HealthTrajectory \<Rightarrow> BreedHealthProfile option \<Rightarrow> CatProfile \<Rightarrow> CareRoutine
   \<Rightarrow> string list" where
  "generateEnhancedRecommendations originalRecs traj breedProfileOpt profile routine =
     (let catName = catName_of profile;
          recs1 = foldl (risk_factor_step catName) originalRecs (riskFactors traj);
          recs4 =
            (case breedProfileOpt of
               None \<Rightarrow> recs1
             | Some bp \<Rightarrow>
                 (let currentAge = (case cat_ageYears profile of None \<Rightarrow> 1 | Some y \<Rightarrow> y);
                      upcomingRisks =
                        filter (\<lambda>r. typicalOnsetYears r > of_int currentAge
                                    \<and> typicalOnsetYears r \<le> of_int currentAge + 3)
                          (healthRisks bp);
                      recs2 = foldl (upcoming_risk_step bp) recs1 upcomingRisks;
                      recs3 =
                        (case getAgeSpecificAdvice bp currentAge of
                           None \<Rightarrow> recs2
                         | Some ageAdvice \<Rightarrow>
                             if length (advice ageAdvice) > 0 then
                               (case find (\<lambda>a. \<not> list_ex (\<lambda>r. str_includes r (take 20 a)) recs2)
                                       (advice ageAdvice) of
                                  None \<Rightarrow> recs2
                                | Some newAdvice \<Rightarrow>
                                    if newAdvice \<noteq> [] then recs2 @ [newAdvice] else recs2)
                             else recs2)
                  in recs3))
      in take 6 recs4)"

text \<open>\<^verbatim>\<open>self.findIndex(pred)\<close>: the first index whose element satisfies \<open>pred\<close>.\<close>

fun findIndex :: "('a \<Rightarrow> bool) \<Rightarrow> 'a list \<Rightarrow> nat option" where
  "findIndex pred [] = None"
| "findIndex pred (x # xs) =
     (if pred x then Some 0 else map_option Suc (findIndex pred xs))"

text \<open>The filter of the merged alerts: an alert stays when it is the first of the list with
  its age and the first 30 characters of its message.\<close>

definition dedupe_alerts :: "SimulationAlert list \<Rightarrow> SimulationAlert list" where
  "dedupe_alerts self =
     map snd (filter (\<lambda>(index, alert).
       Some index = findIndex (\<lambda>a. alert_ageMonths a = alert_ageMonths alert
                                    \<and> take 30 (message a) = take 30 (message alert)) self)
       (zip [0..<length self] self))"

text \<open>\<^verbatim>\<open>{ ...point, breedHealthRisks }\<close>: the point with one more field.\<close>

definition enhance_point :: "BreedHealthProfile \<Rightarrow> SimulationPoint \<Rightarrow> EnhancedSimulationPoint" where
  "enhance_point bp point =
     SimulationPoint.extend point
       (EnhancedSimulationPoint.fields None
          (Some (getHealthRisksForAge bp (ageMonths point div 12))))"

definition enhanceSimulationLocally ::
  "SimulationResult \<Rightarrow> CatProfile \<Rightarrow> CareRoutine \<Rightarrow> EnhancedSimulationResult" where
  "enhanceSimulationLocally result profile routine =
     (let profileOfBreed = findBreedProfile (cat_breed profile);
          traj = analyzeTrajectory (points result) profile routine;
          breedAlerts = generateBreedSpecificAlerts profile routine (points result);
          mergedAlerts =
            dedupe_alerts (sort_key alert_ageMonths (alerts result @ breedAlerts));
          enhanced = map (enhance_point profileOfBreed) (points result);
          timeline = generateProgressiveTimeline profile routine traj (Some profileOfBreed);
          enhancedSummary =
            generateEnhancedSummary (summary result) traj (Some profileOfBreed) profile;
          enhancedRecommendations =
            generateEnhancedRecommendations (recommendations result) traj
              (Some profileOfBreed) profile routine
      in SimulationResult.extend
           (result\<lparr>alerts := mergedAlerts, summary := enhancedSummary,
                   recommendations := enhancedRecommendations\<rparr>)
           (EnhancedSimulationResult.fields enhanced traj (Some profileOfBreed) timeline True))"

subsection \<open>Enhancement with externally generated notes\<close>

text \<open>
  The request that \<^verbatim>\<open>enhanceSimulationWithGPT\<close> posts, and what can come back:
  \<^verbatim>\<open>fetch\<close> throws (a network error), or returns a response with its \<^verbatim>\<open>ok\<close> flag whose
  body either fails to parse (\<^verbatim>\<open>response.json()\<close> throws) or is a payload. Of the payload
  the source reads the truthiness of \<^verbatim>\<open>success\<close> and the field \<^verbatim>\<open>notes\<close>, which is
  missing (or \<^verbatim>\<open>null\<close>) or an array of notes. The external service is the function
  \<open>fetch\<close> from requests to outcomes.
\<close>

record api_request =
  req_catProfile :: CatProfile
  req_careRoutine :: CareRoutine
  req_simulationPoints :: "SimulationPoint list"
  req_trajectory :: HealthTrajectory

record api_payload =
  payload_success :: bool
  payload_notes :: "EnhancedMilestoneNote list option"

datatype api_body = JsonThrows | JsonData api_payload

datatype fetch_outcome = FetchThrows | Response bool api_body

text \<open>The merge of one point with the notes: \<^verbatim>\<open>{ ...point, enhancedNote: gptNote, notes:
  gptNote.personalizedNote }\<close> when a note of the point's year is found.\<close>

definition merge_note ::
  "EnhancedMilestoneNote list \<Rightarrow> EnhancedSimulationPoint \<Rightarrow> EnhancedSimulationPoint" where
  "merge_note noteList point =
     (let years = ageMonths point div 12 in
      case find (\<lambda>n. note_ageYears n = years) noteList of
        Some gptNote \<Rightarrow>
          point\<lparr>enhancedNote := Some gptNote, point_notes := personalizedNote gptNote\<rparr>
      | None \<Rightarrow> point)"

text \<open>The body of the request: the profile, the routine, the yearly points and the
  trajectory of the local enhancement.\<close>

definition milestone_request ::
  "SimulationResult \<Rightarrow> CatProfile \<Rightarrow> CareRoutine \<Rightarrow> EnhancedSimulationResult \<Rightarrow> api_request" where
  "milestone_request result profile routine localEnhanced =
     (let yearMilestones = filter (\<lambda>p. ageMonths p mod 12 = 0) (points result) in
      \<lparr>req_catProfile = profile, req_careRoutine = routine,
       req_simulationPoints = yearMilestones,
       req_trajectory = trajectory localEnhanced\<rparr>)"

definition enhanceSimulationWithGPT ::
  "(api_request \<Rightarrow> fetch_outcome) \<Rightarrow> SimulationResult \<Rightarrow> CatProfile \<Rightarrow> CareRoutine
   \<Rightarrow> EnhancedSimulationResult" where
  "enhanceSimulationWithGPT fetch result profile routine =
     (let localEnhanced = enhanceSimulationLocally result profile routine in
        case fetch (milestone_request result profile routine localEnhanced) of
          FetchThrows \<Rightarrow> localEnhanced
        | Response isOk body \<Rightarrow>
            if \<not> isOk then localEnhanced
            else
              (case body of
                 JsonThrows \<Rightarrow> localEnhanced
               | JsonData payload \<Rightarrow>
                   if \<not> payload_success payload then localEnhanced
                   else
                     (case payload_notes payload of
                        None \<Rightarrow> localEnhanced
                      | Some noteList \<Rightarrow>
                          localEnhanced\<lparr>enhancedPoints :=
                            map (merge_note noteList) (enhancedPoints localEnhanced)\<rparr>)))"


section \<open>The specification's words\<close>

text \<open>
  The definitions of this section follow the wording of the specification, not the source;
  the properties below compare them with the embedding of the code.
\<close>

text \<open>
  The weight-only classification: the relative deviation of the weight from the midpoint of
  the ideal range, below 10% thriving, below 20% ok, below 35% risky, else unhealthy. Where
  the midpoint is 0 no deviation is below any threshold.
\<close>

definition spec_deviation_bucket :: "real \<Rightarrow> HealthStatus" where
  "spec_deviation_bucket d =
     (if d < 10 / 100 then thriving
      else if d < 20 / 100 then ok
      else if d < 35 / 100 then risky
      else unhealthy)"

definition spec_weight_only_status :: "real \<Rightarrow> num_range \<Rightarrow> HealthStatus" where
  "spec_weight_only_status weight idealRange =
     (let m = (range_min idealRange + range_max idealRange) / 2 in
      if m = 0 then unhealthy else spec_deviation_bucket (\<bar>weight - m\<bar> / m))"

text \<open>The three conditions under which the status is adjusted: zero vet visits past 24
  months; past 180 months with fewer than one visit a year; known conditions with fewer
  than two visits a year.\<close>

definition spec_adjustment_applies :: "real option \<Rightarrow> int \<Rightarrow> bool \<Rightarrow> bool" where
  "spec_adjustment_applies visits months hasKnownConditions =
     (let v = (case visits of None \<Rightarrow> 0 | Some x \<Rightarrow> x) in
      (v = 0 \<and> months > 24) \<or> (months > 180 \<and> v < 1) \<or> (hasKnownConditions \<and> v < 2))"

text \<open>One downgrade of a status: thriving to ok, ok to risky; risky and unhealthy stay.\<close>

definition spec_downgrade :: "HealthStatus \<Rightarrow> HealthStatus" where
  "spec_downgrade s =
     (case s of thriving \<Rightarrow> ok | ok \<Rightarrow> risky | risky \<Rightarrow> risky | unhealthy \<Rightarrow> unhealthy)"

text \<open>The number of vet visits a year, none when the routine gives no number.\<close>

definition spec_visits :: "real option \<Rightarrow> real" where
  "spec_visits visits = (case visits of None \<Rightarrow> 0 | Some x \<Rightarrow> x)"

text \<open>A breed name is unmatched when, lower-cased and trimmed, it is neither the lower-cased
  name nor a lower-cased alias of any profile of the registry.\<close>

definition spec_unmatched :: "string \<Rightarrow> bool" where
  "spec_unmatched name =
     (\<forall>p \<in> set BREED_HEALTH_DATABASE.
        toLowerCase (breed p) \<noteq> trim (toLowerCase name)
        \<and> (\<forall>a \<in> set (aliases p). toLowerCase a \<noteq> trim (toLowerCase name)))"

text \<open>The external milestone-note call has failed when it threw, when the response was not
  OK, or when the payload could not be read or misses \<^verbatim>\<open>success\<close> or \<^verbatim>\<open>notes\<close>.\<close>

definition spec_call_failed :: "fetch_outcome \<Rightarrow> bool" where
  "spec_call_failed outcome =
     (case outcome of
        FetchThrows \<Rightarrow> True
      | Response isOk body \<Rightarrow>
          \<not> isOk \<or>
          (case body of
             JsonThrows \<Rightarrow> True
           | JsonData payload \<Rightarrow> \<not> payload_success payload \<or> payload_notes payload = None))"

text \<open>The yearly points of a list: those whose age is divisible by 12.\<close>

definition spec_yearly :: "SimulationPoint list \<Rightarrow> SimulationPoint list" where
  "spec_yearly pts = filter (\<lambda>p. 12 dvd ageMonths p) pts"

text \<open>The average status score (thriving 4, ok 3, risky 2, unhealthy 1) over the trailing 24
  simulated months.\<close>

definition spec_trailing_average :: "SimulationPoint list \<Rightarrow> real" where
  "spec_trailing_average pts =
     (let trailing = rev (take 24 (rev pts)) in
      (\<Sum>p\<leftarrow>trailing. real (statusScores (healthStatus p))) / real (length trailing))"

text \<open>
  The alerts of the two status-transition categories, told by the identifiers that
  \<^verbatim>\<open>generateAlerts\<close> gives them.
\<close>

definition is_risky_transition_alert :: "SimulationAlert \<Rightarrow> bool" where
  "is_risky_transition_alert a = (take 12 (alert_id a) = ''alert-risky-'')"

definition is_unhealthy_transition_alert :: "SimulationAlert \<Rightarrow> bool" where
  "is_unhealthy_transition_alert a = (take 16 (alert_id a) = ''alert-unhealthy-'')"

text \<open>
  The positions at which a point sequence enters the risky status coming from thriving or
  ok, and those at which it enters the unhealthy status coming from any better status; the
  status before the first point counts as thriving.
\<close>

definition spec_status_before :: "SimulationPoint list \<Rightarrow> nat \<Rightarrow> HealthStatus" where
  "spec_status_before pts i = (if i = 0 then thriving else healthStatus (pts ! (i - 1)))"

definition spec_risky_entries :: "SimulationPoint list \<Rightarrow> nat list" where
  "spec_risky_entries pts =
     filter (\<lambda>i. healthStatus (pts ! i) = risky
                 \<and> (spec_status_before pts i = thriving \<or> spec_status_before pts i = ok))
       [0..<length pts]"

definition spec_unhealthy_entries :: "SimulationPoint list \<Rightarrow> nat list" where
  "spec_unhealthy_entries pts =
     filter (\<lambda>i. healthStatus (pts ! i) = unhealthy \<and> spec_status_before pts i \<noteq> unhealthy)
       [0..<length pts]"

text \<open>
  The three kinds of alert in the list that \<^verbatim>\<open>generateBreedSpecificAlerts\<close> returns, told
  by the recommendation that it gives them: a pre-warning recommends
  \<^verbatim>\<open>Start monitoring: \<close> and the risk's monitoring advice, a screening alert
  \<^verbatim>\<open>Schedule: \<close> and the screenings, and an onset alert the monitoring advice alone.
\<close>

definition is_prewarning_alert :: "SimulationAlert \<Rightarrow> bool" where
  "is_prewarning_alert a = (take 18 (recommendation a) = ''Start monitoring: '')"

definition is_screening_alert :: "SimulationAlert \<Rightarrow> bool" where
  "is_screening_alert a = (take 10 (recommendation a) = ''Schedule: '')"

definition is_onset_alert :: "SimulationAlert \<Rightarrow> bool" where
  "is_onset_alert a = (\<not> is_prewarning_alert a \<and> \<not> is_screening_alert a)"

text \<open>The onset month of a health risk: twelve times its typical onset in years.\<close>

definition spec_onset_month :: "HealthRisk \<Rightarrow> real" where
  "spec_onset_month risk = typicalOnsetYears risk * 12"


section \<open>Auxiliary functions of the proofs\<close>

text \<open>The points at which the loop of \<^verbatim>\<open>generateAlerts\<close> pushes a risky alert, and those
  at which it pushes an unhealthy alert, when it starts with the previous status \<open>prev\<close>.\<close>

fun risky_firing :: "HealthStatus \<Rightarrow> SimulationPoint list \<Rightarrow> SimulationPoint list" where
  "risky_firing prev [] = []"
| "risky_firing prev (p # ps) =
     (if healthStatus p = risky \<and> prev \<noteq> risky \<and> prev \<noteq> unhealthy then [p] else [])
     @ risky_firing (healthStatus p) ps"

fun unhealthy_firing :: "HealthStatus \<Rightarrow> SimulationPoint list \<Rightarrow> SimulationPoint list" where
  "unhealthy_firing prev [] = []"
| "unhealthy_firing prev (p # ps) =
     (if healthStatus p = unhealthy \<and> prev \<noteq> unhealthy then [p] else [])
     @ unhealthy_firing (healthStatus p) ps"

text \<open>The lower-cased names and aliases of the registry, in registry order: the strings
  that \<^verbatim>\<open>findBreedProfile\<close> compares the normalized input with.\<close>

definition registry_names :: "string list" where
  "registry_names =
     concat (map (\<lambda>p. toLowerCase (breed p) # map toLowerCase (aliases p))
       BREED_HEALTH_DATABASE)"

section \<open>Example inputs\<close>

text \<open>The empty profile and routine of \<^verbatim>\<open>types/catlife.ts\<close>.\<close>

definition DEFAULT_CAT_PROFILE :: CatProfile where
  "DEFAULT_CAT_PROFILE =
     \<lparr>cat_id = None, cat_name = None, cat_ageYears = None, cat_ageMonths = None, sex = None,
      neutered = None, cat_breed = None, indoorOutdoor = None, weightKg = None,
      weightSource = None, bodyCondition = None, knownConditions = [], photoUrl = None,
      avatarUrl = None\<rparr>"

definition DEFAULT_CARE_ROUTINE :: CareRoutine where
  "DEFAULT_CARE_ROUTINE =
     \<lparr>foodType = None, foodAmountOzPerDay = None, feedingFrequency = None, treatsPerDay = None,
      playMinutesPerDay = None, vetVisitsPerYear = None, litterCleaningFrequency = None\<rparr>"

text \<open>Scenario A of the specification: a Maine Coon of one year and 4.5 kg, with two vet
  visits a year, 20 minutes of play a day, dry food and two treats a day.\<close>

definition scenarioA_profile :: CatProfile where
  "scenarioA_profile =
     DEFAULT_CAT_PROFILE\<lparr>cat_name := Some ''Milo'', cat_ageYears := Some 1,
       cat_ageMonths := Some 0, cat_breed := Some ''Maine Coon'', weightKg := Some 4.5\<rparr>"

definition scenarioA_routine :: CareRoutine where
  "scenarioA_routine =
     DEFAULT_CARE_ROUTINE\<lparr>foodType := Some dry, treatsPerDay := Some 2,
       playMinutesPerDay := Some 20, vetVisitsPerYear := Some 2\<rparr>"

text \<open>A random source that always returns one half: no noise.\<close>

definition no_noise :: "nat \<Rightarrow> real" where
  "no_noise n = 1 / 2"

text \<open>A point of a given age and status.\<close>

definition point_at :: "int \<Rightarrow> HealthStatus \<Rightarrow> SimulationPoint" where
  "point_at month status =
     \<lparr>ageMonths = month, weightKgEstimate = 5, healthStatus = status, point_notes = []\<rparr>"

text \<open>Six months in which the cat turns risky, recovers, turns risky again, turns
  unhealthy, recovers and turns unhealthy again.\<close>

definition relapse_points :: "SimulationPoint list" where
  "relapse_points =
     [point_at 24 risky, point_at 25 ok, point_at 26 risky,
      point_at 27 unhealthy, point_at 28 ok, point_at 29 unhealthy]"

text \<open>Two months, one thriving and one ok: an average score of exactly 3.5.\<close>

definition boundary_points :: "SimulationPoint list" where
  "boundary_points = [point_at 239 thriving, point_at 240 ok]"

text \<open>The identifier, age and severity of an alert.\<close>

definition alert_brief :: "SimulationAlert \<Rightarrow> string \<times> real \<times> AlertSeverity" where
  "alert_brief a = (alert_id a, alert_ageMonths a, severity a)"

text \<open>The first health risk of the Maine Coon profile: hypertrophic cardiomyopathy, a
  high risk with a typical onset at four years.\<close>

definition maineCoon_hcm :: HealthRisk where
  "maineCoon_hcm = hd (healthRisks maineCoon)"

text \<open>A base result of two points, and three ways for the external call to fail.\<close>

definition boundary_result :: SimulationResult where
  "boundary_result =
     \<lparr>points = boundary_points, alerts = [], summary = ''Summary.'', recommendations = []\<rparr>"

definition fetch_network_error :: "api_request \<Rightarrow> fetch_outcome" where
  "fetch_network_error request = FetchThrows"

definition fetch_server_error :: "api_request \<Rightarrow> fetch_outcome" where
  "fetch_server_error request = Response False JsonThrows"

definition fetch_no_notes :: "api_request \<Rightarrow> fetch_outcome" where
  "fetch_no_notes request =
     Response True (JsonData \<lparr>payload_success = True, payload_notes = None\<rparr>)"


section \<open>Properties of the registry\<close>

lemma registry_breed:
  "breed maineCoon = ''Maine Coon''"
  "breed ragdoll = ''Ragdoll''"
  "breed norwegianForest = ''Norwegian Forest Cat''"
  "breed britishShorthair = ''British Shorthair''"
  "breed savannah = ''Savannah''"
  "breed ragamuffin = ''Ragamuffin''"
  "breed persian = ''Persian''"
  "breed bengal = ''Bengal''"
  "breed siamese = ''Siamese''"
  "breed abyssinian = ''Abyssinian''"
  "breed exoticShorthair = ''Exotic Shorthair''"
  "breed burmese = ''Burmese''"
  "breed orientalShorthair = ''Oriental Shorthair''"
  "breed russianBlue = ''Russian Blue''"
  "breed scottishFold = ''Scottish Fold''"
  "breed birman = ''Birman''"
  "breed turkishAngora = ''Turkish Angora''"
  "breed himalayan = ''Himalayan''"
  "breed americanShorthair = ''American Shorthair''"
  "breed manx = ''Manx''"
  "breed somali = ''Somali''"
  "breed chartreux = ''Chartreux''"
  "breed sphynx = ''Sphynx''"
  "breed devonRex = ''Devon Rex''"
  "breed cornishRex = ''Cornish Rex''"
  "breed domesticShorthair = ''Domestic Shorthair''"
  "breed domesticLonghair = ''Domestic Longhair''"
  "breed tuxedo = ''Tuxedo''"
  "breed calico = ''Calico''"
  "breed tabby = ''Tabby''"
  by (simp_all add: maineCoon_def ragdoll_def norwegianForest_def britishShorthair_def savannah_def persian_def bengal_def siamese_def abyssinian_def exoticShorthair_def burmese_def orientalShorthair_def russianBlue_def sphynx_def devonRex_def cornishRex_def scottishFold_def birman_def turkishAngora_def himalayan_def domesticShorthair_def domesticLonghair_def tuxedo_def calico_def tabby_def americanShorthair_def manx_def ragamuffin_def somali_def chartreux_def)

lemma registry_idealWeight:
  "idealWeight maineCoon = \<lparr>range_min = 5.5, range_max = 10\<rparr>"
  "idealWeight ragdoll = \<lparr>range_min = 4.5, range_max = 9\<rparr>"
  "idealWeight norwegianForest = \<lparr>range_min = 4.5, range_max = 9\<rparr>"
  "idealWeight britishShorthair = \<lparr>range_min = 4, range_max = 8\<rparr>"
  "idealWeight savannah = \<lparr>range_min = 5.5, range_max = 11\<rparr>"
  "idealWeight ragamuffin = \<lparr>range_min = 4.5, range_max = 9\<rparr>"
  "idealWeight persian = \<lparr>range_min = 3.5, range_max = 5.5\<rparr>"
  "idealWeight bengal = \<lparr>range_min = 4, range_max = 7\<rparr>"
  "idealWeight siamese = \<lparr>range_min = 3.5, range_max = 5.5\<rparr>"
  "idealWeight abyssinian = \<lparr>range_min = 3, range_max = 5\<rparr>"
  "idealWeight exoticShorthair = \<lparr>range_min = 3.5, range_max = 6\<rparr>"
  "idealWeight burmese = \<lparr>range_min = 3.5, range_max = 5.5\<rparr>"
  "idealWeight orientalShorthair = \<lparr>range_min = 3, range_max = 5\<rparr>"
  "idealWeight russianBlue = \<lparr>range_min = 3.5, range_max = 5.5\<rparr>"
  "idealWeight scottishFold = \<lparr>range_min = 3, range_max = 6\<rparr>"
  "idealWeight birman = \<lparr>range_min = 3.5, range_max = 6\<rparr>"
  "idealWeight turkishAngora = \<lparr>range_min = 3, range_max = 5\<rparr>"
  "idealWeight himalayan = \<lparr>range_min = 3.5, range_max = 5.5\<rparr>"
  "idealWeight americanShorthair = \<lparr>range_min = 4, range_max = 6\<rparr>"
  "idealWeight manx = \<lparr>range_min = 3.5, range_max = 5.5\<rparr>"
  "idealWeight somali = \<lparr>range_min = 3, range_max = 5\<rparr>"
  "idealWeight chartreux = \<lparr>range_min = 4, range_max = 7\<rparr>"
  "idealWeight sphynx = \<lparr>range_min = 3, range_max = 5\<rparr>"
  "idealWeight devonRex = \<lparr>range_min = 2.5, range_max = 4\<rparr>"
  "idealWeight cornishRex = \<lparr>range_min = 2.5, range_max = 4.5\<rparr>"
  "idealWeight domesticShorthair = \<lparr>range_min = 3.5, range_max = 5.5\<rparr>"
  "idealWeight domesticLonghair = \<lparr>range_min = 3.5, range_max = 6\<rparr>"
  "idealWeight tuxedo = \<lparr>range_min = 3.5, range_max = 5.5\<rparr>"
  "idealWeight calico = \<lparr>range_min = 3.5, range_max = 5.5\<rparr>"
  "idealWeight tabby = \<lparr>range_min = 3.5, range_max = 5.5\<rparr>"
  by (simp_all add: maineCoon_def ragdoll_def norwegianForest_def britishShorthair_def savannah_def persian_def bengal_def siamese_def abyssinian_def exoticShorthair_def burmese_def orientalShorthair_def russianBlue_def sphynx_def devonRex_def cornishRex_def scottishFold_def birman_def turkishAngora_def himalayan_def domesticShorthair_def domesticLonghair_def tuxedo_def calico_def tabby_def americanShorthair_def manx_def ragamuffin_def somali_def chartreux_def)

lemma registry_max_weight:
  "p \<in> set BREED_HEALTH_DATABASE \<Longrightarrow> 4 \<le> range_max (idealWeight p)"
  unfolding BREED_HEALTH_DATABASE_def
  by (auto simp: registry_idealWeight)

lemma domesticShorthair_in_registry: "domesticShorthair \<in> set BREED_HEALTH_DATABASE"
  by (simp add: BREED_HEALTH_DATABASE_def)

lemma findBreedProfile_in_registry: "findBreedProfile b \<in> set BREED_HEALTH_DATABASE"
proof (cases b)
  case None
  then show ?thesis by (simp add: findBreedProfile_def domesticShorthair_in_registry)
next
  case (Some name)
  show ?thesis
  proof (cases "find (profile_matches (trim (toLowerCase name))) BREED_HEALTH_DATABASE")
    case None
    then show ?thesis
      using Some by (simp add: findBreedProfile_def Let_def domesticShorthair_in_registry)
  next
    case (Some p)
    then have "p \<in> set BREED_HEALTH_DATABASE"
      by (auto simp: find_Some_iff)
    then show ?thesis
      using Some \<open>b = Some name\<close>
      by (simp add: findBreedProfile_def Let_def domesticShorthair_in_registry)
  qed
qed

text \<open>The strings that a lookup compares its normalized input with.\<close>

lemma registry_names_eval:
  "registry_names =
     [''maine coon'', ''maine coon'', ''mainecoon'', ''maine-coon'', ''ragdoll'', ''ragdoll'',
      ''rag doll'', ''rag-doll'', ''norwegian forest cat'', ''norwegian forest'',
      ''norwegian forest cat'', ''wegie'', ''norsk skogkatt'', ''british shorthair'',
      ''british shorthair'', ''british blue'', ''bsh'', ''savannah'', ''savannah'',
      ''savannah cat'', ''ragamuffin'', ''ragamuffin'', ''raga muffin'', ''persian'',
      ''persian'', ''persian cat'', ''longhair'', ''bengal'', ''bengal'', ''bengal cat'',
      ''siamese'', ''siamese'', ''siamese cat'', ''meezer'', ''abyssinian'', ''abyssinian'',
      ''aby'', ''abyssinian cat'', ''exotic shorthair'', ''exotic shorthair'', ''exotic'',
      ''shorthaired persian'', ''burmese'', ''burmese'', ''burmese cat'',
      ''oriental shorthair'', ''oriental shorthair'', ''oriental'', ''osh'', ''russian blue'',
      ''russian blue'', ''archangel blue'', ''scottish fold'', ''scottish fold'', ''scottish'',
      ''fold'', ''birman'', ''birman'', ''sacred cat of burma'', ''turkish angora'',
      ''turkish angora'', ''angora'', ''himalayan'', ''himalayan'', ''himmie'',
      ''colorpoint persian'', ''american shorthair'', ''american shorthair'', ''ash'',
      ''manx'', ''manx'', ''manx cat'', ''tailless cat'', ''somali'', ''somali'',
      ''somali cat'', ''longhaired abyssinian'', ''chartreux'', ''chartreux'', ''sphynx'',
      ''sphynx'', ''sphinx'', ''hairless cat'', ''devon rex'', ''devon rex'', ''devon'',
      ''pixie cat'', ''cornish rex'', ''cornish rex'', ''cornish'', ''domestic shorthair'',
      ''domestic shorthair'', ''dsh'', ''house cat'', ''moggy'', ''mixed breed'', ''tabby'',
      ''mixed'', ''domestic longhair'', ''domestic longhair'', ''dlh'', ''long-haired cat'',
      ''longhair'', ''tuxedo'', ''tuxedo'', ''tuxedo cat'', ''black and white'', ''calico'',
      ''calico'', ''calico cat'', ''tricolor'', ''tabby'', ''tabby'', ''tabby cat'',
      ''striped cat'', ''tiger cat'']"
  by code_simp

lemma profile_matches_names:
  "profile_matches n p \<longleftrightarrow> n \<in> set (toLowerCase (breed p) # map toLowerCase (aliases p))"
  unfolding profile_matches_def list_ex_iff by auto

lemma find_profile_None:
  "find (profile_matches n) BREED_HEALTH_DATABASE = None \<longleftrightarrow> n \<notin> set registry_names"
  unfolding find_None_iff registry_names_def profile_matches_names by auto

lemma findBreedProfile_unlisted:
  assumes "trim (toLowerCase name) \<notin> set registry_names"
  shows "findBreedProfile (Some name) = domesticShorthair"
  using assms find_profile_None [of "trim (toLowerCase name)"]
  by (simp add: findBreedProfile_def Let_def)

lemma spec_unmatched_names:
  "spec_unmatched name \<longleftrightarrow> trim (toLowerCase name) \<notin> set registry_names"
proof -
  have "trim (toLowerCase name) \<in> set registry_names \<longleftrightarrow>
    (\<exists>p \<in> set BREED_HEALTH_DATABASE. trim (toLowerCase name) = toLowerCase (breed p)
       \<or> (\<exists>a \<in> set (aliases p). trim (toLowerCase name) = toLowerCase a))"
    unfolding registry_names_def by (simp add: image_iff)
  moreover have "spec_unmatched name \<longleftrightarrow>
    (\<forall>p \<in> set BREED_HEALTH_DATABASE. trim (toLowerCase name) \<noteq> toLowerCase (breed p)
       \<and> (\<forall>a \<in> set (aliases p). trim (toLowerCase name) \<noteq> toLowerCase a))"
    unfolding spec_unmatched_def by (rule ball_cong [OF refl]) (metis)
  ultimately show ?thesis by simp
qed

lemma normalized_Xyzzycat: "trim (toLowerCase ''Xyzzycat'') = ''xyzzycat''"
  by code_simp

lemma normalized_not_a_real_breed:
  "trim (toLowerCase ''not a real breed'') = ''not a real breed''"
  by code_simp

lemma normalized_constructor: "trim (toLowerCase ''constructor'') = ''constructor''"
  by code_simp

lemma normalized_Maine_Coon: "trim (toLowerCase ''Maine Coon'') = ''maine coon''"
  by code_simp

lemma unmatched_Xyzzycat: "spec_unmatched ''Xyzzycat''"
  unfolding spec_unmatched_names normalized_Xyzzycat registry_names_eval by simp

lemma unmatched_not_a_real_breed: "spec_unmatched ''not a real breed''"
  unfolding spec_unmatched_names normalized_not_a_real_breed registry_names_eval by simp

lemma findBreedProfile_Maine_Coon: "findBreedProfile (Some ''Maine Coon'') = maineCoon"
proof -
  have "profile_matches ''maine coon'' maineCoon"
    unfolding profile_matches_def registry_breed by code_simp
  then show ?thesis
    by (simp add: findBreedProfile_def Let_def normalized_Maine_Coon
        BREED_HEALTH_DATABASE_def)
qed

section \<open>Properties of the weight and status model\<close>

text \<open>Which breed names have no ideal weight range: exactly those that, lower-cased and
  trimmed, name a property of \<^verbatim>\<open>Object.prototype\<close>.\<close>

lemma prototype_key_unlisted:
  "k \<in> set Object_prototype_keys \<Longrightarrow> k \<notin> set registry_names"
  unfolding Object_prototype_keys_def registry_names_eval by auto

lemma prototype_keys_no_size:
  "list_all (\<lambda>k. map_of FALLBACK_BREED_SIZES k = None) Object_prototype_keys"
  by code_simp

lemma prototype_key_no_size:
  "k \<in> set Object_prototype_keys \<Longrightarrow> map_of FALLBACK_BREED_SIZES k = None"
  using prototype_keys_no_size by (simp add: list_all_iff)

lemma fallback_size_has_range:
  "map_of FALLBACK_BREED_SIZES k = Some s \<Longrightarrow> map_of FALLBACK_WEIGHT_RANGES s \<noteq> None"
  by (auto simp: FALLBACK_BREED_SIZES_def FALLBACK_WEIGHT_RANGES_def split: if_splits)

lemma getIdealWeightRange_None_iff:
  "getIdealWeightRange b = None \<longleftrightarrow>
   (\<exists>name. b = Some name \<and> name \<noteq> [] \<and> trim (toLowerCase name) \<in> set Object_prototype_keys)"
proof
  assume none: "getIdealWeightRange b = None"
  have dflt: "map_of FALLBACK_WEIGHT_RANGES ''default'' \<noteq> None"
    by (simp add: FALLBACK_WEIGHT_RANGES_def)
  from none obtain name where b: "b = Some name" and ne: "name \<noteq> []"
    using dflt by (cases b) (auto simp: getIdealWeightRange_def Let_def split: if_splits)
  from none b ne dflt have "js_get FALLBACK_BREED_SIZES (trim (toLowerCase name)) = Inherited"
    by (auto simp: getIdealWeightRange_def Let_def js_get_def fallback_size_has_range
        split: if_splits option.splits)
  then have "trim (toLowerCase name) \<in> set Object_prototype_keys"
    by (auto simp: js_get_def split: option.splits if_splits)
  with b ne show "\<exists>name. b = Some name \<and> name \<noteq> []
      \<and> trim (toLowerCase name) \<in> set Object_prototype_keys" by blast
next
  assume "\<exists>name. b = Some name \<and> name \<noteq> []
      \<and> trim (toLowerCase name) \<in> set Object_prototype_keys"
  then obtain name where b: "b = Some name" and ne: "name \<noteq> []"
    and key: "trim (toLowerCase name) \<in> set Object_prototype_keys" by blast
  have "findBreedProfile (Some name) = domesticShorthair"
    by (rule findBreedProfile_unlisted [OF prototype_key_unlisted [OF key]])
  moreover have "js_get FALLBACK_BREED_SIZES (trim (toLowerCase name)) = Inherited"
    using key by (simp add: js_get_def prototype_key_no_size)
  ultimately show "getIdealWeightRange b = None"
    using b ne by (simp add: getIdealWeightRange_def Let_def registry_breed)
qed

lemma getIdealWeightRange_constructor: "getIdealWeightRange (Some ''constructor'') = None"
  unfolding getIdealWeightRange_None_iff
  by (simp add: normalized_constructor Object_prototype_keys_def)

lemma getIdealWeightRange_Maine_Coon:
  "getIdealWeightRange (Some ''Maine Coon'') = Some \<lparr>range_min = 5.5, range_max = 10\<rparr>"
  by (simp add: getIdealWeightRange_def Let_def findBreedProfile_Maine_Coon registry_breed
      registry_idealWeight)

lemma fallback_max_weight:
  "map_of FALLBACK_WEIGHT_RANGES k = Some rg \<Longrightarrow> 4 \<le> range_max rg"
  by (auto simp: FALLBACK_WEIGHT_RANGES_def split: if_splits)

lemma ideal_range_max:
  assumes "getIdealWeightRange b = Some rg"
  shows "4 \<le> range_max rg"
proof (cases "breed (findBreedProfile b) \<noteq> ''Domestic Shorthair''")
  case True
  with assms have "rg = idealWeight (findBreedProfile b)"
    by (simp add: getIdealWeightRange_def Let_def)
  then show ?thesis
    using registry_max_weight [OF findBreedProfile_in_registry] by simp
next
  case False
  with assms show ?thesis
    by (auto simp: getIdealWeightRange_def Let_def fallback_max_weight
        split: option.splits if_splits js_property.splits)
qed


section \<open>Properties of the simulation\<close>

lemma runSimulation_Some:
  assumes "getIdealWeightRange (cat_breed (catProfile config)) = Some rg"
  shows "\<exists>r. runSimulation config random = Inr r
     \<and> points r = simulate_months (sim_env_of config rg random) (startAgeMonths config)
          (endAgeMonths config) (startWeight_of (catProfile config) rg) 0 []"
  unfolding runSimulation_def Let_def using assms by (simp split: prod.splits)

lemma runSimulation_None:
  assumes "getIdealWeightRange (cat_breed (catProfile config)) = None"
  shows "runSimulation config random = Inl TypeError"
  unfolding runSimulation_def Let_def using assms by simp

lemma env_idealRange_of: "env_idealRange (sim_env_of config rg random) = rg"
  by (simp add: sim_env_of_def Let_def)

subsection \<open>One point per month\<close>

lemma month_step_age: "ageMonths (snd (month_step env month w n)) = month"
  by (simp add: month_step_def Let_def)

lemma simulate_months_ages:
  "map ageMonths (simulate_months env month endMonth w n acc)
     = map ageMonths acc @ [month..endMonth]"
proof (induction env month endMonth w n acc rule: simulate_months.induct)
  case (1 env month endMonth currentWeight n acc)
  show ?case
  proof (cases "month \<le> endMonth")
    case False
    then show ?thesis by (simp add: simulate_months.simps [of env month])
  next
    case True
    obtain w' point where step: "month_step env month currentWeight n = (w', point)"
      by (cases "month_step env month currentWeight n")
    have age: "ageMonths point = month"
      using month_step_age [of env month currentWeight n] step by simp
    have "map ageMonths (simulate_months env (month + 1) endMonth w' (Suc n) (acc @ [point]))
        = map ageMonths (acc @ [point]) @ [month + 1..endMonth]"
      using "1.IH" [OF True step [symmetric]] .
    moreover have "[month..endMonth] = month # [month + 1..endMonth]"
      using True by (rule upto_rec1)
    ultimately show ?thesis
      using True step age by (simp add: simulate_months.simps [of env month])
  qed
qed

text \<open>
  Whenever the breed has an ideal weight range, \<^verbatim>\<open>runSimulation\<close> returns, and the ages
  of its points are the months from \<^verbatim>\<open>startAgeMonths\<close> to \<^verbatim>\<open>endAgeMonths\<close>, each once and
  in order; there are \<open>endAgeMonths - startAgeMonths + 1\<close> of them when the range is not
  empty.
\<close>

lemma runSimulation_one_point_per_month:
  assumes "getIdealWeightRange (cat_breed (catProfile config)) \<noteq> None"
  shows "\<exists>r. runSimulation config random = Inr r
     \<and> map ageMonths (points r) = [startAgeMonths config..endAgeMonths config]"
proof -
  obtain rg where rg: "getIdealWeightRange (cat_breed (catProfile config)) = Some rg"
    using assms by blast
  obtain r where r: "runSimulation config random = Inr r"
    and pts: "points r = simulate_months (sim_env_of config rg random) (startAgeMonths config)
          (endAgeMonths config) (startWeight_of (catProfile config) rg) 0 []"
    using runSimulation_Some [OF rg, of random] by blast
  show ?thesis using r by (simp add: pts simulate_months_ages)
qed

lemma runSimulation_point_count:
  assumes "getIdealWeightRange (cat_breed (catProfile config)) \<noteq> None"
    and "startAgeMonths config \<le> endAgeMonths config"
  shows "\<exists>r. runSimulation config random = Inr r
     \<and> int (length (points r)) = endAgeMonths config - startAgeMonths config + 1
     \<and> (\<forall>i < length (points r). ageMonths (points r ! i) = startAgeMonths config + int i)"
proof -
  obtain r where r: "runSimulation config random = Inr r"
    and ages: "map ageMonths (points r) = [startAgeMonths config..endAgeMonths config]"
    using runSimulation_one_point_per_month [OF assms(1), of random] by blast
  have len: "length (points r) = length [startAgeMonths config..endAgeMonths config]"
    using ages by (metis length_map)
  have nth: "ageMonths (points r ! i) = startAgeMonths config + int i"
    if "i < length (points r)" for i
  proof -
    have "ageMonths (points r ! i) = map ageMonths (points r) ! i"
      using that by simp
    also have "\<dots> = [startAgeMonths config..endAgeMonths config] ! i"
      by (simp only: ages)
    also have "\<dots> = startAgeMonths config + int i"
      using that len by (simp add: nth_upto)
    finally show ?thesis .
  qed
  show ?thesis using r len nth assms(2) by auto
qed

text \<open>
  C1. The claim holds for every profile whose breed has an ideal weight range (the two
  lemmas above). It fails for a breed name that, lower-cased and trimmed, is a property
  name of \<^verbatim>\<open>Object.prototype\<close>, such as \<^verbatim>\<open>constructor\<close>: \<^verbatim>\<open>getIdealWeightRange\<close>
  returns \<^verbatim>\<open>undefined\<close>, and \<^verbatim>\<open>runSimulation\<close> throws a \<^verbatim>\<open>TypeError\<close> instead of
  returning the 229 points of the months 12 to 240.
\<close>

theorem runSimulation_throws_for_breed_constructor:
  "runSimulation
     \<lparr>catProfile = DEFAULT_CAT_PROFILE\<lparr>cat_breed := Some ''constructor''\<rparr>,
      careRoutine = DEFAULT_CARE_ROUTINE, startAgeMonths = 12, endAgeMonths = 240\<rparr> random
   = Inl TypeError"
  by (rule runSimulation_None) (simp add: DEFAULT_CAT_PROFILE_def getIdealWeightRange_constructor)

subsection \<open>The weight floor\<close>

lemma rounded_weight_floor:
  assumes "(1495 / 1000 :: real) \<le> x"
  shows "(15 / 10 :: real) \<le> of_int (Math_round (x * 100)) / 100"
proof -
  have "(150 :: real) \<le> x * 100 + 1 / 2" using assms by simp
  then have "(150 :: int) \<le> \<lfloor>x * 100 + 1 / 2\<rfloor>" by (simp add: le_floor_iff)
  then have "(150 :: real) \<le> of_int (Math_round (x * 100))"
    unfolding Math_round_def by linarith
  then show ?thesis by simp
qed

text \<open>The weight of a month before rounding: at least 1.5 kg after the drift, at least
  \<open>min 1.575 idealRange.max\<close> after the juvenile clamp and at least 1.497 after the senior
  decline; every ideal range has a maximum of 4 kg or more.\<close>

lemma month_step_weight:
  assumes "4 \<le> range_max (env_idealRange env)"
  shows "15 / 10 \<le> weightKgEstimate (snd (month_step env month w n))"
proof -
  define w1 where
    "w1 = max 1.5 (w + env_calorieProxy env * 0.02 + (env_random env n - 0.5) * 0.05)"
  define w2 where "w2 =
    (if month < 12 then min (w1 * 1.05) (range_max (env_idealRange env))
     else if month > LIFE_STAGES_senior_end
       then max (w1 * 0.998) (range_min (env_idealRange env) * 0.8)
     else w1)"
  have w1: "1.5 \<le> w1" unfolding w1_def by simp
  have "1495 / 1000 \<le> w2"
    unfolding w2_def using w1 assms by (auto simp: min_def max_def)
  then have "(15 / 10 :: real) \<le> of_int (Math_round (w2 * 100)) / 100"
    by (rule rounded_weight_floor)
  moreover have "weightKgEstimate (snd (month_step env month w n))
      = of_int (Math_round (w2 * 100)) / 100"
    unfolding month_step_def Let_def w2_def w1_def by simp
  ultimately show ?thesis by simp
qed

lemma simulate_months_weights:
  assumes "4 \<le> range_max (env_idealRange env)"
    and "\<forall>p \<in> set acc. 15 / 10 \<le> weightKgEstimate p"
  shows "\<forall>p \<in> set (simulate_months env month endMonth w n acc). 15 / 10 \<le> weightKgEstimate p"
  using assms
proof (induction env month endMonth w n acc rule: simulate_months.induct)
  case (1 env month endMonth currentWeight n acc)
  show ?case
  proof (cases "month \<le> endMonth")
    case False
    then show ?thesis using "1.prems" by (simp add: simulate_months.simps [of env month])
  next
    case True
    obtain w' point where step: "month_step env month currentWeight n = (w', point)"
      by (cases "month_step env month currentWeight n")
    have "15 / 10 \<le> weightKgEstimate point"
      using month_step_weight [OF "1.prems"(1), of month currentWeight n] step by simp
    then have acc': "\<forall>p \<in> set (acc @ [point]). 15 / 10 \<le> weightKgEstimate p"
      using "1.prems"(2) by simp
    have "\<forall>p \<in> set (simulate_months env (month + 1) endMonth w' (Suc n) (acc @ [point])).
        15 / 10 \<le> weightKgEstimate p"
      using "1.IH" [OF True step [symmetric] "1.prems"(1) acc'] .
    then show ?thesis
      using True step by (simp add: simulate_months.simps [of env month])
  qed
qed

text \<open>
  C2. For every profile, routine, age range and random source, every point that
  \<^verbatim>\<open>runSimulation\<close> returns has a weight estimate of at least 1.5 kg: the floor survives
  the juvenile clamp, the senior decline and the rounding to two decimals.
\<close>

theorem simulated_weight_at_least_floor:
  assumes "runSimulation config random = Inr r"
  shows "\<forall>p \<in> set (points r). 15 / 10 \<le> weightKgEstimate p"
proof (cases "getIdealWeightRange (cat_breed (catProfile config))")
  case None
  then show ?thesis using assms runSimulation_None [OF None, of random] by simp
next
  case (Some rg)
  obtain r' where r': "runSimulation config random = Inr r'"
    and pts: "points r' = simulate_months (sim_env_of config rg random) (startAgeMonths config)
          (endAgeMonths config) (startWeight_of (catProfile config) rg) 0 []"
    using runSimulation_Some [OF Some, of random] by blast
  have same: "r' = r" using r' assms by simp
  have "4 \<le> range_max (env_idealRange (sim_env_of config rg random))"
    using ideal_range_max [OF Some] by (simp add: env_idealRange_of)
  then have "\<forall>p \<in> set (points r'). 15 / 10 \<le> weightKgEstimate p"
    unfolding pts by (rule simulate_months_weights) simp
  then show ?thesis using same by simp
qed

text \<open>The last month of Scenario A without noise: the run returns one point, of 4.48 kg.\<close>

lemma scenarioA_last_weight:
  "map weightKgEstimate
     (simulate_months
        (sim_env_of \<lparr>catProfile = scenarioA_profile, careRoutine = scenarioA_routine,
           startAgeMonths = 240, endAgeMonths = 240\<rparr>
           \<lparr>range_min = 5.5, range_max = 10\<rparr> no_noise)
        240 240 (startWeight_of scenarioA_profile \<lparr>range_min = 5.5, range_max = 10\<rparr>) 0 [])
   = [448 / 100]"
  by code_simp

theorem simulated_weight_at_least_floor_witness:
  "\<exists>r. runSimulation \<lparr>catProfile = scenarioA_profile, careRoutine = scenarioA_routine,
          startAgeMonths = 240, endAgeMonths = 240\<rparr> no_noise = Inr r
     \<and> map weightKgEstimate (points r) = [448 / 100]
     \<and> list_all (\<lambda>p. 15 / 10 \<le> weightKgEstimate p) (points r)"
proof -
  let ?config = "\<lparr>catProfile = scenarioA_profile, careRoutine = scenarioA_routine,
          startAgeMonths = 240, endAgeMonths = 240\<rparr>"
  have rg: "getIdealWeightRange (cat_breed (catProfile ?config))
      = Some \<lparr>range_min = 5.5, range_max = 10\<rparr>"
    by (simp add: scenarioA_profile_def DEFAULT_CAT_PROFILE_def getIdealWeightRange_Maine_Coon)
  obtain r where r: "runSimulation ?config no_noise = Inr r"
    and pts: "points r = simulate_months
        (sim_env_of ?config \<lparr>range_min = 5.5, range_max = 10\<rparr> no_noise)
        (startAgeMonths ?config) (endAgeMonths ?config)
        (startWeight_of (catProfile ?config) \<lparr>range_min = 5.5, range_max = 10\<rparr>) 0 []"
    using runSimulation_Some [OF rg, of no_noise] by blast
  have w: "map weightKgEstimate (points r) = [448 / 100]"
    unfolding pts using scenarioA_last_weight by simp
  have fl: "list_all (\<lambda>p. 15 / 10 \<le> weightKgEstimate p) (points r)"
    using simulated_weight_at_least_floor [OF r] by (simp add: list_all_iff)
  show ?thesis
    by (rule exI [of _ r]) (simp only: r w fl simp_thms)
qed

section \<open>Properties of the status classification\<close>

lemma spec_downgrade_score: "statusScores (spec_downgrade s) \<le> statusScores s"
  by (cases s) (simp_all add: spec_downgrade_def)

lemma spec_downgrade_not_thriving: "spec_downgrade s \<noteq> thriving"
  by (cases s) (simp_all add: spec_downgrade_def)

text \<open>The three steps of the source, each as one downgrade under its condition.\<close>

lemma determineHealthStatus_steps:
  "determineHealthStatus w r v a k =
    (let vv = spec_visits v;
         s0 = spec_weight_only_status w r;
         s1 = (if vv = 0 \<and> a > 24 then spec_downgrade s0 else s0);
         s2 = (if a > 180 \<and> vv < 1 then spec_downgrade s1 else s1)
     in if k \<and> vv < 2 then (if s2 = thriving then ok else s2) else s2)"
proof -
  define vv where "vv = (case v of None \<Rightarrow> (0::real) | Some x \<Rightarrow> x)"
  define s0 where "s0 = spec_weight_only_status w r"
  define s1 where "s1 =
    (if vv = 0 \<and> a > 24 then (if s0 = thriving then ok else if s0 = ok then risky else s0)
     else s0)"
  define s2 where "s2 =
    (if a > 180 then
       (if vv < 1 \<and> s1 \<noteq> unhealthy then (if s1 = thriving then ok else risky) else s1)
     else s1)"
  define s3 where "s3 =
    (if k then (if vv < 2 then (if s2 = thriving then ok else s2) else s2) else s2)"
  have eq: "determineHealthStatus w r v a k = s3"
    unfolding determineHealthStatus_def spec_weight_only_status_def spec_deviation_bucket_def
      s3_def s2_def s1_def s0_def vv_def LIFE_STAGES_senior_end_def Let_def
    by simp
  have d1: "s1 = (if vv = 0 \<and> a > 24 then spec_downgrade s0 else s0)"
    unfolding s1_def by (cases s0) (simp_all add: spec_downgrade_def)
  have d2: "s2 = (if a > 180 \<and> vv < 1 then spec_downgrade s1 else s1)"
    unfolding s2_def by (cases s1) (simp_all add: spec_downgrade_def)
  have d3: "s3 = (if k \<and> vv < 2 then (if s2 = thriving then ok else s2) else s2)"
    unfolding s3_def by simp
  show ?thesis
    unfolding eq d3 d2 d1 Let_def spec_visits_def vv_def s0_def ..
qed

text \<open>
  C4. \<^verbatim>\<open>determineHealthStatus\<close> classifies by the relative deviation of the weight from
  the midpoint of the ideal range (below 10% thriving, below 20% ok, below 35% risky, else
  unhealthy) and then only downgrades. For every weight, ideal range, vet-visit count, age
  and known-conditions flag: the returned status is never better than the weight-only
  classification; it is that classification when none of the three adjustment conditions
  holds; it is not thriving when one of them holds. With zero vet visits past 24 months
  the classification is downgraded one step (thriving to ok, ok to risky), and one step
  more past 180 months; past 180 months with some but fewer than one visit a year it is
  downgraded one step; with known conditions and fewer than two visits a year, when
  neither of the other two conditions holds, thriving becomes ok and every other status
  stays.
\<close>

theorem determineHealthStatus_downgrades:
  "statusScores (determineHealthStatus w r v a k) \<le> statusScores (spec_weight_only_status w r)
   \<and> (\<not> spec_adjustment_applies v a k \<longrightarrow>
        determineHealthStatus w r v a k = spec_weight_only_status w r)
   \<and> (spec_adjustment_applies v a k \<longrightarrow> determineHealthStatus w r v a k \<noteq> thriving)
   \<and> (spec_visits v = 0 \<and> 24 < a \<and> a \<le> 180 \<longrightarrow>
        determineHealthStatus w r v a k = spec_downgrade (spec_weight_only_status w r))
   \<and> (spec_visits v = 0 \<and> 180 < a \<longrightarrow>
        determineHealthStatus w r v a k
          = spec_downgrade (spec_downgrade (spec_weight_only_status w r)))
   \<and> (spec_visits v \<noteq> 0 \<and> spec_visits v < 1 \<and> 180 < a \<longrightarrow>
        determineHealthStatus w r v a k = spec_downgrade (spec_weight_only_status w r))
   \<and> (k \<and> spec_visits v < 2 \<and> \<not> (spec_visits v = 0 \<and> 24 < a)
         \<and> \<not> (180 < a \<and> spec_visits v < 1) \<longrightarrow>
        determineHealthStatus w r v a k
          = (if spec_weight_only_status w r = thriving then ok
             else spec_weight_only_status w r))"
proof -
  define vv where "vv = spec_visits v"
  define s0 where "s0 = spec_weight_only_status w r"
  define s1 where "s1 = (if vv = 0 \<and> a > 24 then spec_downgrade s0 else s0)"
  define s2 where "s2 = (if a > 180 \<and> vv < 1 then spec_downgrade s1 else s1)"
  define s3 where "s3 = (if k \<and> vv < 2 then (if s2 = thriving then ok else s2) else s2)"
  have eq: "determineHealthStatus w r v a k = s3"
    unfolding determineHealthStatus_steps Let_def s3_def s2_def s1_def s0_def vv_def ..
  have app: "spec_adjustment_applies v a k
      \<longleftrightarrow> (vv = 0 \<and> a > 24) \<or> (a > 180 \<and> vv < 1) \<or> (k \<and> vv < 2)"
    unfolding spec_adjustment_applies_def spec_visits_def vv_def Let_def ..
  have le1: "statusScores s1 \<le> statusScores s0"
    unfolding s1_def by (simp add: spec_downgrade_score)
  have le2: "statusScores s2 \<le> statusScores s1"
    unfolding s2_def by (simp add: spec_downgrade_score)
  have le3: "statusScores s3 \<le> statusScores s2"
    unfolding s3_def by (cases s2) simp_all
  have never_better: "statusScores s3 \<le> statusScores s0"
    using le1 le2 le3 by linarith
  have unchanged: "s3 = s0" if "\<not> spec_adjustment_applies v a k"
    using that unfolding app s3_def s2_def s1_def by auto
  have s1_nt: "s1 \<noteq> thriving" if "vv = 0 \<and> a > 24"
    using that unfolding s1_def by (simp add: spec_downgrade_not_thriving)
  have s2_nt: "s2 \<noteq> thriving" if "s1 \<noteq> thriving \<or> (a > 180 \<and> vv < 1)"
    using that unfolding s2_def by (auto simp: spec_downgrade_not_thriving)
  have s3_nt: "s3 \<noteq> thriving" if "s2 \<noteq> thriving \<or> (k \<and> vv < 2)"
    using that unfolding s3_def by auto
  have changed: "s3 \<noteq> thriving" if "spec_adjustment_applies v a k"
    using that s1_nt s2_nt s3_nt unfolding app by blast
  have s3_s2: "s3 = s2" if "s2 \<noteq> thriving"
    using that unfolding s3_def by simp
  have first: "s3 = spec_downgrade s0" if "vv = 0 \<and> 24 < a \<and> a \<le> 180"
  proof -
    from that have "s2 = spec_downgrade s0" unfolding s2_def s1_def by simp
    then show ?thesis using s3_s2 by (simp add: spec_downgrade_not_thriving)
  qed
  have both: "s3 = spec_downgrade (spec_downgrade s0)" if "vv = 0 \<and> 180 < a"
  proof -
    from that have "s2 = spec_downgrade (spec_downgrade s0)" unfolding s2_def s1_def by simp
    then show ?thesis using s3_s2 by (simp add: spec_downgrade_not_thriving)
  qed
  have second: "s3 = spec_downgrade s0" if "vv \<noteq> 0 \<and> vv < 1 \<and> 180 < a"
  proof -
    from that have "s2 = spec_downgrade s0" unfolding s2_def s1_def by simp
    then show ?thesis using s3_s2 by (simp add: spec_downgrade_not_thriving)
  qed
  have third: "s3 = (if s0 = thriving then ok else s0)"
    if "k \<and> vv < 2 \<and> \<not> (vv = 0 \<and> 24 < a) \<and> \<not> (180 < a \<and> vv < 1)"
    using that unfolding s3_def s2_def s1_def by auto
  show ?thesis
    unfolding eq
    using never_better unchanged changed first both second third
    unfolding s0_def vv_def by blast
qed

text \<open>A cat of 4.5 kg with an ideal range of 3.5 to 5.5 kg is thriving by weight alone,
  and stays so with two vet visits a year at 30 months. Without vet visits it is ok at 30
  months and risky at 200 months; with one visit in two years it is ok at 200 months; with
  one visit a year and a known condition it is ok at 30 months.\<close>

theorem determineHealthStatus_downgrades_witness:
  "spec_weight_only_status 4.5 \<lparr>range_min = 3.5, range_max = 5.5\<rparr> = thriving
   \<and> determineHealthStatus 4.5 \<lparr>range_min = 3.5, range_max = 5.5\<rparr> (Some 2) 30 False = thriving
   \<and> determineHealthStatus 4.5 \<lparr>range_min = 3.5, range_max = 5.5\<rparr> None 30 False = ok
   \<and> determineHealthStatus 4.5 \<lparr>range_min = 3.5, range_max = 5.5\<rparr> None 200 False = risky
   \<and> determineHealthStatus 4.5 \<lparr>range_min = 3.5, range_max = 5.5\<rparr> (Some 0.5) 200 False = ok
   \<and> determineHealthStatus 4.5 \<lparr>range_min = 3.5, range_max = 5.5\<rparr> (Some 1) 30 True = ok"
proof -
  have sp: "spec_weight_only_status 4.5 \<lparr>range_min = 3.5, range_max = 5.5\<rparr> = thriving"
    by (simp add: spec_weight_only_status_def spec_deviation_bucket_def)
  have na: "\<not> spec_adjustment_applies (Some 2) 30 False"
    by (simp add: spec_adjustment_applies_def)
  have vis: "spec_visits None = 0" "spec_visits (Some 0.5) = 0.5" "spec_visits (Some 1) = 1"
    by (simp_all add: spec_visits_def)
  have t1: "determineHealthStatus 4.5 \<lparr>range_min = 3.5, range_max = 5.5\<rparr> (Some 2) 30 False
      = thriving"
    using determineHealthStatus_downgrades
      [of "4.5" "\<lparr>range_min = 3.5, range_max = 5.5\<rparr>" "Some 2" 30 False] na sp
    by metis
  have t2: "determineHealthStatus 4.5 \<lparr>range_min = 3.5, range_max = 5.5\<rparr> None 30 False = ok"
    using determineHealthStatus_downgrades
      [of "4.5" "\<lparr>range_min = 3.5, range_max = 5.5\<rparr>" None 30 False]
    unfolding sp vis by (simp add: spec_downgrade_def)
  have t3: "determineHealthStatus 4.5 \<lparr>range_min = 3.5, range_max = 5.5\<rparr> None 200 False
      = risky"
    using determineHealthStatus_downgrades
      [of "4.5" "\<lparr>range_min = 3.5, range_max = 5.5\<rparr>" None 200 False]
    unfolding sp vis by (simp add: spec_downgrade_def)
  have t4: "determineHealthStatus 4.5 \<lparr>range_min = 3.5, range_max = 5.5\<rparr> (Some 0.5) 200 False
      = ok"
    using determineHealthStatus_downgrades
      [of "4.5" "\<lparr>range_min = 3.5, range_max = 5.5\<rparr>" "Some 0.5" 200 False]
    unfolding sp vis by (simp add: spec_downgrade_def)
  have t5: "determineHealthStatus 4.5 \<lparr>range_min = 3.5, range_max = 5.5\<rparr> (Some 1) 30 True
      = ok"
    using determineHealthStatus_downgrades
      [of "4.5" "\<lparr>range_min = 3.5, range_max = 5.5\<rparr>" "Some 1" 30 True]
    unfolding sp vis by simp
  show ?thesis using sp t1 t2 t3 t4 t5 by simp
qed

section \<open>Properties of the alert generator\<close>

lemma alert_kinds:
  "is_risky_transition_alert (risky_alert cn p)"
  "\<not> is_risky_transition_alert (unhealthy_alert cn p)"
  "\<not> is_risky_transition_alert (weight_alert cn p)"
  "\<not> is_risky_transition_alert (vet_alert cn p)"
  "\<not> is_unhealthy_transition_alert (risky_alert cn p)"
  "is_unhealthy_transition_alert (unhealthy_alert cn p)"
  "\<not> is_unhealthy_transition_alert (weight_alert cn p)"
  "\<not> is_unhealthy_transition_alert (vet_alert cn p)"
  by (simp_all add: is_risky_transition_alert_def is_unhealthy_transition_alert_def
      risky_alert_def unhealthy_alert_def weight_alert_def vet_alert_def)

lemma milestone_kinds:
  "filter is_risky_transition_alert (milestone_alerts cn routine pts) = []"
  "filter is_unhealthy_transition_alert (milestone_alerts cn routine pts) = []"
  by (simp_all add: milestone_alerts_def milestoneMonths_def is_risky_transition_alert_def
      is_unhealthy_transition_alert_def split: option.splits)

lemma alert_step_previous:
  "previousStatus (alert_step cn routine rg st p) = healthStatus p"
  by (simp add: alert_step_def Let_def)

lemma alert_step_risky:
  "filter is_risky_transition_alert (st_alerts (alert_step cn routine rg st p)) =
   filter is_risky_transition_alert (st_alerts st)
   @ (if healthStatus p = risky \<and> previousStatus st \<noteq> risky \<and> previousStatus st \<noteq> unhealthy
      then [risky_alert cn p] else [])"
  by (simp add: alert_step_def Let_def alert_kinds)

lemma alert_step_unhealthy:
  "filter is_unhealthy_transition_alert (st_alerts (alert_step cn routine rg st p)) =
   filter is_unhealthy_transition_alert (st_alerts st)
   @ (if healthStatus p = unhealthy \<and> previousStatus st \<noteq> unhealthy
      then [unhealthy_alert cn p] else [])"
  by (simp add: alert_step_def Let_def alert_kinds)

text \<open>The loop, from any state: the risky alerts it adds are those of the points at which
  \<^const>\<open>risky_firing\<close> fires, and likewise for the unhealthy alerts.\<close>

lemma loop_risky:
  "filter is_risky_transition_alert (st_alerts (foldl (alert_step cn routine rg) st pts)) =
   filter is_risky_transition_alert (st_alerts st)
   @ map (risky_alert cn) (risky_firing (previousStatus st) pts)"
proof (induction pts arbitrary: st)
  case Nil
  then show ?case by simp
next
  case (Cons p ps)
  show ?case
    by (simp only: foldl_Cons Cons.IH alert_step_risky alert_step_previous risky_firing.simps
        map_append append_assoc) simp
qed

lemma loop_unhealthy:
  "filter is_unhealthy_transition_alert (st_alerts (foldl (alert_step cn routine rg) st pts)) =
   filter is_unhealthy_transition_alert (st_alerts st)
   @ map (unhealthy_alert cn) (unhealthy_firing (previousStatus st) pts)"
proof (induction pts arbitrary: st)
  case Nil
  then show ?case by simp
next
  case (Cons p ps)
  show ?case
    by (simp only: foldl_Cons Cons.IH alert_step_unhealthy alert_step_previous
        unhealthy_firing.simps map_append append_assoc) simp
qed

text \<open>The positions of a list from 1 on are the successors of the positions of its tail.\<close>

lemma filter_upt_Suc:
  "filter P [0..<Suc n] = (if P 0 then [0] else []) @ map Suc (filter (P \<circ> Suc) [0..<n])"
proof -
  have "[0..<Suc n] = 0 # map Suc [0..<n]"
    by (simp add: upt_conv_Cons map_Suc_upt del: upt_Suc)
  then show ?thesis by (simp add: filter_map del: upt_Suc)
qed

lemma risky_firing_positions:
  "risky_firing prev pts =
   map (\<lambda>i. pts ! i)
     (filter (\<lambda>i. healthStatus (pts ! i) = risky
        \<and> (if i = 0 then prev else healthStatus (pts ! (i - 1))) \<noteq> risky
        \<and> (if i = 0 then prev else healthStatus (pts ! (i - 1))) \<noteq> unhealthy)
      [0..<length pts])"
proof (induction pts arbitrary: prev)
  case Nil
  then show ?case by simp
next
  case (Cons p ps)
  have shift: "filter ((\<lambda>i. healthStatus ((p # ps) ! i) = risky
        \<and> (if i = 0 then prev else healthStatus ((p # ps) ! (i - 1))) \<noteq> risky
        \<and> (if i = 0 then prev else healthStatus ((p # ps) ! (i - 1))) \<noteq> unhealthy) \<circ> Suc)
        [0..<length ps]
     = filter (\<lambda>i. healthStatus (ps ! i) = risky
        \<and> (if i = 0 then healthStatus p else healthStatus (ps ! (i - 1))) \<noteq> risky
        \<and> (if i = 0 then healthStatus p else healthStatus (ps ! (i - 1))) \<noteq> unhealthy)
        [0..<length ps]"
    by (rule filter_cong) (auto simp: nth_Cons split: nat.splits)
  show ?case
    unfolding risky_firing.simps Cons.IH length_Cons filter_upt_Suc shift
    by (simp add: o_def)
qed

lemma unhealthy_firing_positions:
  "unhealthy_firing prev pts =
   map (\<lambda>i. pts ! i)
     (filter (\<lambda>i. healthStatus (pts ! i) = unhealthy
        \<and> (if i = 0 then prev else healthStatus (pts ! (i - 1))) \<noteq> unhealthy)
      [0..<length pts])"
proof (induction pts arbitrary: prev)
  case Nil
  then show ?case by simp
next
  case (Cons p ps)
  have shift: "filter ((\<lambda>i. healthStatus ((p # ps) ! i) = unhealthy
        \<and> (if i = 0 then prev else healthStatus ((p # ps) ! (i - 1))) \<noteq> unhealthy) \<circ> Suc)
        [0..<length ps]
     = filter (\<lambda>i. healthStatus (ps ! i) = unhealthy
        \<and> (if i = 0 then healthStatus p else healthStatus (ps ! (i - 1))) \<noteq> unhealthy)
        [0..<length ps]"
    by (rule filter_cong) (auto simp: nth_Cons split: nat.splits)
  show ?case
    unfolding unhealthy_firing.simps Cons.IH length_Cons filter_upt_Suc shift
    by (simp add: o_def)
qed

lemma status_not_risky_unhealthy: "(s \<noteq> risky \<and> s \<noteq> unhealthy) = (s = thriving \<or> s = ok)"
  by (cases s) simp_all

lemma risky_firing_spec:
  "risky_firing thriving pts = map (\<lambda>i. pts ! i) (spec_risky_entries pts)"
  unfolding risky_firing_positions spec_risky_entries_def spec_status_before_def
  by (simp add: status_not_risky_unhealthy conj_assoc cong: conj_cong)

lemma unhealthy_firing_spec:
  "unhealthy_firing thriving pts = map (\<lambda>i. pts ! i) (spec_unhealthy_entries pts)"
  unfolding unhealthy_firing_positions spec_unhealthy_entries_def spec_status_before_def
  by simp

text \<open>
  C3, as stated, fails: in one run over the six points of \<^const>\<open>relapse_points\<close> the risky
  alert is emitted twice (at months 24 and 26) and the unhealthy alert twice (at months 27
  and 29), each second time on a re-entry after a recovery.
\<close>

theorem status_alert_repeats_after_recovery:
  "map healthStatus relapse_points = [risky, ok, risky, unhealthy, ok, unhealthy]
   \<and> map alert_brief (filter is_risky_transition_alert
        (generateAlerts relapse_points scenarioA_profile scenarioA_routine
           \<lparr>range_min = 5.5, range_max = 10\<rparr>))
     = [(''alert-risky-24'', 24, warning), (''alert-risky-26'', 26, warning)]
   \<and> map alert_brief (filter is_unhealthy_transition_alert
        (generateAlerts relapse_points scenarioA_profile scenarioA_routine
           \<lparr>range_min = 5.5, range_max = 10\<rparr>))
     = [(''alert-unhealthy-27'', 27, critical), (''alert-unhealthy-29'', 29, critical)]"
  by code_simp

text \<open>
  C3, amended. In a run over any point sequence, \<^verbatim>\<open>generateAlerts\<close> emits the risky
  status-transition alert once for each position at which the status is risky while the
  status before (thriving before the first point) is thriving or ok, and the unhealthy
  alert once for each position at which the status is unhealthy while the status before is
  better; the alerts of each category are those of these positions, sorted by age. A
  re-entry into a status after a recovery emits another alert.
\<close>

theorem status_alerts_per_entry:
  "filter is_risky_transition_alert (generateAlerts pts profile routine idealRange) =
     sort_key alert_ageMonths
       (map (\<lambda>i. risky_alert (catName_of profile) (pts ! i)) (spec_risky_entries pts))
   \<and> filter is_unhealthy_transition_alert (generateAlerts pts profile routine idealRange) =
     sort_key alert_ageMonths
       (map (\<lambda>i. unhealthy_alert (catName_of profile) (pts ! i)) (spec_unhealthy_entries pts))"
  unfolding generateAlerts_def Let_def
  by (simp add: filter_sort loop_risky loop_unhealthy milestone_kinds risky_firing_spec
      unhealthy_firing_spec o_def)

lemma relapse_entries:
  "spec_risky_entries relapse_points = [0, 2]"
  "spec_unhealthy_entries relapse_points = [3, 5]"
  by code_simp+

theorem status_alerts_per_entry_witness:
  "spec_risky_entries relapse_points = [0, 2]
   \<and> spec_unhealthy_entries relapse_points = [3, 5]
   \<and> length (filter is_risky_transition_alert
        (generateAlerts relapse_points scenarioA_profile scenarioA_routine
           \<lparr>range_min = 5.5, range_max = 10\<rparr>)) = 2
   \<and> length (filter is_unhealthy_transition_alert
        (generateAlerts relapse_points scenarioA_profile scenarioA_routine
           \<lparr>range_min = 5.5, range_max = 10\<rparr>)) = 2"
  using status_alerts_per_entry [of relapse_points scenarioA_profile scenarioA_routine
      "\<lparr>range_min = 5.5, range_max = 10\<rparr>"]
  by (simp add: relapse_entries)

section \<open>Properties of the summary\<close>

lemma foldl_score_sum:
  "foldl (\<lambda>acc p. acc + statusScores (healthStatus p)) n ps
     = n + (\<Sum>p\<leftarrow>ps. statusScores (healthStatus p))"
  by (induction ps arbitrary: n) simp_all

lemma real_sum_list: "real (\<Sum>x\<leftarrow>xs. f x) = (\<Sum>x\<leftarrow>xs. real (f x))"
  by (induction xs) simp_all

lemma drop_as_rev_take: "drop (length xs - n) xs = rev (take n (rev xs))"
  by (simp add: take_rev)

text \<open>The average that \<^verbatim>\<open>generateSummary\<close> computes is the average score of the trailing
  24 points.\<close>

lemma avgStatus_spec:
  assumes "pts \<noteq> []"
  shows "avgStatus pts = Some (spec_trailing_average pts)"
proof -
  let ?t = "rev (take 24 (rev pts))"
  have t: "drop (length pts - 24) pts = ?t" by (rule drop_as_rev_take)
  have "?t \<noteq> []" using assms by simp
  moreover have "real (\<Sum>p\<leftarrow>?t. statusScores (healthStatus p))
      = (\<Sum>p\<leftarrow>?t. real (statusScores (healthStatus p)))"
    by (rule real_sum_list)
  ultimately show ?thesis
    unfolding avgStatus_def spec_trailing_average_def Let_def t
    by (simp add: foldl_score_sum)
qed

lemma label_distinct:
  "''excellent'' \<noteq> ''good''" "''excellent'' \<noteq> ''concerning''"
  "''excellent'' \<noteq> ''needs attention''" "''good'' \<noteq> ''concerning''"
  "''good'' \<noteq> ''needs attention''" "''concerning'' \<noteq> ''needs attention''"
  by simp_all

text \<open>
  C7, as stated, fails at the threshold: one thriving and one ok month average exactly 3.5,
  and the label is "good", not "excellent", as the summary shows.
\<close>

theorem trajectory_label_at_boundary:
  "spec_trailing_average boundary_points = 35 / 10
   \<and> trajectory_label (avgStatus boundary_points) = ''good''
   \<and> fst (generateSummary scenarioA_profile scenarioA_routine boundary_points []
        \<lparr>range_min = 5.5, range_max = 10\<rparr>)
     = ''Based on Milo's current care routine, the long-term outlook is good! With consistent care, Milo has a great chance at a healthy, happy life.''"
  by code_simp

text \<open>
  C7, amended. In \<^verbatim>\<open>generateSummary\<close>, for a non-empty list of points, the trajectory
  label computed from the average status score over the trailing 24 simulated months is
  "excellent" exactly when the average is above 3.5, "good" exactly when it is above 2.5
  and at most 3.5, "concerning" exactly when it is above 1.5 and at most 2.5, and "needs
  attention" exactly when it is at most 1.5.
\<close>

theorem trajectory_label_strict_thresholds:
  assumes "pts \<noteq> []"
  shows "(trajectory_label (avgStatus pts) = ''excellent'' \<longleftrightarrow> spec_trailing_average pts > 3.5)
    \<and> (trajectory_label (avgStatus pts) = ''good'' \<longleftrightarrow>
         2.5 < spec_trailing_average pts \<and> spec_trailing_average pts \<le> 3.5)
    \<and> (trajectory_label (avgStatus pts) = ''concerning'' \<longleftrightarrow>
         1.5 < spec_trailing_average pts \<and> spec_trailing_average pts \<le> 2.5)
    \<and> (trajectory_label (avgStatus pts) = ''needs attention'' \<longleftrightarrow>
         spec_trailing_average pts \<le> 1.5)"
  unfolding avgStatus_spec [OF assms] trajectory_label_def
  by (simp del: String.char.inject list.inject add: label_distinct label_distinct [symmetric])

lemma boundary_average: "spec_trailing_average boundary_points = 35 / 10"
  by code_simp

theorem trajectory_label_strict_thresholds_witness:
  "boundary_points \<noteq> []
   \<and> spec_trailing_average boundary_points = 35 / 10
   \<and> trajectory_label (avgStatus boundary_points) = ''good''
   \<and> trajectory_label (avgStatus boundary_points) \<noteq> ''excellent''"
proof -
  have ne: "boundary_points \<noteq> []" by (simp add: boundary_points_def)
  from trajectory_label_strict_thresholds [OF ne] show ?thesis
    using ne by (simp add: boundary_average)
qed

section \<open>Properties of the breed lookup\<close>

text \<open>
  C6. \<^verbatim>\<open>findBreedProfile\<close> is total and returns the Domestic Shorthair profile for
  \<^verbatim>\<open>null\<close>, for the empty string and for every unmatched breed name; for the breed
  "Xyzzycat" the resolved profile is the Domestic Shorthair, and
  \<^verbatim>\<open>getIdealWeightRange("Xyzzycat")\<close> returns the range from 3.5 to 5.5 kg.
\<close>

theorem findBreedProfile_defaults:
  "findBreedProfile None = domesticShorthair
   \<and> findBreedProfile (Some []) = domesticShorthair
   \<and> (\<forall>name. spec_unmatched name \<longrightarrow> findBreedProfile (Some name) = domesticShorthair)
   \<and> breed domesticShorthair = ''Domestic Shorthair''
   \<and> spec_unmatched ''Xyzzycat''
   \<and> findBreedProfile (Some ''Xyzzycat'') = domesticShorthair
   \<and> getIdealWeightRange (Some ''Xyzzycat'') = Some \<lparr>range_min = 3.5, range_max = 5.5\<rparr>"
proof -
  have unm: "findBreedProfile (Some name) = domesticShorthair" if "spec_unmatched name" for name
    using that by (simp add: spec_unmatched_names findBreedProfile_unlisted)
  have x: "findBreedProfile (Some ''Xyzzycat'') = domesticShorthair"
    by (rule unm [OF unmatched_Xyzzycat])
  have size: "js_get FALLBACK_BREED_SIZES ''xyzzycat'' = Undefined"
    by code_simp
  have "getIdealWeightRange (Some ''Xyzzycat'')
      = Some \<lparr>range_min = 3.5, range_max = 5.5\<rparr>"
    by (simp add: getIdealWeightRange_def Let_def x registry_breed normalized_Xyzzycat size
        FALLBACK_WEIGHT_RANGES_def)
  then show ?thesis
    using unm x unmatched_Xyzzycat
    by (simp add: findBreedProfile_def registry_breed)
qed

theorem findBreedProfile_defaults_witness:
  "spec_unmatched ''not a real breed''
   \<and> findBreedProfile (Some ''not a real breed'') = domesticShorthair
   \<and> breed (findBreedProfile (Some ''not a real breed'')) = ''Domestic Shorthair''"
  using findBreedProfile_defaults unmatched_not_a_real_breed
  by simp

section \<open>Properties of the enhancement layer\<close>

subsection \<open>Breed-specific risk alerts\<close>

lemma risk_alerts_subset:
  assumes "risk \<in> set (healthRisks (findBreedProfile (cat_breed profile)))"
  shows "set (risk_alerts (catName_of profile) (findBreedProfile (cat_breed profile))
            (startAge_of profile) risk)
         \<subseteq> set (generateBreedSpecificAlerts profile routine pts)"
  using assms unfolding generateBreedSpecificAlerts_def Let_def by auto

lemma maineCoon_hcm_eval:
  "condition maineCoon_hcm = ''Hypertrophic Cardiomyopathy (HCM)''"
  "riskLevel maineCoon_hcm = risk_high"
  "typicalOnsetYears maineCoon_hcm = 4"
  "maineCoon_hcm \<in> set (healthRisks maineCoon)"
  by (simp_all add: maineCoon_hcm_def maineCoon_def)

lemma registry_advice_plain:
  "list_all (\<lambda>p. list_all (\<lambda>r. take 18 (monitoringAdvice r) \<noteq> ''Start monitoring: ''
       \<and> take 10 (monitoringAdvice r) \<noteq> ''Schedule: '') (healthRisks p))
     BREED_HEALTH_DATABASE"
  by code_simp

lemma registry_risk_advice:
  assumes "r \<in> set (healthRisks (findBreedProfile b))"
  shows "take 18 (monitoringAdvice r) \<noteq> ''Start monitoring: ''"
    and "take 10 (monitoringAdvice r) \<noteq> ''Schedule: ''"
  using assms registry_advice_plain findBreedProfile_in_registry [of b]
  by (auto simp: list_all_iff)

lemma prewarning_kind:
  "is_prewarning_alert (prewarning_alert cn bp r m)"
  "\<not> is_onset_alert (prewarning_alert cn bp r m)"
  by (simp_all add: is_prewarning_alert_def is_onset_alert_def prewarning_alert_def)

lemma onset_kind:
  assumes "r \<in> set (healthRisks (findBreedProfile b))"
  shows "\<not> is_prewarning_alert (onset_alert bp r m)"
    and "is_onset_alert (onset_alert bp r m)"
  using registry_risk_advice [OF assms]
  by (simp_all add: is_prewarning_alert_def is_onset_alert_def is_screening_alert_def
      onset_alert_def)

lemma screening_kind:
  "filter is_prewarning_alert (screening_alerts cn st s) = []"
  "filter is_onset_alert (screening_alerts cn st s) = []"
  by (simp_all add: screening_alerts_def Let_def is_prewarning_alert_def is_onset_alert_def
      is_screening_alert_def)

lemma concat_map_if:
  "concat (map (\<lambda>x. if c x then [g x] else []) xs) = map g (filter c xs)"
  by (induction xs) simp_all

lemma concat_map_Nil:
  "concat (map (\<lambda>x. []) xs) = []"
  by (induction xs) simp_all

lemma filter_concat_map:
  "filter P (concat (map f xs)) = concat (map (\<lambda>x. filter P (f x)) xs)"
  by (induction xs) simp_all

lemma risk_alerts_prewarning:
  assumes "r \<in> set (healthRisks (findBreedProfile b))"
  shows "filter is_prewarning_alert (risk_alerts cn bp st r) =
     (if of_int st * 12 < spec_onset_month r
      then [prewarning_alert cn bp r (max (spec_onset_month r - 12) (of_int st * 12))]
      else [])"
  using onset_kind [OF assms]
  by (auto simp: risk_alerts_def Let_def spec_onset_month_def prewarning_kind max_def)

lemma risk_alerts_onset:
  assumes "r \<in> set (healthRisks (findBreedProfile b))"
  shows "filter is_onset_alert (risk_alerts cn bp st r) =
     (if of_int st * 12 \<le> spec_onset_month r
      then [onset_alert bp r (spec_onset_month r)] else [])"
  using onset_kind [OF assms]
  by (auto simp: risk_alerts_def Let_def spec_onset_month_def prewarning_kind)

lemma breed_alerts_prewarning:
  "filter is_prewarning_alert (generateBreedSpecificAlerts profile routine pts) =
   sort_key alert_ageMonths
     (map (\<lambda>r. prewarning_alert (catName_of profile) (findBreedProfile (cat_breed profile)) r
               (max (spec_onset_month r - 12) (of_int (startAge_of profile) * 12)))
        (filter (\<lambda>r. of_int (startAge_of profile) * 12 < spec_onset_month r)
           (healthRisks (findBreedProfile (cat_breed profile)))))"
proof -
  let ?bp = "findBreedProfile (cat_breed profile)"
  have "concat (map (\<lambda>r. filter is_prewarning_alert
            (risk_alerts (catName_of profile) ?bp (startAge_of profile) r)) (healthRisks ?bp))
      = concat (map (\<lambda>r. if of_int (startAge_of profile) * 12 < spec_onset_month r
          then [prewarning_alert (catName_of profile) ?bp r
                  (max (spec_onset_month r - 12) (of_int (startAge_of profile) * 12))]
          else []) (healthRisks ?bp))"
    by (rule arg_cong [where f = concat], rule map_cong [OF refl])
      (rule risk_alerts_prewarning)
  then show ?thesis
    unfolding generateBreedSpecificAlerts_def Let_def
    by (simp add: filter_sort filter_concat_map screening_kind concat_map_if concat_map_Nil)
qed

lemma breed_alerts_onset:
  "filter is_onset_alert (generateBreedSpecificAlerts profile routine pts) =
   sort_key alert_ageMonths
     (map (\<lambda>r. onset_alert (findBreedProfile (cat_breed profile)) r (spec_onset_month r))
        (filter (\<lambda>r. of_int (startAge_of profile) * 12 \<le> spec_onset_month r)
           (healthRisks (findBreedProfile (cat_breed profile)))))"
proof -
  let ?bp = "findBreedProfile (cat_breed profile)"
  have "concat (map (\<lambda>r. filter is_onset_alert
            (risk_alerts (catName_of profile) ?bp (startAge_of profile) r)) (healthRisks ?bp))
      = concat (map (\<lambda>r. if of_int (startAge_of profile) * 12 \<le> spec_onset_month r
          then [onset_alert ?bp r (spec_onset_month r)] else []) (healthRisks ?bp))"
    by (rule arg_cong [where f = concat], rule map_cong [OF refl])
      (rule risk_alerts_onset)
  then show ?thesis
    unfolding generateBreedSpecificAlerts_def Let_def
    by (simp add: filter_sort filter_concat_map screening_kind concat_map_if concat_map_Nil)
qed

lemma simulation_start_ge:
  assumes "0 \<le> (case cat_ageMonths profile of None \<Rightarrow> 0 | Some m \<Rightarrow> m)"
  shows "(of_int (startAge_of profile) * 12 :: real) \<le> of_int (simulation_start profile)"
proof -
  have "startAge_of profile * 12 \<le> simulation_start profile"
    using assms unfolding simulation_start_def startAge_of_def by simp
  then have "(of_int (startAge_of profile * 12) :: real) \<le> of_int (simulation_start profile)"
    by (simp only: of_int_le_iff)
  then show ?thesis by simp
qed

lemma simulation_start_whole_years:
  assumes "cat_ageMonths profile = None \<or> cat_ageMonths profile = Some 0"
  shows "(of_int (simulation_start profile) :: real) = of_int (startAge_of profile) * 12"
  using assms unfolding simulation_start_def startAge_of_def by auto

text \<open>
  C8, as stated, fails: for a Maine Coon of four years the onset of hypertrophic
  cardiomyopathy, a registry risk of the breed, is month 48, the first month of the
  simulated range; the alerts hold its onset alert and no pre-warning for it.
\<close>

theorem no_prewarning_when_onset_is_start:
  "condition maineCoon_hcm = ''Hypertrophic Cardiomyopathy (HCM)''
   \<and> maineCoon_hcm \<in> set (healthRisks (findBreedProfile (Some ''Maine Coon'')))
   \<and> typicalOnsetYears maineCoon_hcm * 12 = 48
   \<and> of_int (startAge_of (scenarioA_profile\<lparr>cat_ageYears := Some 4\<rparr>)) * 12 = (48 :: real)
   \<and> map alert_brief
        (generateBreedSpecificAlerts (scenarioA_profile\<lparr>cat_ageYears := Some 4\<rparr>)
           scenarioA_routine [])
     = [(''breed-hypertrophic-cardiomyopathy-(hcm)-onset-48'', 48, critical),
        (''breed-screening-5'', 60, info),
        (''breed-polycystic-kidney-disease-(pkd)-prewarning-72'', 72, info),
        (''breed-polycystic-kidney-disease-(pkd)-onset-84'', 84, warning),
        (''breed-screening-7'', 84, info),
        (''breed-screening-10'', 120, info)]"
proof -
  have "map alert_brief
        (generateBreedSpecificAlerts (scenarioA_profile\<lparr>cat_ageYears := Some 4\<rparr>)
           scenarioA_routine [])
     = [(''breed-hypertrophic-cardiomyopathy-(hcm)-onset-48'', 48, critical),
        (''breed-screening-5'', 60, info),
        (''breed-polycystic-kidney-disease-(pkd)-prewarning-72'', 72, info),
        (''breed-polycystic-kidney-disease-(pkd)-onset-84'', 84, warning),
        (''breed-screening-7'', 84, info),
        (''breed-screening-10'', 120, info)]"
    by code_simp
  then show ?thesis
    by (simp add: maineCoon_hcm_eval findBreedProfile_Maine_Coon startAge_of_def
        scenarioA_profile_def)
qed

text \<open>
  C8, amended. For every registry health risk of the resolved breed whose onset month
  (twelve times its typical onset in years) is within the simulated range, that is, not
  before the simulation start, \<^verbatim>\<open>generateBreedSpecificAlerts\<close> returns an onset alert at
  the exact onset month, whose severity is critical exactly when the risk's level is high
  and warning otherwise; when the month one year before the onset is within the simulated
  range too, it returns a pre-warning alert at that month. For a profile whose age is in
  whole years the pre-warning alerts returned are exactly one for each risk whose onset
  is after the simulation start, at the later of one year before the onset and the
  simulation start, and the onset alerts returned are exactly one for each risk whose
  onset is not before the simulation start: a risk whose onset month is the simulation
  start has an onset alert and no pre-warning.
\<close>

theorem breed_risk_alerts_in_range:
  assumes risk: "risk \<in> set (healthRisks (findBreedProfile (cat_breed profile)))"
    and months: "0 \<le> (case cat_ageMonths profile of None \<Rightarrow> 0 | Some m \<Rightarrow> m)"
    and inrange: "of_int (simulation_start profile) \<le> spec_onset_month risk"
  shows "onset_alert (findBreedProfile (cat_breed profile)) risk (spec_onset_month risk)
           \<in> set (generateBreedSpecificAlerts profile routine pts)
    \<and> is_onset_alert
        (onset_alert (findBreedProfile (cat_breed profile)) risk (spec_onset_month risk))
    \<and> alert_ageMonths
        (onset_alert (findBreedProfile (cat_breed profile)) risk (spec_onset_month risk))
        = spec_onset_month risk
    \<and> severity
        (onset_alert (findBreedProfile (cat_breed profile)) risk (spec_onset_month risk))
        = (if riskLevel risk = risk_high then critical else warning)
    \<and> (of_int (simulation_start profile) \<le> spec_onset_month risk - 12 \<longrightarrow>
          prewarning_alert (catName_of profile) (findBreedProfile (cat_breed profile)) risk
            (spec_onset_month risk - 12)
          \<in> set (generateBreedSpecificAlerts profile routine pts)
        \<and> is_prewarning_alert
            (prewarning_alert (catName_of profile) (findBreedProfile (cat_breed profile)) risk
               (spec_onset_month risk - 12))
        \<and> alert_ageMonths
            (prewarning_alert (catName_of profile) (findBreedProfile (cat_breed profile)) risk
               (spec_onset_month risk - 12))
          = spec_onset_month risk - 12)
    \<and> (cat_ageMonths profile = None \<or> cat_ageMonths profile = Some 0 \<longrightarrow>
          filter is_prewarning_alert (generateBreedSpecificAlerts profile routine pts) =
            sort_key alert_ageMonths
              (map (\<lambda>r. prewarning_alert (catName_of profile)
                        (findBreedProfile (cat_breed profile)) r
                        (max (spec_onset_month r - 12) (of_int (simulation_start profile))))
                 (filter (\<lambda>r. of_int (simulation_start profile) < spec_onset_month r)
                    (healthRisks (findBreedProfile (cat_breed profile)))))
        \<and> filter is_onset_alert (generateBreedSpecificAlerts profile routine pts) =
            sort_key alert_ageMonths
              (map (\<lambda>r. onset_alert (findBreedProfile (cat_breed profile)) r
                        (spec_onset_month r))
                 (filter (\<lambda>r. of_int (simulation_start profile) \<le> spec_onset_month r)
                    (healthRisks (findBreedProfile (cat_breed profile))))))"
proof -
  let ?bp = "findBreedProfile (cat_breed profile)"
  let ?on = "spec_onset_month risk"
  let ?st = "of_int (startAge_of profile) * 12 :: real"
  let ?ra = "risk_alerts (catName_of profile) ?bp (startAge_of profile) risk"
  have st: "?st \<le> of_int (simulation_start profile)"
    by (rule simulation_start_ge [OF months])
  have sub: "set ?ra \<subseteq> set (generateBreedSpecificAlerts profile routine pts)"
    by (rule risk_alerts_subset [OF risk])
  have "onset_alert ?bp risk ?on \<in> set ?ra"
    using inrange st by (simp add: risk_alerts_def Let_def spec_onset_month_def)
  then have on_in: "onset_alert ?bp risk ?on
      \<in> set (generateBreedSpecificAlerts profile routine pts)"
    using sub by blast
  have pre_in: "prewarning_alert (catName_of profile) ?bp risk (?on - 12)
      \<in> set (generateBreedSpecificAlerts profile routine pts)"
    if "of_int (simulation_start profile) \<le> ?on - 12"
  proof -
    from that st have "?st \<le> ?on - 12" by linarith
    then have "prewarning_alert (catName_of profile) ?bp risk (?on - 12) \<in> set ?ra"
      by (simp add: risk_alerts_def Let_def spec_onset_month_def max_def)
    then show ?thesis using sub by blast
  qed
  have exact: "filter is_prewarning_alert (generateBreedSpecificAlerts profile routine pts) =
      sort_key alert_ageMonths
        (map (\<lambda>r. prewarning_alert (catName_of profile) ?bp r
                  (max (spec_onset_month r - 12) (of_int (simulation_start profile))))
           (filter (\<lambda>r. of_int (simulation_start profile) < spec_onset_month r)
              (healthRisks ?bp)))
    \<and> filter is_onset_alert (generateBreedSpecificAlerts profile routine pts) =
      sort_key alert_ageMonths
        (map (\<lambda>r. onset_alert ?bp r (spec_onset_month r))
           (filter (\<lambda>r. of_int (simulation_start profile) \<le> spec_onset_month r)
              (healthRisks ?bp)))"
    if "cat_ageMonths profile = None \<or> cat_ageMonths profile = Some 0"
    unfolding simulation_start_whole_years [OF that]
    using breed_alerts_prewarning breed_alerts_onset by blast
  show ?thesis
    using on_in pre_in exact onset_kind(2) [OF risk] prewarning_kind(1)
    by (simp add: onset_alert_def prewarning_alert_def)
qed

lemma scenarioA_profile_eval:
  "findBreedProfile (cat_breed (scenarioA_profile\<lparr>cat_ageYears := Some y\<rparr>)) = maineCoon"
  "catName_of (scenarioA_profile\<lparr>cat_ageYears := Some y\<rparr>) = ''Milo''"
  "cat_ageMonths (scenarioA_profile\<lparr>cat_ageYears := Some y\<rparr>) = Some 0"
  "simulation_start (scenarioA_profile\<lparr>cat_ageYears := Some y\<rparr>) = y * 12"
  "findBreedProfile (cat_breed scenarioA_profile) = maineCoon"
  "cat_ageMonths scenarioA_profile = Some 0"
  by (simp_all add: scenarioA_profile_def DEFAULT_CAT_PROFILE_def findBreedProfile_Maine_Coon
      catName_of_def simulation_start_def)

lemma maineCoon_prewarnings_from_48:
  "map alert_brief (sort_key alert_ageMonths
     (map (\<lambda>r. prewarning_alert ''Milo'' maineCoon r (max (spec_onset_month r - 12) 48))
        (filter (\<lambda>r. 48 < spec_onset_month r) (healthRisks maineCoon))))
   = [(''breed-polycystic-kidney-disease-(pkd)-prewarning-72'', 72, info)]"
  by code_simp

lemma maineCoon_onsets_from_48:
  "map alert_brief (sort_key alert_ageMonths
     (map (\<lambda>r. onset_alert maineCoon r (spec_onset_month r))
        (filter (\<lambda>r. 48 \<le> spec_onset_month r) (healthRisks maineCoon))))
   = [(''breed-hypertrophic-cardiomyopathy-(hcm)-onset-48'', 48, critical),
      (''breed-polycystic-kidney-disease-(pkd)-onset-84'', 84, warning)]"
  by code_simp

lemma maineCoon_prewarnings_from_12:
  "map alert_brief (sort_key alert_ageMonths
     (map (\<lambda>r. prewarning_alert ''Milo'' maineCoon r (max (spec_onset_month r - 12) 12))
        (filter (\<lambda>r. 12 < spec_onset_month r) (healthRisks maineCoon))))
   = [(''breed-hip-dysplasia-prewarning-12'', 12, info),
      (''breed-hypertrophic-cardiomyopathy-(hcm)-prewarning-36'', 36, warning),
      (''breed-polycystic-kidney-disease-(pkd)-prewarning-72'', 72, info)]"
  by code_simp

text \<open>For the Maine Coon Milo the onset of hypertrophic cardiomyopathy, a high risk, is
  month 48. Simulated from one year of age (month 12), the alerts hold its critical onset
  alert at month 48 and its pre-warning at month 36, and the pre-warning for hip dysplasia
  (onset at month 24) is clamped to month 12. Simulated from four years of age (month 48),
  the onset alert is there and the only pre-warning is that of polycystic kidney
  disease.\<close>

theorem breed_risk_alerts_in_range_witness:
  "maineCoon_hcm \<in> set (healthRisks (findBreedProfile (cat_breed scenarioA_profile)))
   \<and> simulation_start scenarioA_profile = 12
   \<and> simulation_start (scenarioA_profile\<lparr>cat_ageYears := Some 4\<rparr>) = 48
   \<and> spec_onset_month maineCoon_hcm = 48
   \<and> riskLevel maineCoon_hcm = risk_high
   \<and> onset_alert maineCoon maineCoon_hcm 48
       \<in> set (generateBreedSpecificAlerts scenarioA_profile scenarioA_routine [])
   \<and> severity (onset_alert maineCoon maineCoon_hcm 48) = critical
   \<and> prewarning_alert ''Milo'' maineCoon maineCoon_hcm 36
       \<in> set (generateBreedSpecificAlerts scenarioA_profile scenarioA_routine [])
   \<and> map alert_brief (filter is_prewarning_alert
         (generateBreedSpecificAlerts scenarioA_profile scenarioA_routine []))
     = [(''breed-hip-dysplasia-prewarning-12'', 12, info),
        (''breed-hypertrophic-cardiomyopathy-(hcm)-prewarning-36'', 36, warning),
        (''breed-polycystic-kidney-disease-(pkd)-prewarning-72'', 72, info)]
   \<and> onset_alert maineCoon maineCoon_hcm 48
       \<in> set (generateBreedSpecificAlerts (scenarioA_profile\<lparr>cat_ageYears := Some 4\<rparr>)
                scenarioA_routine [])
   \<and> map alert_brief (filter is_prewarning_alert
         (generateBreedSpecificAlerts (scenarioA_profile\<lparr>cat_ageYears := Some 4\<rparr>)
            scenarioA_routine []))
     = [(''breed-polycystic-kidney-disease-(pkd)-prewarning-72'', 72, info)]
   \<and> map alert_brief (filter is_onset_alert
         (generateBreedSpecificAlerts (scenarioA_profile\<lparr>cat_ageYears := Some 4\<rparr>)
            scenarioA_routine []))
     = [(''breed-hypertrophic-cardiomyopathy-(hcm)-onset-48'', 48, critical),
        (''breed-polycystic-kidney-disease-(pkd)-onset-84'', 84, warning)]"
proof -
  let ?p1 = "scenarioA_profile\<lparr>cat_ageYears := Some 1\<rparr>"
  let ?p4 = "scenarioA_profile\<lparr>cat_ageYears := Some 4\<rparr>"
  have p1: "?p1 = scenarioA_profile"
    by (simp add: scenarioA_profile_def DEFAULT_CAT_PROFILE_def)
  have on: "spec_onset_month maineCoon_hcm = 48"
    by (simp add: spec_onset_month_def maineCoon_hcm_eval)
  have months: "0 \<le> (case cat_ageMonths (scenarioA_profile\<lparr>cat_ageYears := Some y\<rparr>)
      of None \<Rightarrow> 0 | Some m \<Rightarrow> m)" for y
    by (simp add: scenarioA_profile_eval)
  have r1: "maineCoon_hcm \<in> set (healthRisks (findBreedProfile (cat_breed ?p1)))"
    by (simp add: scenarioA_profile_eval maineCoon_hcm_eval)
  have r4: "maineCoon_hcm \<in> set (healthRisks (findBreedProfile (cat_breed ?p4)))"
    by (simp add: scenarioA_profile_eval maineCoon_hcm_eval)
  have i1: "of_int (simulation_start ?p1) \<le> spec_onset_month maineCoon_hcm"
    by (simp add: scenarioA_profile_eval on)
  have i4: "of_int (simulation_start ?p4) \<le> spec_onset_month maineCoon_hcm"
    by (simp add: scenarioA_profile_eval on)
  note t1 = breed_risk_alerts_in_range [OF r1 months i1, of scenarioA_routine "[]",
      unfolded scenarioA_profile_eval on]
  note t4 = breed_risk_alerts_in_range [OF r4 months i4, of scenarioA_routine "[]",
      unfolded scenarioA_profile_eval on]
  have a1: "onset_alert maineCoon maineCoon_hcm 48
        \<in> set (generateBreedSpecificAlerts ?p1 scenarioA_routine [])"
    using t1 by blast
  have a2: "severity (onset_alert maineCoon maineCoon_hcm 48) = critical"
    using t1 by (simp add: maineCoon_hcm_eval)
  have a3: "prewarning_alert ''Milo'' maineCoon maineCoon_hcm 36
        \<in> set (generateBreedSpecificAlerts ?p1 scenarioA_routine [])"
    using t1 by simp
  have "filter is_prewarning_alert (generateBreedSpecificAlerts ?p1 scenarioA_routine []) =
      sort_key alert_ageMonths
        (map (\<lambda>r. prewarning_alert ''Milo'' maineCoon r (max (spec_onset_month r - 12) 12))
           (filter (\<lambda>r. 12 < spec_onset_month r) (healthRisks maineCoon)))"
    using t1 by simp
  then have a4: "map alert_brief (filter is_prewarning_alert
         (generateBreedSpecificAlerts ?p1 scenarioA_routine []))
     = [(''breed-hip-dysplasia-prewarning-12'', 12, info),
        (''breed-hypertrophic-cardiomyopathy-(hcm)-prewarning-36'', 36, warning),
        (''breed-polycystic-kidney-disease-(pkd)-prewarning-72'', 72, info)]"
    by (simp only: maineCoon_prewarnings_from_12)
  have b1: "onset_alert maineCoon maineCoon_hcm 48
        \<in> set (generateBreedSpecificAlerts ?p4 scenarioA_routine [])"
    using t4 by blast
  have "filter is_prewarning_alert (generateBreedSpecificAlerts ?p4 scenarioA_routine []) =
      sort_key alert_ageMonths
        (map (\<lambda>r. prewarning_alert ''Milo'' maineCoon r (max (spec_onset_month r - 12) 48))
           (filter (\<lambda>r. 48 < spec_onset_month r) (healthRisks maineCoon)))"
    using t4 by simp
  then have b2: "map alert_brief (filter is_prewarning_alert
         (generateBreedSpecificAlerts ?p4 scenarioA_routine []))
     = [(''breed-polycystic-kidney-disease-(pkd)-prewarning-72'', 72, info)]"
    by (simp only: maineCoon_prewarnings_from_48)
  have "filter is_onset_alert (generateBreedSpecificAlerts ?p4 scenarioA_routine []) =
      sort_key alert_ageMonths
        (map (\<lambda>r. onset_alert maineCoon r (spec_onset_month r))
           (filter (\<lambda>r. 48 \<le> spec_onset_month r) (healthRisks maineCoon)))"
    using t4 by simp
  then have b3: "map alert_brief (filter is_onset_alert
         (generateBreedSpecificAlerts ?p4 scenarioA_routine []))
     = [(''breed-hypertrophic-cardiomyopathy-(hcm)-onset-48'', 48, critical),
        (''breed-polycystic-kidney-disease-(pkd)-onset-84'', 84, warning)]"
    by (simp only: maineCoon_onsets_from_48)
  have s1: "simulation_start scenarioA_profile = 12"
    using scenarioA_profile_eval(4) [of 1] unfolding p1 by simp
  have s4: "simulation_start ?p4 = 48"
    by (simp add: scenarioA_profile_eval)
  have r0: "maineCoon_hcm \<in> set (healthRisks (findBreedProfile (cat_breed scenarioA_profile)))"
    using r1 unfolding p1 .
  note c1 = a1 [unfolded p1] and c3 = a3 [unfolded p1] and c4 = a4 [unfolded p1]
  show ?thesis
    by (intro conjI) (fact r0 s1 s4 on maineCoon_hcm_eval(2) c1 a2 c3 c4 b1 b2 b3)+
qed

subsection \<open>Fallback to the local enhancement\<close>

text \<open>
  C5. For every base result, profile and routine, when the external milestone-note call
  fails (it throws, the response is not OK, or the payload cannot be read or misses
  \<^verbatim>\<open>success\<close> or \<^verbatim>\<open>notes\<close>), \<^verbatim>\<open>enhanceSimulationWithGPT\<close> returns exactly the result of
  \<^verbatim>\<open>enhanceSimulationLocally\<close> for the same inputs.
\<close>

theorem enhanceSimulationWithGPT_fallback:
  assumes "spec_call_failed
     (fetch (milestone_request result profile routine
        (enhanceSimulationLocally result profile routine)))"
  shows "enhanceSimulationWithGPT fetch result profile routine =
     enhanceSimulationLocally result profile routine"
  using assms unfolding enhanceSimulationWithGPT_def spec_call_failed_def Let_def
  by (auto split: fetch_outcome.splits api_body.splits option.splits)

theorem enhanceSimulationWithGPT_fallback_witness:
  "enhanceSimulationWithGPT fetch_network_error boundary_result scenarioA_profile
     scenarioA_routine
     = enhanceSimulationLocally boundary_result scenarioA_profile scenarioA_routine
   \<and> enhanceSimulationWithGPT fetch_server_error boundary_result scenarioA_profile
     scenarioA_routine
     = enhanceSimulationLocally boundary_result scenarioA_profile scenarioA_routine
   \<and> enhanceSimulationWithGPT fetch_no_notes boundary_result scenarioA_profile
     scenarioA_routine
     = enhanceSimulationLocally boundary_result scenarioA_profile scenarioA_routine"
proof -
  have "spec_call_failed (fetch_network_error request)"
    "spec_call_failed (fetch_server_error request)"
    "spec_call_failed (fetch_no_notes request)" for request
    by (simp_all add: spec_call_failed_def fetch_network_error_def fetch_server_error_def
        fetch_no_notes_def)
  then show ?thesis
    using enhanceSimulationWithGPT_fallback [of fetch_network_error]
      enhanceSimulationWithGPT_fallback [of fetch_server_error]
      enhanceSimulationWithGPT_fallback [of fetch_no_notes]
    by blast
qed

subsection \<open>The simulated values are kept\<close>

lemma enhance_point_core:
  "ageMonths (enhance_point bp p) = ageMonths p"
  "weightKgEstimate (enhance_point bp p) = weightKgEstimate p"
  "healthStatus (enhance_point bp p) = healthStatus p"
  "point_notes (enhance_point bp p) = point_notes p"
  by (simp_all add: enhance_point_def SimulationPoint.extend_def)

lemma enhance_point_truncate: "SimulationPoint.truncate (enhance_point bp p) = p"
  by (simp add: enhance_point_def SimulationPoint.extend_def SimulationPoint.truncate_def)

lemma merge_note_core:
  "ageMonths (merge_note ns p) = ageMonths p"
  "weightKgEstimate (merge_note ns p) = weightKgEstimate p"
  "healthStatus (merge_note ns p) = healthStatus p"
  by (simp_all add: merge_note_def Let_def split: option.splits)

lemma local_enhancedPoints:
  "enhancedPoints (enhanceSimulationLocally result profile routine) =
   map (enhance_point (findBreedProfile (cat_breed profile))) (points result)"
  by (simp add: enhanceSimulationLocally_def Let_def SimulationResult.extend_def
      EnhancedSimulationResult.fields_def)

text \<open>The enhanced points of \<^verbatim>\<open>enhanceSimulationWithGPT\<close> are those of the local
  enhancement, each left as it is or merged with a note.\<close>

lemma gpt_enhancedPoints:
  "\<exists>f. (f = id \<or> (\<exists>ns. f = merge_note ns)) \<and>
     enhancedPoints (enhanceSimulationWithGPT fetch result profile routine) =
     map f (enhancedPoints (enhanceSimulationLocally result profile routine))"
  unfolding enhanceSimulationWithGPT_def Let_def
  by (auto split: fetch_outcome.splits api_body.splits option.splits intro: exI[of _ id])

text \<open>
  C9. Enhancement never alters the simulated values. For every base result, profile and
  routine, the enhanced points of \<^verbatim>\<open>enhanceSimulationLocally\<close> are the base points, in
  order, each with added fields only; and whatever the external call returns, the enhanced
  points of \<^verbatim>\<open>enhanceSimulationWithGPT\<close> have the ages, weight estimates and health
  statuses of the base points, in order.
\<close>

theorem enhancement_keeps_simulated_values:
  "map SimulationPoint.truncate
     (enhancedPoints (enhanceSimulationLocally result profile routine)) = points result
   \<and> map ageMonths (enhancedPoints (enhanceSimulationWithGPT fetch result profile routine))
       = map ageMonths (points result)
   \<and> map weightKgEstimate
       (enhancedPoints (enhanceSimulationWithGPT fetch result profile routine))
       = map weightKgEstimate (points result)
   \<and> map healthStatus (enhancedPoints (enhanceSimulationWithGPT fetch result profile routine))
       = map healthStatus (points result)"
proof -
  obtain f where f: "f = id \<or> (\<exists>ns. f = merge_note ns)"
    and eq: "enhancedPoints (enhanceSimulationWithGPT fetch result profile routine) =
      map f (enhancedPoints (enhanceSimulationLocally result profile routine))"
    using gpt_enhancedPoints by blast
  have core: "ageMonths (f p) = ageMonths p" "weightKgEstimate (f p) = weightKgEstimate p"
    "healthStatus (f p) = healthStatus p" for p
    using f by (auto simp: merge_note_core)
  have l: "map SimulationPoint.truncate
     (enhancedPoints (enhanceSimulationLocally result profile routine)) = points result"
    by (simp add: local_enhancedPoints o_def enhance_point_truncate)
  show ?thesis
    unfolding eq local_enhancedPoints
    using l by (simp add: o_def core enhance_point_core local_enhancedPoints)
qed

subsection \<open>The default trajectory\<close>

text \<open>
  C10. For every profile and routine, if the point list has fewer than two yearly points
  (points whose age is divisible by 12), \<^verbatim>\<open>analyzeTrajectory\<close> returns the fixed default
  trajectory: trend stable, projected status ok at year 10 and at year 15, no risk factors,
  no positive factors and an average health score of exactly 3.
\<close>

theorem analyzeTrajectory_default:
  assumes "length (spec_yearly pts) < 2"
  shows "analyzeTrajectory pts profile routine =
     \<lparr>trend = stable, projectedStatusAtYear10 = ok, projectedStatusAtYear15 = ok,
      riskFactors = [], positiveFactors = [], averageHealthScore = 3\<rparr>"
proof -
  have same: "filter (\<lambda>p. ageMonths p mod 12 = 0) pts = spec_yearly pts"
    unfolding spec_yearly_def by (rule filter_cong) (auto simp: dvd_eq_mod_eq_0)
  show ?thesis
    unfolding analyzeTrajectory_def Let_def same using assms by simp
qed

text \<open>Of the months 239 and 240 only the second is a yearly point; the profile and routine
  of Scenario A, which has dry food among its risk factors, are ignored.\<close>

theorem analyzeTrajectory_default_witness:
  "length (spec_yearly boundary_points) = 1
   \<and> analyzeTrajectory boundary_points scenarioA_profile scenarioA_routine =
     \<lparr>trend = stable, projectedStatusAtYear10 = ok, projectedStatusAtYear15 = ok,
      riskFactors = [], positiveFactors = [], averageHealthScore = 3\<rparr>"
proof -
  have one: "length (spec_yearly boundary_points) = 1"
    by (simp add: spec_yearly_def boundary_points_def point_at_def)
  then have "length (spec_yearly boundary_points) < 2" by simp
  from analyzeTrajectory_default [OF this] one show ?thesis by simp
qed


end
